theory Spec2Isabelle
  imports Complex_Main
begin

section \<open>Doubles\<close>

text \<open>
  A \<^verbatim>\<open>double\<close> is modelled as an exact real number or one of the three special values
  of IEEE 754. Rounding, overflow and the sign of zero are not modelled: a finite
  operation returns the exact real result, and \<open>x / 0\<close> is \<open>+inf\<close> for \<open>x > 0\<close>,
  \<open>-inf\<close> for \<open>x < 0\<close> and NaN for \<open>x = 0\<close>. A comparison with NaN is false.
  Rounding and overflow are added in the section on IEEE 754 rounding, for the one
  statement that depends on them: the correction of the collision constraint.
\<close>

datatype dbl = Fin real | PInf | NInf | NaN

fun is_Fin :: "dbl \<Rightarrow> bool" where
  "is_Fin (Fin a) = True"
| "is_Fin PInf = False"
| "is_Fin NInf = False"
| "is_Fin NaN = False"

fun isnan :: "dbl \<Rightarrow> bool" where
  "isnan NaN = True"
| "isnan (Fin a) = False"
| "isnan PInf = False"
| "isnan NInf = False"

instantiation dbl :: "{zero, uminus, plus, minus, times, inverse, abs, ord}"
begin

definition zero_dbl :: dbl where
  "zero_dbl = Fin 0"

fun uminus_dbl :: "dbl \<Rightarrow> dbl" where
  "uminus_dbl (Fin a) = Fin (- a)"
| "uminus_dbl PInf = NInf"
| "uminus_dbl NInf = PInf"
| "uminus_dbl NaN = NaN"

fun plus_dbl :: "dbl \<Rightarrow> dbl \<Rightarrow> dbl" where
  "plus_dbl (Fin a) (Fin b) = Fin (a + b)"
| "plus_dbl NaN y = NaN"
| "plus_dbl x NaN = NaN"
| "plus_dbl PInf NInf = NaN"
| "plus_dbl NInf PInf = NaN"
| "plus_dbl PInf y = PInf"
| "plus_dbl x PInf = PInf"
| "plus_dbl NInf y = NInf"
| "plus_dbl x NInf = NInf"

definition minus_dbl :: "dbl \<Rightarrow> dbl \<Rightarrow> dbl" where
  "minus_dbl x y = x + (- y)"

fun times_dbl :: "dbl \<Rightarrow> dbl \<Rightarrow> dbl" where
  "times_dbl (Fin a) (Fin b) = Fin (a * b)"
| "times_dbl NaN y = NaN"
| "times_dbl x NaN = NaN"
| "times_dbl PInf (Fin b) = (if b = 0 then NaN else if 0 < b then PInf else NInf)"
| "times_dbl NInf (Fin b) = (if b = 0 then NaN else if 0 < b then NInf else PInf)"
| "times_dbl (Fin a) PInf = (if a = 0 then NaN else if 0 < a then PInf else NInf)"
| "times_dbl (Fin a) NInf = (if a = 0 then NaN else if 0 < a then NInf else PInf)"
| "times_dbl PInf PInf = PInf"
| "times_dbl PInf NInf = NInf"
| "times_dbl NInf PInf = NInf"
| "times_dbl NInf NInf = PInf"

fun divide_dbl :: "dbl \<Rightarrow> dbl \<Rightarrow> dbl" where
  "divide_dbl (Fin a) (Fin b) =
     (if b \<noteq> 0 then Fin (a / b)
      else if a = 0 then NaN else if 0 < a then PInf else NInf)"
| "divide_dbl NaN y = NaN"
| "divide_dbl x NaN = NaN"
| "divide_dbl (Fin a) PInf = Fin 0"
| "divide_dbl (Fin a) NInf = Fin 0"
| "divide_dbl PInf (Fin b) = (if 0 \<le> b then PInf else NInf)"
| "divide_dbl NInf (Fin b) = (if 0 \<le> b then NInf else PInf)"
| "divide_dbl PInf PInf = NaN"
| "divide_dbl PInf NInf = NaN"
| "divide_dbl NInf PInf = NaN"
| "divide_dbl NInf NInf = NaN"

definition inverse_dbl :: "dbl \<Rightarrow> dbl" where
  "inverse_dbl x = divide (Fin 1) x"

fun abs_dbl :: "dbl \<Rightarrow> dbl" where
  "abs_dbl (Fin a) = Fin \<bar>a\<bar>"
| "abs_dbl PInf = PInf"
| "abs_dbl NInf = PInf"
| "abs_dbl NaN = NaN"

fun less_dbl :: "dbl \<Rightarrow> dbl \<Rightarrow> bool" where
  "less_dbl (Fin a) (Fin b) = (a < b)"
| "less_dbl NaN y = False"
| "less_dbl x NaN = False"
| "less_dbl PInf y = False"
| "less_dbl x PInf = True"
| "less_dbl NInf (Fin b) = True"
| "less_dbl NInf NInf = False"
| "less_dbl (Fin a) NInf = False"

fun less_eq_dbl :: "dbl \<Rightarrow> dbl \<Rightarrow> bool" where
  "less_eq_dbl (Fin a) (Fin b) = (a \<le> b)"
| "less_eq_dbl NaN y = False"
| "less_eq_dbl x NaN = False"
| "less_eq_dbl NInf y = True"
| "less_eq_dbl x PInf = True"
| "less_eq_dbl PInf (Fin b) = False"
| "less_eq_dbl PInf NInf = False"
| "less_eq_dbl (Fin a) NInf = False"

instance ..

end

text \<open>\<^verbatim>\<open>std::sqrt\<close>, \<^verbatim>\<open>std::acos\<close>, \<^verbatim>\<open>std::min\<close> and \<^verbatim>\<open>std::max\<close>.\<close>

fun std_sqrt :: "dbl \<Rightarrow> dbl" where
  "std_sqrt (Fin a) = (if 0 \<le> a then Fin (sqrt a) else NaN)"
| "std_sqrt PInf = PInf"
| "std_sqrt NInf = NaN"
| "std_sqrt NaN = NaN"

fun std_acos :: "dbl \<Rightarrow> dbl" where
  "std_acos (Fin a) = (if - 1 \<le> a \<and> a \<le> 1 then Fin (arccos a) else NaN)"
| "std_acos PInf = NaN"
| "std_acos NInf = NaN"
| "std_acos NaN = NaN"

definition std_min :: "dbl \<Rightarrow> dbl \<Rightarrow> dbl" where
  "std_min a b = (if b < a then b else a)"

definition std_max :: "dbl \<Rightarrow> dbl \<Rightarrow> dbl" where
  "std_max a b = (if a < b then b else a)"


section \<open>Eigen vectors and matrices\<close>

text \<open>
  The operations of the Eigen library that the constraints use, with the meaning Eigen 3.3
  documents for them. \<^verbatim>\<open>Eigen::Vector3d\<close> is a triple of doubles;
  \<^verbatim>\<open>Eigen::Matrix<double, Num * 3, 1>\<close> and the buffer behind \<^verbatim>\<open>double* grad_C\<close>
  are lists of doubles; \<^verbatim>\<open>Eigen::Matrix3d\<close> is a triple of rows.
\<close>

datatype vec3 = Vec3 dbl dbl dbl

fun coeff :: "vec3 \<Rightarrow> nat \<Rightarrow> dbl" where
  "coeff (Vec3 a b c) k = (if k = 0 then a else if k = 1 then b else c)"

fun data :: "vec3 \<Rightarrow> dbl list" where
  "data (Vec3 a b c) = [a, b, c]"

definition Zero3 :: vec3 where
  "Zero3 = Vec3 0 0 0"

fun vadd :: "vec3 \<Rightarrow> vec3 \<Rightarrow> vec3" where
  "vadd (Vec3 a b c) (Vec3 d e f) = Vec3 (a + d) (b + e) (c + f)"

fun vsub :: "vec3 \<Rightarrow> vec3 \<Rightarrow> vec3" where
  "vsub (Vec3 a b c) (Vec3 d e f) = Vec3 (a - d) (b - e) (c - f)"

fun vneg :: "vec3 \<Rightarrow> vec3" where
  "vneg (Vec3 a b c) = Vec3 (- a) (- b) (- c)"

fun scale :: "dbl \<Rightarrow> vec3 \<Rightarrow> vec3" where
  "scale k (Vec3 a b c) = Vec3 (k * a) (k * b) (k * c)"

fun vdiv :: "vec3 \<Rightarrow> dbl \<Rightarrow> vec3" where
  "vdiv (Vec3 a b c) k = Vec3 (a / k) (b / k) (c / k)"

fun dot :: "vec3 \<Rightarrow> vec3 \<Rightarrow> dbl" where
  "dot (Vec3 a b c) (Vec3 d e f) = a * d + b * e + c * f"

fun cross :: "vec3 \<Rightarrow> vec3 \<Rightarrow> vec3" where
  "cross (Vec3 a b c) (Vec3 d e f) = Vec3 (b * f - c * e) (c * d - a * f) (a * e - b * d)"

definition squaredNorm :: "vec3 \<Rightarrow> dbl" where
  "squaredNorm v = dot v v"

definition norm3 :: "vec3 \<Rightarrow> dbl" where
  "norm3 v = std_sqrt (squaredNorm v)"

text \<open>
  \<^verbatim>\<open>normalized()\<close> divides by the norm when the squared norm is positive and returns a
  copy of the vector otherwise (a zero vector, or one whose squared norm is NaN).
\<close>

definition normalized :: "vec3 \<Rightarrow> vec3" where
  "normalized v = (let z = squaredNorm v in if 0 < z then vdiv v (std_sqrt z) else v)"

fun hasNaN3 :: "vec3 \<Rightarrow> bool" where
  "hasNaN3 (Vec3 a b c) = (isnan a \<or> isnan b \<or> isnan c)"

definition hasNaN :: "dbl list \<Rightarrow> bool" where
  "hasNaN xs = list_ex isnan xs"

definition segment3 :: "dbl list \<Rightarrow> nat \<Rightarrow> vec3" where
  "segment3 xs i = Vec3 (xs ! i) (xs ! (i + 1)) (xs ! (i + 2))"

definition ZeroN :: "nat \<Rightarrow> dbl list" where
  "ZeroN n = replicate n 0"

definition sum_dbl :: "dbl list \<Rightarrow> dbl" where
  "sum_dbl xs = foldl (+) 0 xs"

definition cwiseAbs2 :: "dbl list \<Rightarrow> dbl list" where
  "cwiseAbs2 xs = map (\<lambda>a. a * a) xs"

definition dummy_precision :: dbl where
  "dummy_precision = Fin (1 / 10 ^ 12)"

definition mini :: "dbl \<Rightarrow> dbl \<Rightarrow> dbl" where
  "mini x y = (if y < x then y else x)"

text \<open>
  \<^verbatim>\<open>x.isApprox(y)\<close> is \<open>|x - y|\<^sup>2 \<le> prec\<^sup>2 * min(|x|\<^sup>2, |y|\<^sup>2)\<close>, with the default
  precision of \<^verbatim>\<open>double\<close>.
\<close>

definition isApprox :: "dbl list \<Rightarrow> dbl list \<Rightarrow> bool" where
  "isApprox xs ys =
     (sum_dbl (cwiseAbs2 (map2 (-) xs ys))
        \<le> dummy_precision * dummy_precision
            * mini (sum_dbl (cwiseAbs2 xs)) (sum_dbl (cwiseAbs2 ys)))"

section \<open>Particles and constraints\<close>

text \<open>
  Modelled from the spec: the declaration of \<^verbatim>\<open>Particle\<close> (\<^verbatim>\<open>elasty/particle.hpp\<close>) is
  not among the sources. A particle has a rest position \<^verbatim>\<open>x\<close>, a predicted position
  \<^verbatim>\<open>p\<close> and an inverse mass \<^verbatim>\<open>w\<close>, the three members that the translation unit reads
  and writes. A \<^verbatim>\<open>std::shared_ptr<Particle>\<close> is an address, and the particles live in a
  store from addresses to particles, so that two constraints, or two slots of one
  constraint, may share a particle.
\<close>

record Particle =
  part_x :: vec3
  part_p :: vec3
  part_w :: dbl

type_synonym store = "nat \<Rightarrow> Particle"

text \<open>
  A failed \<^verbatim>\<open>assert\<close> ends the run: a function that contains one returns a sum, with
  \<open>Inl AssertionFailed\<close> for the failed assertion.
\<close>

datatype error = AssertionFailed

text \<open>
  Modelled from the spec: the class declarations that go with the translation unit are not
  among the sources (the header there declares an earlier interface). The members are the
  ones the translation unit uses: the five subclasses of \<^verbatim>\<open>Constraint\<close>, each with the
  members it adds to \<^verbatim>\<open>m_particles\<close>, \<^verbatim>\<open>m_stiffness\<close> and \<^verbatim>\<open>m_inv_M\<close>.
\<close>

datatype subtype =
    Bending (m_dihedral_angle: dbl)
  | Distance (dist_d: dbl)
  | EnvironmentalCollision (coll_n: vec3) (coll_d: dbl)
  | FixedPoint (m_point: vec3)
  | IsometricBending (m_Q: "dbl list list")

record Constraint =
  m_particles :: "nat list"
  m_stiffness :: dbl
  m_inv_M :: "dbl list"
  m_sub :: subtype

section \<open>The projection kernel\<close>

text \<open>\<^verbatim>\<open>grad_C.transpose() * inv_M.asDiagonal() * grad_C\<close>\<close>

definition denominator :: "dbl list \<Rightarrow> dbl list \<Rightarrow> dbl" where
  "denominator grad_C inv_M = sum_dbl (map2 (\<lambda>g w. g * w * g) grad_C inv_M)"

text \<open>\<^verbatim>\<open>- s * inv_M.asDiagonal() * grad_C\<close>\<close>

definition delta_x :: "dbl \<Rightarrow> dbl list \<Rightarrow> dbl list \<Rightarrow> dbl list" where
  "delta_x s inv_M grad_C = map2 (\<lambda>w g. (- s) * w * g) inv_M grad_C"

definition move :: "dbl \<Rightarrow> dbl list \<Rightarrow> nat list \<Rightarrow> store \<Rightarrow> nat \<Rightarrow> store" where
  "move stiffness dx particles h j =
     (let a = particles ! j
      in h(a := (h a)\<lparr>part_p := vadd (part_p (h a)) (scale stiffness (segment3 dx (3 * j)))\<rparr>))"

definition update_positions :: "nat \<Rightarrow> dbl \<Rightarrow> dbl list \<Rightarrow> nat list \<Rightarrow> store \<Rightarrow> store" where
  "update_positions Num stiffness dx particles h =
     foldl (move stiffness dx particles) h [0..<Num]"

definition projectPositions ::
  "nat \<Rightarrow> dbl \<Rightarrow> dbl list \<Rightarrow> dbl list \<Rightarrow> dbl \<Rightarrow> nat list \<Rightarrow> store \<Rightarrow> error + store" where
  "projectPositions Num C grad_C inv_M stiffness particles h =
     (if isApprox grad_C (ZeroN (Num * 3)) then Inr h
      else
        let s = C / denominator grad_C inv_M;
            dx = delta_x s inv_M grad_C
        in if hasNaN dx then Inl AssertionFailed
           else Inr (update_positions Num stiffness dx particles h))"

definition constructInverseMassMatrix :: "nat \<Rightarrow> nat list \<Rightarrow> store \<Rightarrow> dbl list" where
  "constructInverseMassMatrix Num particles h =
     concat (map (\<lambda>j. replicate 3 (part_w (h (particles ! j)))) [0..<Num])"


section \<open>The global random number generator\<close>

text \<open>
  \<^verbatim>\<open>Eigen::Vector3d::Random\<close> draws each coefficient from \<^verbatim>\<open>std::rand\<close>. The generator is
  modelled by the sequence \<open>rnd\<close> of the coefficients it delivers and the number of
  coefficients drawn so far, which is the part of the program state outside the particles
  and the constraints.
\<close>

record state =
  heap :: store
  rand_calls :: nat

definition Random3 :: "(nat \<Rightarrow> dbl) \<Rightarrow> nat \<Rightarrow> vec3 \<times> nat" where
  "Random3 rnd k = (Vec3 (rnd k) (rnd (k + 1)) (rnd (k + 2)), k + 3)"

section \<open>Helpers of the translation unit\<close>

datatype mat3 = Mat3 vec3 vec3 vec3

fun mat_neg :: "mat3 \<Rightarrow> mat3" where
  "mat_neg (Mat3 r0 r1 r2) = Mat3 (vneg r0) (vneg r1) (vneg r2)"

fun mat_add :: "mat3 \<Rightarrow> mat3 \<Rightarrow> mat3" where
  "mat_add (Mat3 r0 r1 r2) (Mat3 s0 s1 s2) = Mat3 (vadd r0 s0) (vadd r1 s1) (vadd r2 s2)"

fun mat_scale :: "dbl \<Rightarrow> mat3 \<Rightarrow> mat3" where
  "mat_scale k (Mat3 r0 r1 r2) = Mat3 (scale k r0) (scale k r1) (scale k r2)"

fun transpose3 :: "mat3 \<Rightarrow> mat3" where
  "transpose3 (Mat3 (Vec3 a b c) (Vec3 d e f) (Vec3 g h i)) =
     Mat3 (Vec3 a d g) (Vec3 b e h) (Vec3 c f i)"

fun mat_vec :: "mat3 \<Rightarrow> vec3 \<Rightarrow> vec3" where
  "mat_vec (Mat3 r0 r1 r2) v = Vec3 (dot r0 v) (dot r1 v) (dot r2 v)"

fun outer :: "vec3 \<Rightarrow> vec3 \<Rightarrow> mat3" where
  "outer (Vec3 a b c) v = Mat3 (scale a v) (scale b v) (scale c v)"

fun convert_vector_to_cross_operator :: "vec3 \<Rightarrow> mat3" where
  "convert_vector_to_cross_operator (Vec3 v0 v1 v2) =
     Mat3 (Vec3 0 v2 (- v1)) (Vec3 (- v2) 0 v0) (Vec3 v1 (- v0) 0)"

definition calculateCotTheta :: "vec3 \<Rightarrow> vec3 \<Rightarrow> dbl" where
  "calculateCotTheta x y =
     (let cos_theta = dot x y; sin_theta = norm3 (cross x y) in cos_theta / sin_theta)"

section \<open>Constructors\<close>

text \<open>
  The constructor of \<^verbatim>\<open>BendingConstraint\<close> does not initialise \<^verbatim>\<open>m_inv_M\<close>; its
  contents are the parameter \<open>uninit\<close>.
\<close>

definition BendingConstraint ::
  "dbl list \<Rightarrow> nat \<Rightarrow> nat \<Rightarrow> nat \<Rightarrow> nat \<Rightarrow> dbl \<Rightarrow> dbl \<Rightarrow> Constraint" where
  "BendingConstraint uninit p_0 p_1 p_2 p_3 stiffness dihedral_angle =
     \<lparr>m_particles = [p_0, p_1, p_2, p_3], m_stiffness = stiffness, m_inv_M = uninit,
      m_sub = Bending dihedral_angle\<rparr>"

definition DistanceConstraint :: "store \<Rightarrow> nat \<Rightarrow> nat \<Rightarrow> dbl \<Rightarrow> dbl \<Rightarrow> error + Constraint" where
  "DistanceConstraint h p_0 p_1 stiffness d =
     (if d \<ge> 0 then
        Inr \<lparr>m_particles = [p_0, p_1], m_stiffness = stiffness,
             m_inv_M = constructInverseMassMatrix 2 [p_0, p_1] h, m_sub = Distance d\<rparr>
      else Inl AssertionFailed)"

definition EnvironmentalCollisionConstraint ::
  "store \<Rightarrow> nat \<Rightarrow> dbl \<Rightarrow> vec3 \<Rightarrow> dbl \<Rightarrow> Constraint" where
  "EnvironmentalCollisionConstraint h p_0 stiffness n d =
     \<lparr>m_particles = [p_0], m_stiffness = stiffness,
      m_inv_M = constructInverseMassMatrix 1 [p_0] h, m_sub = EnvironmentalCollision n d\<rparr>"

definition FixedPointConstraint :: "store \<Rightarrow> nat \<Rightarrow> dbl \<Rightarrow> vec3 \<Rightarrow> Constraint" where
  "FixedPointConstraint h p_0 stiffness point =
     \<lparr>m_particles = [p_0], m_stiffness = stiffness,
      m_inv_M = constructInverseMassMatrix 1 [p_0] h, m_sub = FixedPoint point\<rparr>"

definition IsometricBendingConstraint ::
  "store \<Rightarrow> nat \<Rightarrow> nat \<Rightarrow> nat \<Rightarrow> nat \<Rightarrow> dbl \<Rightarrow> Constraint" where
  "IsometricBendingConstraint h p_0 p_1 p_2 p_3 stiffness =
     (let x_0 = part_x (h p_0); x_1 = part_x (h p_1);
          x_2 = part_x (h p_2); x_3 = part_x (h p_3);
          e0 = vsub x_1 x_0; e1 = vsub x_2 x_1; e2 = vsub x_0 x_2;
          e3 = vsub x_3 x_0; e4 = vsub x_1 x_3;
          cot_01 = calculateCotTheta e0 (vneg e1);
          cot_02 = calculateCotTheta e0 (vneg e2);
          cot_03 = calculateCotTheta e0 e3;
          cot_04 = calculateCotTheta e0 e4;
          K = [cot_01 + cot_04, cot_02 + cot_03, - cot_01 - cot_02, - cot_03 - cot_04];
          A_0 = Fin (1 / 2) * norm3 (cross e0 e1);
          A_1 = Fin (1 / 2) * norm3 (cross e0 e3);
          c = Fin 3 / (A_0 + A_1)
      in \<lparr>m_particles = [p_0, p_1, p_2, p_3], m_stiffness = stiffness,
           m_inv_M = constructInverseMassMatrix 4 [p_0, p_1, p_2, p_3] h,
           m_sub = IsometricBending (map (\<lambda>k_i. map (\<lambda>k_j. c * k_i * k_j) K) K)\<rparr>)"

section \<open>Violation values\<close>

definition pos :: "Constraint \<Rightarrow> store \<Rightarrow> nat \<Rightarrow> vec3" where
  "pos c h j = part_p (h (m_particles c ! j))"

definition BendingConstraint_calculateValue :: "Constraint \<Rightarrow> store \<Rightarrow> error + dbl" where
  "BendingConstraint_calculateValue c h =
     (let x_0 = pos c h 0; x_1 = pos c h 1; x_2 = pos c h 2; x_3 = pos c h 3;
          p_10 = vsub x_1 x_0; p_20 = vsub x_2 x_0; p_30 = vsub x_3 x_0;
          n_0 = normalized (cross p_10 p_20);
          n_1 = normalized (cross p_10 p_30)
      in if hasNaN3 n_0 then Inl AssertionFailed
         else if hasNaN3 n_1 then Inl AssertionFailed
         else
           let current_dihedral_angle =
                 std_acos (std_min (Fin 1) (std_max (Fin (- 1)) (dot n_0 n_1)))
           in if isnan current_dihedral_angle then Inl AssertionFailed
              else Inr (current_dihedral_angle - m_dihedral_angle (m_sub c)))"

definition DistanceConstraint_calculateValue :: "Constraint \<Rightarrow> store \<Rightarrow> dbl" where
  "DistanceConstraint_calculateValue c h =
     (let x_0 = pos c h 0; x_1 = pos c h 1 in norm3 (vsub x_0 x_1) - dist_d (m_sub c))"

definition EnvironmentalCollisionConstraint_calculateValue :: "Constraint \<Rightarrow> store \<Rightarrow> dbl" where
  "EnvironmentalCollisionConstraint_calculateValue c h =
     (let x = pos c h 0 in dot (coll_n (m_sub c)) x - coll_d (m_sub c))"

definition FixedPointConstraint_calculateValue :: "Constraint \<Rightarrow> store \<Rightarrow> dbl" where
  "FixedPointConstraint_calculateValue c h =
     (let x = pos c h 0 in norm3 (vsub x (m_point (m_sub c))))"

definition Q_at :: "Constraint \<Rightarrow> nat \<Rightarrow> nat \<Rightarrow> dbl" where
  "Q_at c i j = m_Q (m_sub c) ! i ! j"

definition IsometricBendingConstraint_calculateValue :: "Constraint \<Rightarrow> store \<Rightarrow> dbl" where
  "IsometricBendingConstraint_calculateValue c h =
     (let sum = foldl (\<lambda>sum i.
                   foldl (\<lambda>sum j. sum + Q_at c i j * dot (pos c h i) (pos c h j)) sum [0..<4])
                 0 [0..<4]
      in Fin (1 / 2) * sum)"

definition calculateValue :: "Constraint \<Rightarrow> store \<Rightarrow> error + dbl" where
  "calculateValue c h =
     (case m_sub c of
        Bending a \<Rightarrow> BendingConstraint_calculateValue c h
      | Distance d \<Rightarrow> Inr (DistanceConstraint_calculateValue c h)
      | EnvironmentalCollision n d \<Rightarrow> Inr (EnvironmentalCollisionConstraint_calculateValue c h)
      | FixedPoint q \<Rightarrow> Inr (FixedPointConstraint_calculateValue c h)
      | IsometricBending Q \<Rightarrow> Inr (IsometricBendingConstraint_calculateValue c h))"


section \<open>Gradients\<close>

definition epsilon :: dbl where
  "epsilon = Fin (1 / 10 ^ 12)"

definition calculate_gradient_of_normalized_cross_product_wrt_p_1 ::
  "vec3 \<Rightarrow> vec3 \<Rightarrow> vec3 \<Rightarrow> mat3" where
  "calculate_gradient_of_normalized_cross_product_wrt_p_1 p_1 p_2 n =
     mat_scale (Fin 1 / norm3 (cross p_1 p_2))
       (mat_add (mat_neg (convert_vector_to_cross_operator p_2)) (outer n (cross n p_2)))"

definition calculate_gradient_of_normalized_cross_product_wrt_p_2 ::
  "vec3 \<Rightarrow> vec3 \<Rightarrow> vec3 \<Rightarrow> mat3" where
  "calculate_gradient_of_normalized_cross_product_wrt_p_2 p_1 p_2 n =
     mat_scale (- (Fin 1 / norm3 (cross p_1 p_2)))
       (mat_add (mat_neg (convert_vector_to_cross_operator p_1)) (outer n (cross n p_1)))"

text \<open>
  The lambdas are declared with the parameters \<open>(p_1, p_2, n)\<close> and called with the
  arguments \<open>(n_0, p_1, p_2)\<close> and \<open>(n_1, p_1, p_3)\<close>, as below.
\<close>

text \<open>The part of \<^verbatim>\<open>BendingConstraint::calculateGrad\<close> that follows the test on \<open>d\<close>.\<close>

definition BendingConstraint_calculateGrad_chain_rule ::
  "vec3 \<Rightarrow> vec3 \<Rightarrow> vec3 \<Rightarrow> vec3 \<Rightarrow> vec3 \<Rightarrow> dbl \<Rightarrow> dbl list" where
  "BendingConstraint_calculateGrad_chain_rule p_1 p_2 p_3 n_0 n_1 d =
     (let common_coeff = - Fin 1 / std_sqrt (Fin 1 - d * d);
          grad_C_wrt_p_1 =
            scale common_coeff
              (vadd
                 (mat_vec (transpose3
                    (calculate_gradient_of_normalized_cross_product_wrt_p_1 n_0 p_1 p_2)) n_1)
                 (mat_vec (transpose3
                    (calculate_gradient_of_normalized_cross_product_wrt_p_1 n_1 p_1 p_3)) n_0));
          grad_C_wrt_p_2 =
            mat_vec (mat_scale common_coeff (transpose3
              (calculate_gradient_of_normalized_cross_product_wrt_p_2 n_0 p_1 p_2))) n_1;
          grad_C_wrt_p_3 =
            mat_vec (mat_scale common_coeff (transpose3
              (calculate_gradient_of_normalized_cross_product_wrt_p_2 n_1 p_1 p_3))) n_0;
          grad_C_wrt_p_0 =
            vsub (vsub (vneg grad_C_wrt_p_1) grad_C_wrt_p_2) grad_C_wrt_p_3
      in data grad_C_wrt_p_0 @ data grad_C_wrt_p_1
           @ data grad_C_wrt_p_2 @ data grad_C_wrt_p_3)"

definition BendingConstraint_calculateGrad :: "Constraint \<Rightarrow> store \<Rightarrow> dbl list" where
  "BendingConstraint_calculateGrad c h =
     (let x_0 = pos c h 0; x_1 = pos c h 1; x_2 = pos c h 2; x_3 = pos c h 3;
          p_1 = vsub x_1 x_0; p_2 = vsub x_2 x_0; p_3 = vsub x_3 x_0;
          p_1_cross_p_2 = cross p_1 p_2;
          p_1_cross_p_3 = cross p_1 p_3;
          n_0 = normalized p_1_cross_p_2;
          n_1 = normalized p_1_cross_p_3;
          d = dot n_0 n_1
      in if \<bar>d\<bar> - Fin 1 < epsilon then replicate 12 (Fin 0)
         else BendingConstraint_calculateGrad_chain_rule p_1 p_2 p_3 n_0 n_1 d)"

text \<open>
  The only gradient that touches the state outside the particles: when the normalized
  difference has a NaN, a random direction is drawn.
\<close>

definition DistanceConstraint_calculateGrad ::
  "(nat \<Rightarrow> dbl) \<Rightarrow> Constraint \<Rightarrow> state \<Rightarrow> dbl list \<times> state" where
  "DistanceConstraint_calculateGrad rnd c st =
     (let x_0 = pos c (heap st) 0; x_1 = pos c (heap st) 1;
          n = normalized (vsub x_0 x_1);
          (n, st) = (if hasNaN3 n
                     then (let (r, k) = Random3 rnd (rand_calls st)
                           in (normalized r, st\<lparr>rand_calls := k\<rparr>))
                     else (n, st))
      in ([coeff n 0, coeff n 1, coeff n 2, - coeff n 0, - coeff n 1, - coeff n 2], st))"

definition EnvironmentalCollisionConstraint_calculateGrad :: "Constraint \<Rightarrow> dbl list" where
  "EnvironmentalCollisionConstraint_calculateGrad c = data (coll_n (m_sub c))"

text \<open>
  \<open>grad_C\<close> is the caller's buffer. The fill with zeros is followed by the copy of
  \<open>n\<close> on every path.
\<close>

definition FixedPointConstraint_calculateGrad ::
  "Constraint \<Rightarrow> store \<Rightarrow> dbl list \<Rightarrow> dbl list" where
  "FixedPointConstraint_calculateGrad c h grad_C =
     (let x = pos c h 0;
          n = normalized (vsub x (m_point (m_sub c)));
          grad_C = (if hasNaN3 n then replicate 3 (Fin 0) @ drop 3 grad_C else grad_C)
      in data n @ drop 3 grad_C)"

definition IsometricBendingConstraint_calculateGrad :: "Constraint \<Rightarrow> store \<Rightarrow> dbl list" where
  "IsometricBendingConstraint_calculateGrad c h =
     concat (map (\<lambda>i.
       let sum = foldl (\<lambda>sum j. vadd sum (scale (Q_at c i j) (pos c h j))) Zero3 [0..<4]
       in data sum) [0..<4])"

text \<open>
  The virtual \<^verbatim>\<open>calculateGrad\<close>. \<open>grad_C\<close> is the buffer the caller passes, of the
  size \<open>3 * arity\<close>; it holds what the call leaves there.
\<close>

definition calculateGrad ::
  "(nat \<Rightarrow> dbl) \<Rightarrow> Constraint \<Rightarrow> state \<Rightarrow> dbl list \<Rightarrow> dbl list \<times> state" where
  "calculateGrad rnd c st grad_C =
     (case m_sub c of
        Bending a \<Rightarrow> (BendingConstraint_calculateGrad c (heap st), st)
      | Distance d \<Rightarrow> DistanceConstraint_calculateGrad rnd c st
      | EnvironmentalCollision n d \<Rightarrow> (EnvironmentalCollisionConstraint_calculateGrad c, st)
      | FixedPoint q \<Rightarrow> (FixedPointConstraint_calculateGrad c (heap st) grad_C, st)
      | IsometricBending Q \<Rightarrow> (IsometricBendingConstraint_calculateGrad c (heap st), st))"

section \<open>Projection\<close>

text \<open>
  Each \<^verbatim>\<open>projectParticles\<close> declares an uninitialised gradient buffer, whose contents are
  the parameter \<open>buf\<close>, computes the value and the gradient, and calls the kernel.
\<close>

definition arity :: "subtype \<Rightarrow> nat" where
  "arity k = (case k of Bending a \<Rightarrow> 4 | Distance d \<Rightarrow> 2 | EnvironmentalCollision n d \<Rightarrow> 1
                | FixedPoint q \<Rightarrow> 1 | IsometricBending Q \<Rightarrow> 4)"

definition project :: "dbl \<Rightarrow> dbl list \<Rightarrow> Constraint \<Rightarrow> state \<Rightarrow> error + state" where
  "project C grad_C c st =
     (case projectPositions (arity (m_sub c)) C grad_C (m_inv_M c) (m_stiffness c)
             (m_particles c) (heap st) of
        Inl e \<Rightarrow> Inl e
      | Inr h \<Rightarrow> Inr (st\<lparr>heap := h\<rparr>))"

definition projectParticles ::
  "(nat \<Rightarrow> dbl) \<Rightarrow> dbl list \<Rightarrow> Constraint \<Rightarrow> state \<Rightarrow> error + state" where
  "projectParticles rnd buf c st =
     (case calculateValue c (heap st) of
        Inl e \<Rightarrow> Inl e
      | Inr C \<Rightarrow>
          (case m_sub c of
             EnvironmentalCollision n d \<Rightarrow>
               if C \<ge> 0 then Inr st
               else (let (grad_C, st) = calculateGrad rnd c st buf in project C grad_C c st)
           | _ \<Rightarrow> (let (grad_C, st) = calculateGrad rnd c st buf in project C grad_C c st)))"

section \<open>Auxiliary notions for the statements\<close>

text \<open>Finite doubles and vectors, and sums of squares, which are never negative.\<close>

fun finite3 :: "vec3 \<Rightarrow> bool" where
  "finite3 (Vec3 a b c) = (is_Fin a \<and> is_Fin b \<and> is_Fin c)"

fun nonneg :: "dbl \<Rightarrow> bool" where
  "nonneg (Fin t) = (0 \<le> t)"
| "nonneg PInf = True"
| "nonneg NaN = True"
| "nonneg NInf = False"

text \<open>The scenes of the examples: one particle of inverse mass 1 at height \<open>y\<close> over
  the plane \<open>y = 0\<close>, and a tetrahedron of four particles.\<close>

definition floor_scene :: "real \<Rightarrow> store" where
  "floor_scene y =
     (\<lambda>a. \<lparr>part_x = Zero3, part_p = Vec3 (Fin 0) (Fin y) (Fin 0), part_w = Fin 1\<rparr>)"

definition up :: vec3 where
  "up = Vec3 (Fin 0) (Fin 1) (Fin 0)"

definition tetrahedron :: store where
  "tetrahedron =
     (\<lambda>a. \<lparr>part_x = Zero3,
           part_p = (if a = 1 then Vec3 (Fin 1) (Fin 0) (Fin 0)
                     else if a = 2 then Vec3 (Fin 0) (Fin 1) (Fin 0)
                     else if a = 3 then Vec3 (Fin 0) (Fin 0) (Fin 1)
                     else Vec3 (Fin 0) (Fin 0) (Fin 0)),
           part_w = Fin 1\<rparr>)"


text \<open>Two particles on the x axis, two units apart; the second one is pinned.\<close>

definition pinned_pair :: store where
  "pinned_pair =
     (\<lambda>a. \<lparr>part_x = Zero3,
           part_p = (if a = 1 then Vec3 (Fin 2) (Fin 0) (Fin 0) else Vec3 (Fin 0) (Fin 0) (Fin 0)),
           part_w = (if a = 1 then Fin 0 else Fin 1)\<rparr>)"

text \<open>A generator that always delivers 0, and a pinned particle one unit away from the point
  a FixedPointConstraint holds it to.\<close>

definition no_random :: "nat \<Rightarrow> dbl" where
  "no_random = (\<lambda>k. Fin 0)"

definition stuck :: store where
  "stuck = (\<lambda>a. \<lparr>part_x = Zero3, part_p = Vec3 (Fin 1) (Fin 0) (Fin 0), part_w = Fin 0\<rparr>)"

definition stuck_pin :: Constraint where
  "stuck_pin = FixedPointConstraint stuck 0 (Fin 1) (Vec3 (Fin 0) (Fin 0) (Fin 0))"

definition stuck_state :: state where
  "stuck_state = \<lparr>heap = stuck, rand_calls = 0\<rparr>"

text \<open>Two pinned particles one unit apart, and the DistanceConstraint of stiffness 1 and rest
  distance \<open>d\<close> between the particles 0 and 1 of a store.\<close>

definition pinned_both :: store where
  "pinned_both =
     (\<lambda>a. \<lparr>part_x = Zero3,
           part_p = (if a = 1 then Vec3 (Fin 1) (Fin 0) (Fin 0) else Vec3 (Fin 0) (Fin 0) (Fin 0)),
           part_w = Fin 0\<rparr>)"

definition link :: "store \<Rightarrow> real \<Rightarrow> Constraint" where
  "link h d = projr (DistanceConstraint h 0 1 (Fin 1) (Fin d))"

text \<open>Particles with infinite coordinates, and a FixedPointConstraint that holds particle 0
  to the point where it is.\<close>

definition far_away :: store where
  "far_away = (\<lambda>a. \<lparr>part_x = Zero3, part_p = Vec3 PInf PInf PInf, part_w = Fin 1\<rparr>)"

definition far_pin :: Constraint where
  "far_pin = FixedPointConstraint far_away 0 (Fin 1) (Vec3 PInf PInf PInf)"

text \<open>The states in which \<^verbatim>\<open>calculateGrad\<close> reaches \<^verbatim>\<open>Eigen::Vector3d::Random\<close>, and a
  generator that delivers 1 first and 0 from then on.\<close>

definition draws_random :: "Constraint \<Rightarrow> state \<Rightarrow> bool" where
  "draws_random c st =
     (case m_sub c of
        Distance d \<Rightarrow> hasNaN3 (normalized (vsub (pos c (heap st) 0) (pos c (heap st) 1)))
      | _ \<Rightarrow> False)"

definition one_then_zero :: "nat \<Rightarrow> dbl" where
  "one_then_zero k = (if k = 0 then Fin 1 else Fin 0)"

text \<open>
  The quadratic form of the IsometricBendingConstraint in the words of the specification,
  over the reals: \<open>q\<close> is the 4 by 4 matrix, \<open>X i k\<close> is coordinate \<open>k\<close> of particle
  \<open>i\<close>, \<open>half_xQx\<close> is \<open>\<onehalf> x\<^sup>T Q x\<close> summed over the three coordinates and
  \<open>Qx q X i k\<close> is coordinate \<open>k\<close> of block \<open>i\<close> of \<open>Q x\<close>.
\<close>

definition half_xQx :: "(nat \<Rightarrow> nat \<Rightarrow> real) \<Rightarrow> (nat \<Rightarrow> nat \<Rightarrow> real) \<Rightarrow> real" where
  "half_xQx q X = 1 / 2 * (\<Sum>i<4. \<Sum>j<4. q i j * (\<Sum>k<3. X i k * X j k))"

definition Qx :: "(nat \<Rightarrow> nat \<Rightarrow> real) \<Rightarrow> (nat \<Rightarrow> nat \<Rightarrow> real) \<Rightarrow> nat \<Rightarrow> nat \<Rightarrow> real" where
  "Qx q X i k = (\<Sum>j<4. q i j * X j k)"

text \<open>
  A symmetric planar quad as rest configuration, with particle 2 lifted out of the plane,
  the matrix its constructor computes and its positions.
\<close>

definition planar_quad :: store where
  "planar_quad =
     (\<lambda>a. \<lparr>part_x = (if a = 0 then Vec3 (Fin 0) (Fin 0) (Fin 0)
                     else if a = 1 then Vec3 (Fin 2) (Fin 0) (Fin 0)
                     else if a = 2 then Vec3 (Fin 1) (Fin 1) (Fin 0)
                     else Vec3 (Fin 1) (Fin (- 1)) (Fin 0)),
           part_p = (if a = 0 then Vec3 (Fin 0) (Fin 0) (Fin 0)
                     else if a = 1 then Vec3 (Fin 2) (Fin 0) (Fin 0)
                     else if a = 2 then Vec3 (Fin 1) (Fin 1) (Fin 1)
                     else Vec3 (Fin 1) (Fin (- 1)) (Fin 0)),
           part_w = Fin 1\<rparr>)"

definition planar_quad_Q :: "nat \<Rightarrow> nat \<Rightarrow> real" where
  "planar_quad_Q i j = (if (i < 2) = (j < 2) then 6 else - 6)"

definition planar_quad_X :: "nat \<Rightarrow> nat \<Rightarrow> real" where
  "planar_quad_X i k =
     (if k = 0 then (if i = 0 then 0 else if i = 1 then 2 else 1)
      else if k = 1 then (if i = 2 then 1 else if i = 3 then - 1 else 0)
      else (if i = 2 then 1 else 0))"

text \<open>The constraints that the five constructors build over a store.\<close>

inductive constructed :: "store \<Rightarrow> Constraint \<Rightarrow> bool" for h :: store where
  Bending: "length uninit = 12 \<Longrightarrow>
            constructed h (BendingConstraint uninit p_0 p_1 p_2 p_3 stiffness dihedral_angle)"
| Distance: "DistanceConstraint h p_0 p_1 stiffness d = Inr c \<Longrightarrow> constructed h c"
| EnvironmentalCollision: "constructed h (EnvironmentalCollisionConstraint h p_0 stiffness n d)"
| FixedPoint: "constructed h (FixedPointConstraint h p_0 stiffness point)"
| IsometricBending: "constructed h (IsometricBendingConstraint h p_0 p_1 p_2 p_3 stiffness)"

text \<open>The plane \<open>y = 0\<close> as a collision constraint on particle 0, and the state with the
  particles at height \<open>y\<close>.\<close>

definition floor_constraint :: Constraint where
  "floor_constraint = EnvironmentalCollisionConstraint (floor_scene 1) 0 (Fin 1) up (Fin 0)"

definition floor_state :: "real \<Rightarrow> state" where
  "floor_state y = \<lparr>heap = floor_scene y, rand_calls = 0\<rparr>"

section \<open>IEEE 754 rounding\<close>

text \<open>
  The operations \<open>+\<close>, \<open>-\<close>, \<open>*\<close> and \<open>/\<close> on \<open>dbl\<close> return the exact real result. The
  hardware rounds each result to binary64, to nearest with ties to even. \<open>pow2 k\<close> is
  \<open>2\<^sup>k\<close>, \<open>rne\<close> rounds a real to the nearest integer with ties to the even one, and
  \<open>ulp x\<close> is the spacing of the doubles around \<open>x\<close>: 52 fraction bits under the
  exponent of \<open>x\<close>, which is at least -1022 (below it the doubles are subnormal and
  equally spaced).
\<close>

definition pow2 :: "int \<Rightarrow> real" where
  "pow2 k = 2 powr (real_of_int k)"

definition rne :: "real \<Rightarrow> int" where
  "rne x =
     (let f = \<lfloor>x\<rfloor>; r = x - of_int f
      in if r < 1 / 2 then f else if 1 / 2 < r then f + 1 else if even f then f else f + 1)"

definition expo :: "real \<Rightarrow> int" where
  "expo x = max (- 1022) \<lfloor>log 2 \<bar>x\<bar>\<rfloor>"

definition ulp :: "real \<Rightarrow> real" where
  "ulp x = pow2 (expo x - 52)"

text \<open>The double nearest to a real, with the exponent unbounded above.\<close>

definition round_double :: "real \<Rightarrow> real" where
  "round_double x = (if x = 0 then 0 else of_int (rne (x / ulp x)) * ulp x)"

text \<open>
  The result of an operation: the exact result is rounded, and a rounded value of
  magnitude \<open>2\<^sup>1\<^sup>0\<^sup>2\<^sup>4\<close> or more overflows to an infinity. The special values are
  unchanged.
\<close>

fun rd :: "dbl \<Rightarrow> dbl" where
  "rd (Fin x) =
     (let y = round_double x
      in if 2 ^ 1024 \<le> \<bar>y\<bar> then (if 0 < y then PInf else NInf) else Fin y)"
| "rd PInf = PInf"
| "rd NInf = NInf"
| "rd NaN = NaN"

text \<open>The reals that are values of a \<^verbatim>\<open>double\<close>.\<close>

definition is_double :: "real \<Rightarrow> bool" where
  "is_double x \<longleftrightarrow> round_double x = x \<and> \<bar>x\<bar> < 2 ^ 1024"

text \<open>
  A real whose rounding neither underflows nor overflows: it is zero, or at least the
  least normal double in magnitude and rounded to a finite double.
\<close>

definition in_range :: "real \<Rightarrow> bool" where
  "in_range v \<longleftrightarrow> v = 0 \<or> pow2 (- 1022) \<le> \<bar>v\<bar> \<and> \<bar>round_double v\<bar> < 2 ^ 1024"

text \<open>The four rounded operations of \<^verbatim>\<open>double\<close>. The unary minus is exact.\<close>

definition fadd :: "dbl \<Rightarrow> dbl \<Rightarrow> dbl" where
  "fadd a b = rd (a + b)"

definition fsub :: "dbl \<Rightarrow> dbl \<Rightarrow> dbl" where
  "fsub a b = rd (a - b)"

definition fmul :: "dbl \<Rightarrow> dbl \<Rightarrow> dbl" where
  "fmul a b = rd (a * b)"

definition fdiv :: "dbl \<Rightarrow> dbl \<Rightarrow> dbl" where
  "fdiv a b = rd (a / b)"

section \<open>The collision projection in rounded arithmetic\<close>

text \<open>
  The kernel \<^verbatim>\<open>projectPositions\<close> and
  \<^verbatim>\<open>EnvironmentalCollisionConstraint::projectParticles\<close> once more, with every
  arithmetic operation of the source rounded: \<^verbatim>\<open>m_n.transpose() * x - m_d\<close>, the guard
  \<^verbatim>\<open>isApprox\<close>, \<^verbatim>\<open>C / (grad_C.transpose() * inv_M.asDiagonal() * grad_C)\<close>,
  \<^verbatim>\<open>- s * inv_M.asDiagonal() * grad_C\<close> and \<^verbatim>\<open>p += stiffness * delta_x.segment(3 * j, 3)\<close>.
  Each operation rounds once, products are rounded before they are added (no fused
  multiply-add), and sums run from the first coefficient to the last.
\<close>

fun ieee_dot :: "vec3 \<Rightarrow> vec3 \<Rightarrow> dbl" where
  "ieee_dot (Vec3 a b c) (Vec3 d e f) = fadd (fadd (fmul a d) (fmul b e)) (fmul c f)"

fun ieee_scale :: "dbl \<Rightarrow> vec3 \<Rightarrow> vec3" where
  "ieee_scale k (Vec3 a b c) = Vec3 (fmul k a) (fmul k b) (fmul k c)"

fun ieee_vadd :: "vec3 \<Rightarrow> vec3 \<Rightarrow> vec3" where
  "ieee_vadd (Vec3 a b c) (Vec3 d e f) = Vec3 (fadd a d) (fadd b e) (fadd c f)"

definition ieee_sum :: "dbl list \<Rightarrow> dbl" where
  "ieee_sum xs = foldl fadd 0 xs"

definition ieee_cwiseAbs2 :: "dbl list \<Rightarrow> dbl list" where
  "ieee_cwiseAbs2 xs = map (\<lambda>a. fmul a a) xs"

definition ieee_isApprox :: "dbl list \<Rightarrow> dbl list \<Rightarrow> bool" where
  "ieee_isApprox xs ys =
     (ieee_sum (ieee_cwiseAbs2 (map2 fsub xs ys))
        \<le> fmul (fmul (rd dummy_precision) (rd dummy_precision))
             (mini (ieee_sum (ieee_cwiseAbs2 xs)) (ieee_sum (ieee_cwiseAbs2 ys))))"

definition ieee_denominator :: "dbl list \<Rightarrow> dbl list \<Rightarrow> dbl" where
  "ieee_denominator grad_C inv_M = ieee_sum (map2 (\<lambda>g w. fmul (fmul g w) g) grad_C inv_M)"

definition ieee_delta_x :: "dbl \<Rightarrow> dbl list \<Rightarrow> dbl list \<Rightarrow> dbl list" where
  "ieee_delta_x s inv_M grad_C = map2 (\<lambda>w g. fmul (fmul (- s) w) g) inv_M grad_C"

definition ieee_move :: "dbl \<Rightarrow> dbl list \<Rightarrow> nat list \<Rightarrow> store \<Rightarrow> nat \<Rightarrow> store" where
  "ieee_move stiffness dx particles h j =
     (let a = particles ! j
      in h(a := (h a)\<lparr>part_p :=
                 ieee_vadd (part_p (h a)) (ieee_scale stiffness (segment3 dx (3 * j)))\<rparr>))"

definition ieee_update_positions ::
  "nat \<Rightarrow> dbl \<Rightarrow> dbl list \<Rightarrow> nat list \<Rightarrow> store \<Rightarrow> store" where
  "ieee_update_positions Num stiffness dx particles h =
     foldl (ieee_move stiffness dx particles) h [0..<Num]"

definition ieee_projectPositions ::
  "nat \<Rightarrow> dbl \<Rightarrow> dbl list \<Rightarrow> dbl list \<Rightarrow> dbl \<Rightarrow> nat list \<Rightarrow> store \<Rightarrow> error + store" where
  "ieee_projectPositions Num C grad_C inv_M stiffness particles h =
     (if ieee_isApprox grad_C (ZeroN (Num * 3)) then Inr h
      else
        let s = fdiv C (ieee_denominator grad_C inv_M);
            dx = ieee_delta_x s inv_M grad_C
        in if hasNaN dx then Inl AssertionFailed
           else Inr (ieee_update_positions Num stiffness dx particles h))"

definition ieee_EnvironmentalCollisionConstraint_calculateValue ::
  "Constraint \<Rightarrow> store \<Rightarrow> dbl" where
  "ieee_EnvironmentalCollisionConstraint_calculateValue c h =
     (let x = pos c h 0 in fsub (ieee_dot (coll_n (m_sub c)) x) (coll_d (m_sub c)))"

definition ieee_EnvironmentalCollisionConstraint_projectParticles ::
  "Constraint \<Rightarrow> store \<Rightarrow> error + store" where
  "ieee_EnvironmentalCollisionConstraint_projectParticles c h =
     (let C = ieee_EnvironmentalCollisionConstraint_calculateValue c h
      in if C \<ge> 0 then Inr h
         else
           let grad_C = EnvironmentalCollisionConstraint_calculateGrad c
           in ieee_projectPositions 1 C grad_C (m_inv_M c) (m_stiffness c) (m_particles c) h)"

text \<open>The unit vector along the coordinate axis \<open>k\<close>, with the sign \<open>\<sigma>\<close>.\<close>

definition axis :: "nat \<Rightarrow> real \<Rightarrow> vec3" where
  "axis k \<sigma> = Vec3 (Fin (if k = 0 then \<sigma> else 0)) (Fin (if k = 1 then \<sigma> else 0))
     (Fin (if k = 2 then \<sigma> else 0))"

text \<open>
  A particle of inverse mass 49 one unit under the plane \<open>y = 0\<close>, the collision
  constraint of that plane, and the scene with the particle at height \<open>-2\<^sup>-\<^sup>5\<^sup>3\<close>.
\<close>

definition heavy_scene :: store where
  "heavy_scene =
     (\<lambda>a. \<lparr>part_x = Zero3, part_p = Vec3 (Fin 0) (Fin (- 1)) (Fin 0), part_w = Fin 49\<rparr>)"

definition heavy_floor_constraint :: Constraint where
  "heavy_floor_constraint = EnvironmentalCollisionConstraint heavy_scene 0 (Fin 1) up (Fin 0)"

definition heavy_scene_after :: store where
  "heavy_scene_after =
     heavy_scene(0 := \<lparr>part_x = Zero3, part_p = Vec3 (Fin 0) (Fin (- (1 / 2 ^ 53))) (Fin 0),
                         part_w = Fin 49\<rparr>)"

section \<open>Basic facts about doubles and vectors\<close>

lemma zero_dbl_Fin [simp]: "(0::dbl) = Fin 0"
  by (simp add: zero_dbl_def)

lemma minus_Fin [simp]: "Fin a - Fin b = Fin (a - b)"
  by (simp add: minus_dbl_def)

lemma minus_Fin_zero [simp]: "x - Fin 0 = x"
  by (cases x) (simp_all add: minus_dbl_def)

lemma plus_Fin_zero [simp]: "x + Fin 0 = x"
  by (cases x) simp_all

lemma NaN_div [simp]: "NaN / x = NaN"
  by (cases x) simp_all

lemma NaN_mult [simp]: "NaN * x = NaN"
  by (cases x) simp_all

lemma not_ge_zero_cases: "\<not> (0::dbl) \<le> C \<Longrightarrow> C = NaN \<or> C < 0"
  by (cases C) auto

lemma is_Fin_iff: "is_Fin x \<longleftrightarrow> (\<exists>a. x = Fin a)"
  by (cases x) simp_all

lemma finite3_iff: "finite3 v \<longleftrightarrow> (\<exists>a b c. v = Vec3 (Fin a) (Fin b) (Fin c))"
  by (cases v) (simp add: is_Fin_iff)

lemma finite3_vsub: "finite3 u \<Longrightarrow> finite3 v \<Longrightarrow> finite3 (vsub u v)"
  by (auto simp: finite3_iff)

lemma finite3_cross: "finite3 u \<Longrightarrow> finite3 v \<Longrightarrow> finite3 (cross u v)"
  by (auto simp: finite3_iff)

subsection \<open>The zero-gradient guard tests for the exact zero vector\<close>

lemma nonneg_add_square: "nonneg acc \<Longrightarrow> nonneg (acc + x * x)"
  by (cases acc; cases x) simp_all

lemma add_square_eq_zero:
  "nonneg acc \<Longrightarrow> acc + x * x = Fin 0 \<longleftrightarrow> acc = Fin 0 \<and> x = Fin 0"
  by (cases acc; cases x) (auto simp: add_nonneg_eq_0_iff)

lemma foldl_squares_nonneg:
  "nonneg acc \<Longrightarrow> nonneg (foldl (+) acc (map (\<lambda>a. a * a) xs))"
  by (induction xs arbitrary: acc) (simp_all add: nonneg_add_square)

lemma foldl_squares_eq_zero:
  "nonneg acc \<Longrightarrow>
   foldl (+) acc (map (\<lambda>a. a * a) xs) = Fin 0 \<longleftrightarrow> acc = Fin 0 \<and> (\<forall>x\<in>set xs. x = Fin 0)"
proof (induction xs arbitrary: acc)
  case Nil
  then show ?case by simp
next
  case (Cons x xs)
  have "nonneg (acc + x * x)" using Cons.prems by (rule nonneg_add_square)
  from Cons.IH [OF this] show ?case
    using add_square_eq_zero [OF Cons.prems, of x] by auto
qed

lemma map2_minus_ZeroN: "length xs = n \<Longrightarrow> map2 (-) xs (ZeroN n) = xs"
  by (induction xs arbitrary: n) (auto simp: ZeroN_def)

lemma sum_squares_ZeroN: "sum_dbl (cwiseAbs2 (ZeroN n)) = Fin 0"
  by (induction n) (simp_all add: sum_dbl_def cwiseAbs2_def ZeroN_def)

lemma isApprox_ZeroN:
  assumes "length xs = n"
  shows "isApprox xs (ZeroN n) \<longleftrightarrow> (\<forall>x\<in>set xs. x = Fin 0)"
proof -
  let ?S = "sum_dbl (cwiseAbs2 xs)"
  have nn: "nonneg ?S"
    unfolding sum_dbl_def cwiseAbs2_def by (rule foldl_squares_nonneg) simp
  have z: "?S = Fin 0 \<longleftrightarrow> (\<forall>x\<in>set xs. x = Fin 0)"
    unfolding sum_dbl_def cwiseAbs2_def using foldl_squares_eq_zero [of 0 xs] by simp
  have "isApprox xs (ZeroN n) \<longleftrightarrow> ?S = Fin 0"
    using nn unfolding isApprox_def map2_minus_ZeroN [OF assms] sum_squares_ZeroN
    by (cases ?S) (auto simp: mini_def dummy_precision_def)
  with z show ?thesis by simp
qed

subsection \<open>Normalized finite vectors\<close>

lemma normalized_Fin:
  "normalized (Vec3 (Fin a) (Fin b) (Fin c)) =
     Vec3 (Fin (a / sqrt (a * a + b * b + c * c)))
          (Fin (b / sqrt (a * a + b * b + c * c)))
          (Fin (c / sqrt (a * a + b * b + c * c)))"
proof -
  have nn: "0 \<le> a * a + b * b + c * c" by simp
  show ?thesis
  proof (cases "0 < a * a + b * b + c * c")
    case True
    then show ?thesis
      by (simp add: normalized_def squaredNorm_def Let_def)
  next
    case False
    with nn have z: "a * a + b * b + c * c = 0" by linarith
    then have "a = 0 \<and> b = 0 \<and> c = 0"
      by (metis add_nonneg_eq_0_iff mult_eq_0_iff zero_le_square add_nonneg_nonneg)
    then show ?thesis
      by (simp add: normalized_def squaredNorm_def Let_def)
  qed
qed

lemma cauchy_schwarz3:
  fixes a b c d e f :: real
  shows "(a * d + b * e + c * f)\<^sup>2 \<le> (a * a + b * b + c * c) * (d * d + e * e + f * f)"
proof -
  have "(a * a + b * b + c * c) * (d * d + e * e + f * f) - (a * d + b * e + c * f)\<^sup>2
        = (a * e - b * d)\<^sup>2 + (a * f - c * d)\<^sup>2 + (b * f - c * e)\<^sup>2"
    by (simp add: power2_eq_square algebra_simps)
  moreover have "0 \<le> (a * e - b * d)\<^sup>2 + (a * f - c * d)\<^sup>2 + (b * f - c * e)\<^sup>2"
    by simp
  ultimately show ?thesis by linarith
qed

lemma dot_normalized_le_1:
  fixes a b c d e f :: real
  defines "r \<equiv> sqrt (a * a + b * b + c * c)"
  defines "s \<equiv> sqrt (d * d + e * e + f * f)"
  shows "\<bar>a / r * (d / s) + b / r * (e / s) + c / r * (f / s)\<bar> \<le> 1"
proof -
  have r0: "0 \<le> r" and s0: "0 \<le> s" by (simp_all add: r_def s_def)
  have eq: "a / r * (d / s) + b / r * (e / s) + c / r * (f / s)
            = (a * d + b * e + c * f) / (r * s)"
    by (simp add: add_divide_distrib)
  have "\<bar>a * d + b * e + c * f\<bar> = sqrt ((a * d + b * e + c * f)\<^sup>2)" by simp
  also have "\<dots> \<le> sqrt ((a * a + b * b + c * c) * (d * d + e * e + f * f))"
    using cauchy_schwarz3 [of a d b e c f] by (simp only: real_sqrt_le_iff)
  also have "\<dots> = r * s" by (simp add: r_def s_def real_sqrt_mult)
  finally have le: "\<bar>a * d + b * e + c * f\<bar> \<le> r * s" .
  show ?thesis
  proof (cases "r * s = 0")
    case True
    then have "(a * d + b * e + c * f) / (r * s) = 0" by (simp only: div_by_0)
    then show ?thesis unfolding eq by (simp only: abs_zero zero_le_one)
  next
    case False
    with r0 s0 have "0 < r * s" by (simp add: less_le)
    then have "\<bar>(a * d + b * e + c * f) / (r * s)\<bar> = \<bar>a * d + b * e + c * f\<bar> / (r * s)"
      by simp
    also have "\<dots> \<le> 1" using le \<open>0 < r * s\<close> by (simp only: divide_le_eq_1_pos)
    finally show ?thesis unfolding eq .
  qed
qed

lemma dot_normalized_finite:
  assumes "finite3 u" "finite3 v"
  shows "\<exists>t. dot (normalized u) (normalized v) = Fin t \<and> \<bar>t\<bar> \<le> 1"
proof -
  from assms obtain a b c d e f where
    u: "u = Vec3 (Fin a) (Fin b) (Fin c)" and v: "v = Vec3 (Fin d) (Fin e) (Fin f)"
    by (auto simp: finite3_iff)
  show ?thesis
    unfolding u v normalized_Fin using dot_normalized_le_1 [of a b c d e f] by simp
qed

section \<open>BendingConstraint: the gradient\<close>

text \<open>
  The dot product of two normalized finite vectors lies in \<open>[-1, 1]\<close>, so the test
  \<^verbatim>\<open>std::abs(d) - 1.0 < epsilon\<close> succeeds for all finite positions: the code after
  it is never reached, and the gradient is the zero vector for every dihedral angle.
\<close>

lemma BendingConstraint_calculateGrad_finite:
  assumes "finite3 (pos c h 0)" "finite3 (pos c h 1)" "finite3 (pos c h 2)" "finite3 (pos c h 3)"
  shows "BendingConstraint_calculateGrad c h = replicate 12 (Fin 0)"
proof -
  let ?u = "cross (vsub (pos c h 1) (pos c h 0)) (vsub (pos c h 2) (pos c h 0))"
  let ?v = "cross (vsub (pos c h 1) (pos c h 0)) (vsub (pos c h 3) (pos c h 0))"
  have "finite3 ?u" "finite3 ?v"
    using assms by (simp_all add: finite3_vsub finite3_cross)
  then obtain t where t: "dot (normalized ?u) (normalized ?v) = Fin t" "\<bar>t\<bar> \<le> 1"
    using dot_normalized_finite by blast
  have "\<bar>t\<bar> - 1 < 1 / 10 ^ 12" using t(2) by simp
  then show ?thesis
    unfolding BendingConstraint_calculateGrad_def Let_def t(1) epsilon_def
    by simp
qed

text \<open>
  C1. On the tetrahedron with the particles at the origin and at the three unit points, the
  two triangle normals are \<open>(0, 0, 1)\<close> and \<open>(0, -1, 0)\<close>: they are orthogonal,
  \<open>n\<^sub>0 \<sqdot> n\<^sub>1 = 0\<close>, as far from degenerate as normals can be. The claim asks for the
  closed-form gradient there and allows the zero vector only when \<open>|n\<^sub>0 \<sqdot> n\<^sub>1|\<close> is within
  epsilon of 1. \<^verbatim>\<open>calculateGrad\<close> returns twelve zeros, and the code after the test, which
  is not reached, would have returned a vector that is not zero.
\<close>

theorem BendingConstraint_calculateGrad_right_angle:
  "let c = BendingConstraint u 0 1 2 3 (Fin 1) (Fin 0);
       p_1 = vsub (pos c tetrahedron 1) (pos c tetrahedron 0);
       p_2 = vsub (pos c tetrahedron 2) (pos c tetrahedron 0);
       p_3 = vsub (pos c tetrahedron 3) (pos c tetrahedron 0);
       n_0 = normalized (cross p_1 p_2);
       n_1 = normalized (cross p_1 p_3)
   in n_0 = Vec3 (Fin 0) (Fin 0) (Fin 1) \<and> n_1 = Vec3 (Fin 0) (Fin (- 1)) (Fin 0) \<and>
      dot n_0 n_1 = Fin 0 \<and>
      BendingConstraint_calculateGrad c tetrahedron = replicate 12 (Fin 0) \<and>
      BendingConstraint_calculateGrad_chain_rule p_1 p_2 p_3 n_0 n_1 (dot n_0 n_1) =
        [Fin 0, Fin 2, Fin 2, Fin 0, Fin (- 2), Fin (- 2), Fin (- 2), Fin 0, Fin 0,
         Fin 2, Fin 0, Fin 0]"
  by (simp add: BendingConstraint_def BendingConstraint_calculateGrad_def pos_def
      tetrahedron_def normalized_def squaredNorm_def epsilon_def Let_def
      BendingConstraint_calculateGrad_chain_rule_def
      calculate_gradient_of_normalized_cross_product_wrt_p_1_def
      calculate_gradient_of_normalized_cross_product_wrt_p_2_def norm3_def)

section \<open>EnvironmentalCollisionConstraint: one-sided projection\<close>

lemma constructInverseMassMatrix_1 [simp]:
  "constructInverseMassMatrix (Suc 0) [a] h = [part_w (h a), part_w (h a), part_w (h a)]"
  by (simp add: constructInverseMassMatrix_def numeral_3_eq_3)

lemma EnvironmentalCollisionConstraint_value:
  "calculateValue (EnvironmentalCollisionConstraint h0 a k n d) h =
     Inr (dot n (part_p (h a)) - d)"
  by (simp add: calculateValue_def EnvironmentalCollisionConstraint_def
      EnvironmentalCollisionConstraint_calculateValue_def pos_def)

lemma projectPositions_1_NaN:
  "projectPositions (Suc 0) NaN (data n) [w, w, w] k ps h = Inr h' \<Longrightarrow> h' = h"
  by (cases n) (auto simp: projectPositions_def delta_x_def hasNaN_def Let_def split: if_splits)

lemma EnvironmentalCollisionConstraint_project:
  "projectParticles rnd buf (EnvironmentalCollisionConstraint h0 a k n d) st =
     (let C = dot n (part_p (heap st a)) - d
      in if C \<ge> 0 then Inr st
         else case projectPositions (Suc 0) C (data n)
                     [part_w (h0 a), part_w (h0 a), part_w (h0 a)] k [a] (heap st) of
                Inl e \<Rightarrow> Inl e
              | Inr h \<Rightarrow> Inr (st\<lparr>heap := h\<rparr>))"
  by (simp add: projectParticles_def EnvironmentalCollisionConstraint_value Let_def)
     (simp add: EnvironmentalCollisionConstraint_def calculateGrad_def project_def arity_def
       EnvironmentalCollisionConstraint_calculateGrad_def)

text \<open>
  C5. For an EnvironmentalCollisionConstraint the violation is \<open>C = n \<sqdot> x - d\<close>. If
  \<open>C \<ge> 0\<close>, \<^verbatim>\<open>projectParticles\<close> returns the state it was given. If it returns a state
  that differs from the one it was given, then \<open>C < 0\<close>.
\<close>

theorem EnvironmentalCollision_one_sided:
  "let c = EnvironmentalCollisionConstraint h0 a k n d;
       C = dot n (part_p (heap st a)) - d
   in calculateValue c (heap st) = Inr C \<and>
      (C \<ge> 0 \<longrightarrow> projectParticles rnd buf c st = Inr st) \<and>
      (\<forall>st'. projectParticles rnd buf c st = Inr st' \<longrightarrow> st' \<noteq> st \<longrightarrow> C < 0)"
proof -
  define C where "C = dot n (part_p (heap st a)) - d"
  have moved: "C < 0"
    if r: "projectParticles rnd buf (EnvironmentalCollisionConstraint h0 a k n d) st = Inr st'"
      and ne: "st' \<noteq> st" for st'
  proof (rule ccontr)
    assume nl: "\<not> C < 0"
    have n0: "\<not> 0 \<le> C"
      using r ne by (auto simp: EnvironmentalCollisionConstraint_project C_def Let_def)
    with nl have nan: "C = NaN" using not_ge_zero_cases by blast
    from r n0 obtain h' where
      h': "projectPositions (Suc 0) NaN (data n)
             [part_w (h0 a), part_w (h0 a), part_w (h0 a)] k [a] (heap st) = Inr h'"
      and st': "st' = st\<lparr>heap := h'\<rparr>"
      by (auto simp: EnvironmentalCollisionConstraint_project C_def [symmetric] nan Let_def
          split: sum.splits)
    from h' have "h' = heap st" by (rule projectPositions_1_NaN)
    with st' ne show False by simp
  qed
  show ?thesis
    unfolding Let_def C_def [symmetric]
    using moved
    by (simp add: EnvironmentalCollisionConstraint_value C_def
        EnvironmentalCollisionConstraint_project)
qed

lemma floor_scene_project:
  "projectParticles rnd buf (EnvironmentalCollisionConstraint (floor_scene y0) 0 (Fin 1) up (Fin 0))
     \<lparr>heap = floor_scene (- 1 / 2), rand_calls = 0\<rparr>
   = Inr \<lparr>heap = (floor_scene (- 1 / 2))
             (0 := \<lparr>part_x = Zero3, part_p = Vec3 (Fin 0) (Fin 0) (Fin 0), part_w = Fin 1\<rparr>),
          rand_calls = 0\<rparr>"
  by (simp add: EnvironmentalCollisionConstraint_project floor_scene_def up_def
      projectPositions_def isApprox_def ZeroN_def cwiseAbs2_def sum_dbl_def mini_def
      dummy_precision_def denominator_def delta_x_def hasNaN_def update_positions_def move_def
      segment3_def numeral_3_eq_3 Let_def)

theorem EnvironmentalCollision_one_sided_witness:
  "(let c = EnvironmentalCollisionConstraint (floor_scene 1) 0 (Fin 1) up (Fin 0);
        st = \<lparr>heap = floor_scene 1, rand_calls = 0\<rparr>
    in dot up (part_p (heap st 0)) - Fin 0 \<ge> 0 \<and> projectParticles (\<lambda>k. Fin 0) [] c st = Inr st) \<and>
   (let c = EnvironmentalCollisionConstraint (floor_scene 1) 0 (Fin 1) up (Fin 0);
        st = \<lparr>heap = floor_scene (- 1 / 2), rand_calls = 0\<rparr>
    in (\<exists>st'. projectParticles (\<lambda>k. Fin 0) [] c st = Inr st' \<and> st' \<noteq> st) \<and>
       dot up (part_p (heap st 0)) - Fin 0 < 0)"
proof -
  have "heap \<lparr>heap = (floor_scene (- 1 / 2))
             (0 := \<lparr>part_x = Zero3, part_p = Vec3 (Fin 0) (Fin 0) (Fin 0), part_w = Fin 1\<rparr>),
          rand_calls = 0\<rparr> 0 \<noteq> heap \<lparr>heap = floor_scene (- 1 / 2), rand_calls = 0\<rparr> 0"
    by (simp add: floor_scene_def)
  then have ne: "\<lparr>heap = (floor_scene (- 1 / 2))
             (0 := \<lparr>part_x = Zero3, part_p = Vec3 (Fin 0) (Fin 0) (Fin 0), part_w = Fin 1\<rparr>),
          rand_calls = 0\<rparr> \<noteq> \<lparr>heap = floor_scene (- 1 / 2), rand_calls = 0\<rparr>"
    by metis
  have ge: "dot up (part_p (heap \<lparr>heap = floor_scene 1, rand_calls = 0\<rparr> 0)) - Fin 0 \<ge> 0"
    by (simp add: up_def floor_scene_def)
  show ?thesis
    using EnvironmentalCollision_one_sided
            [of "floor_scene 1" 0 "Fin 1" up "Fin 0" "\<lparr>heap = floor_scene 1, rand_calls = 0\<rparr>"
                "\<lambda>k. Fin 0" "[]"]
          EnvironmentalCollision_one_sided
            [of "floor_scene 1" 0 "Fin 1" up "Fin 0"
                "\<lparr>heap = floor_scene (- 1 / 2), rand_calls = 0\<rparr>" "\<lambda>k. Fin 0" "[]"]
          floor_scene_project [of "\<lambda>k. Fin 0" "[]" 1] ne ge
    unfolding Let_def by (metis (no_types, lifting))
qed

section \<open>The kernel leaves pinned particles alone\<close>

lemma vadd_zero [simp]: "vadd v (Vec3 (Fin 0) (Fin 0) (Fin 0)) = v"
  by (cases v) simp

lemma scale_Fin_zero [simp]: "scale (Fin k) (Vec3 (Fin 0) (Fin 0) (Fin 0)) = Vec3 (Fin 0) (Fin 0) (Fin 0)"
  by simp

lemma update_positions_0 [simp]: "update_positions 0 k dx ps h = h"
  by (simp add: update_positions_def)

lemma update_positions_Suc:
  "update_positions (Suc n) k dx ps h = move k dx ps (update_positions n k dx ps h) n"
  by (simp add: update_positions_def)

lemma move_apply:
  "move k dx ps h j a =
     (if ps ! j = a
      then (h a)\<lparr>part_p := vadd (part_p (h a)) (scale k (segment3 dx (3 * j)))\<rparr>
      else h a)"
  by (simp add: move_def Let_def)

lemma update_positions_w [simp]: "part_w (update_positions n k dx ps h a) = part_w (h a)"
  by (induction n) (auto simp: update_positions_Suc move_apply)

lemma update_positions_x [simp]: "part_x (update_positions n k dx ps h a) = part_x (h a)"
  by (induction n) (auto simp: update_positions_Suc move_apply)

lemma update_positions_other:
  "\<forall>j<n. ps ! j \<noteq> a \<Longrightarrow> update_positions n k dx ps h a = h a"
  by (induction n) (auto simp: update_positions_Suc move_apply)

lemma update_positions_unmoved:
  "\<forall>j<n. ps ! j = a \<longrightarrow> scale k (segment3 dx (3 * j)) = Vec3 (Fin 0) (Fin 0) (Fin 0)
   \<Longrightarrow> update_positions n k dx ps h a = h a"
  by (induction n) (auto simp: update_positions_Suc move_apply)

lemma update_positions_distinct:
  "distinct ps \<Longrightarrow> n \<le> length ps \<Longrightarrow> j < n \<Longrightarrow>
   part_p (update_positions n k dx ps h (ps ! j)) =
     vadd (part_p (h (ps ! j))) (scale k (segment3 dx (3 * j)))"
proof (induction n)
  case 0
  then show ?case by simp
next
  case (Suc n)
  show ?case
  proof (cases "j = n")
    case True
    have "\<forall>i<n. ps ! i \<noteq> ps ! n"
      using Suc.prems by (auto simp: distinct_conv_nth)
    then have "update_positions n k dx ps h (ps ! n) = h (ps ! n)"
      by (rule update_positions_other)
    then show ?thesis using True by (simp add: update_positions_Suc move_apply)
  next
    case False
    then have jn: "j < n" using Suc.prems by simp
    have "ps ! j \<noteq> ps ! n"
      using Suc.prems jn by (auto simp: distinct_conv_nth)
    then show ?thesis using Suc jn by (simp add: update_positions_Suc move_apply)
  qed
qed

lemma length_constructInverseMassMatrix [simp]:
  "length (constructInverseMassMatrix n ps h) = 3 * n"
  by (induction n) (simp_all add: constructInverseMassMatrix_def)

lemma constructInverseMassMatrix_Suc:
  "constructInverseMassMatrix (Suc n) ps h =
     constructInverseMassMatrix n ps h @ replicate 3 (part_w (h (ps ! n)))"
  by (simp add: constructInverseMassMatrix_def)

lemma constructInverseMassMatrix_nth:
  "j < n \<Longrightarrow> i < 3 \<Longrightarrow> constructInverseMassMatrix n ps h ! (3 * j + i) = part_w (h (ps ! j))"
proof (induction n)
  case 0
  then show ?case by simp
next
  case (Suc n)
  show ?case
  proof (cases "j = n")
    case True
    then show ?thesis using Suc.prems
      by (simp add: constructInverseMassMatrix_Suc nth_append)
  next
    case False
    then have "j < n" using Suc.prems by simp
    then have "3 * j + i < 3 * n" using Suc.prems by simp
    then show ?thesis using Suc \<open>j < n\<close>
      by (simp add: constructInverseMassMatrix_Suc nth_append)
  qed
qed

lemma length_delta_x [simp]: "length (delta_x s inv_M g) = min (length inv_M) (length g)"
  by (simp add: delta_x_def)

lemma delta_x_nth:
  "i < length inv_M \<Longrightarrow> i < length g \<Longrightarrow> delta_x s inv_M g ! i = (- s) * inv_M ! i * g ! i"
  by (simp add: delta_x_def)

lemma mult_zero_mult: "x * Fin 0 * y = Fin 0 \<or> x * Fin 0 * y = NaN"
  by (cases x; cases y) simp_all

lemma hasNaN_nth: "\<not> hasNaN xs \<Longrightarrow> i < length xs \<Longrightarrow> xs ! i \<noteq> NaN"
  by (metis hasNaN_def list_ex_iff nth_mem isnan.simps(1))

text \<open>A particle whose cached inverse mass is zero keeps its position.\<close>

lemma projectPositions_pinned:
  assumes r: "projectPositions Num C g (constructInverseMassMatrix Num ps h0) (Fin k) ps h = Inr h'"
    and len: "length g = 3 * Num"
    and w: "part_w (h0 a) = Fin 0"
  shows "h' a = h a"
proof (cases "isApprox g (ZeroN (Num * 3))")
  case True
  with r show ?thesis by (simp add: projectPositions_def)
next
  case False
  define inv_M where "inv_M = constructInverseMassMatrix Num ps h0"
  define dx where "dx = delta_x (C / denominator g inv_M) inv_M g"
  from r False have nn: "\<not> hasNaN dx" and h': "h' = update_positions Num (Fin k) dx ps h"
    by (auto simp: projectPositions_def Let_def dx_def inv_M_def split: if_splits)
  have ldx: "length dx = 3 * Num" by (simp add: dx_def inv_M_def len)
  have "scale (Fin k) (segment3 dx (3 * j)) = Vec3 (Fin 0) (Fin 0) (Fin 0)"
    if j: "j < Num" and a: "ps ! j = a" for j
  proof -
    have z: "dx ! (3 * j + i) = Fin 0" if i: "i < 3" for i
    proof -
      have lt: "3 * j + i < 3 * Num" using j i by simp
      have "inv_M ! (3 * j + i) = Fin 0"
        unfolding inv_M_def using constructInverseMassMatrix_nth [OF j i, of ps h0] a w by simp
      then have "dx ! (3 * j + i) = (- (C / denominator g inv_M)) * Fin 0 * g ! (3 * j + i)"
        unfolding dx_def using lt len by (simp add: delta_x_nth inv_M_def)
      moreover have "dx ! (3 * j + i) \<noteq> NaN"
        using nn lt ldx by (simp add: hasNaN_nth)
      ultimately show ?thesis using mult_zero_mult by metis
    qed
    from z [of 0] z [of 1] z [of 2] show ?thesis
      by (simp add: segment3_def)
  qed
  then show ?thesis unfolding h' by (intro update_positions_unmoved) blast
qed

lemma length_data [simp]: "length (data v) = 3"
  by (cases v) simp

lemma calculateGrad_heap [simp]: "heap (snd (calculateGrad rnd c st buf)) = heap st"
  by (simp add: calculateGrad_def DistanceConstraint_calculateGrad_def Let_def
      split: subtype.splits prod.splits)

lemma length_BendingConstraint_calculateGrad [simp]:
  "length (BendingConstraint_calculateGrad c h) = 12"
  by (simp add: BendingConstraint_calculateGrad_def BendingConstraint_calculateGrad_chain_rule_def
      Let_def)

lemma length_IsometricBendingConstraint_calculateGrad [simp]:
  "length (IsometricBendingConstraint_calculateGrad c h) = 12"
  by (simp add: IsometricBendingConstraint_calculateGrad_def Let_def length_concat
      upt_conv_Cons [of 0 4] numeral_eq_Suc)

lemma length_calculateGrad:
  "length buf = 3 * arity (m_sub c) \<Longrightarrow>
   length (fst (calculateGrad rnd c st buf)) = 3 * arity (m_sub c)"
  by (auto simp: calculateGrad_def DistanceConstraint_calculateGrad_def arity_def Let_def
      FixedPointConstraint_calculateGrad_def EnvironmentalCollisionConstraint_calculateGrad_def
      split: subtype.splits prod.splits)

lemma project_Inr:
  "project C g c st = Inr st' \<longleftrightarrow>
     (\<exists>h'. projectPositions (arity (m_sub c)) C g (m_inv_M c) (m_stiffness c) (m_particles c)
             (heap st) = Inr h' \<and> st' = st\<lparr>heap := h'\<rparr>)"
  by (auto simp: project_def split: sum.splits)

lemma projectParticles_Inr:
  assumes "projectParticles rnd buf c st = Inr st'"
  shows "\<exists>C. calculateValue c (heap st) = Inr C \<and>
           (st' = st \<or>
            projectPositions (arity (m_sub c)) C (fst (calculateGrad rnd c st buf)) (m_inv_M c)
              (m_stiffness c) (m_particles c) (heap st) = Inr (heap st'))"
proof -
  from assms obtain C where C: "calculateValue c (heap st) = Inr C"
    by (auto simp: projectParticles_def split: sum.splits)
  obtain g st1 where g: "calculateGrad rnd c st buf = (g, st1)" by (cases "calculateGrad rnd c st buf")
  have hs: "heap st1 = heap st" using calculateGrad_heap [of rnd c st buf] g by simp
  have "st' = st \<or> project C g c st1 = Inr st'"
    using assms C g by (auto simp: projectParticles_def split: subtype.splits if_splits)
  then show ?thesis using C g hs by (auto simp: project_Inr)
qed

lemma constructInverseMassMatrix_2 [simp]:
  "constructInverseMassMatrix 2 [a, b] h =
     [part_w (h a), part_w (h a), part_w (h a), part_w (h b), part_w (h b), part_w (h b)]"
  by (simp add: constructInverseMassMatrix_def numeral_3_eq_3 numeral_2_eq_2)

lemma DistanceConstraint_Inr:
  "DistanceConstraint h0 p0 p1 k d = Inr c \<longleftrightarrow>
     0 \<le> d \<and>
     c = \<lparr>m_particles = [p0, p1], m_stiffness = k,
          m_inv_M = constructInverseMassMatrix 2 [p0, p1] h0, m_sub = Distance d\<rparr>"
  by (auto simp: DistanceConstraint_def)

lemma DistanceConstraint_grad_finite:
  assumes "m_particles c = [p0, p1]"
    and "part_p (heap st p0) = Vec3 (Fin a0) (Fin b0) (Fin c0)"
    and "part_p (heap st p1) = Vec3 (Fin a1) (Fin b1) (Fin c1)"
  defines "r \<equiv> sqrt ((a0 - a1) * (a0 - a1) + (b0 - b1) * (b0 - b1) + (c0 - c1) * (c0 - c1))"
  shows "DistanceConstraint_calculateGrad rnd c st =
           ([Fin ((a0 - a1) / r), Fin ((b0 - b1) / r), Fin ((c0 - c1) / r),
             Fin (- ((a0 - a1) / r)), Fin (- ((b0 - b1) / r)), Fin (- ((c0 - c1) / r))], st)"
    and "DistanceConstraint_calculateValue c (heap st) = Fin r - dist_d (m_sub c)"
  using assms
  by (simp_all add: DistanceConstraint_calculateGrad_def DistanceConstraint_calculateValue_def
      pos_def normalized_Fin Let_def norm3_def squaredNorm_def)

lemma sum_dbl_6 [simp]:
  "sum_dbl [a, b, c, d, e, f] = Fin 0 + a + b + c + d + e + f"
  by (simp add: sum_dbl_def)

lemma Distance_pinned_returns:
  assumes c: "DistanceConstraint h0 p0 p1 (Fin k) (Fin d) = Inr c"
    and w: "part_w (h0 p0) = Fin 1" "part_w (h0 p1) = Fin 0"
    and fin: "finite3 (part_p (heap st p0))" "finite3 (part_p (heap st p1))"
  shows "\<exists>st'. projectParticles rnd buf c st = Inr st'"
proof -
  from fin obtain a0 b0 c0 a1 b1 c1 where
    x0: "part_p (heap st p0) = Vec3 (Fin a0) (Fin b0) (Fin c0)" and
    x1: "part_p (heap st p1) = Vec3 (Fin a1) (Fin b1) (Fin c1)"
    by (auto simp: finite3_iff)
  define r where "r = sqrt ((a0 - a1) * (a0 - a1) + (b0 - b1) * (b0 - b1) + (c0 - c1) * (c0 - c1))"
  define u v w where "u = (a0 - a1) / r" and "v = (b0 - b1) / r" and "w = (c0 - c1) / r"
  define g where "g = [Fin u, Fin v, Fin w, Fin (- u), Fin (- v), Fin (- w)]"
  have cdef: "c = \<lparr>m_particles = [p0, p1], m_stiffness = Fin k,
          m_inv_M = constructInverseMassMatrix 2 [p0, p1] h0, m_sub = Distance (Fin d)\<rparr>"
    using c by (simp add: DistanceConstraint_Inr)
  have mp: "m_particles c = [p0, p1]" by (simp add: cdef)
  have grad: "calculateGrad rnd c st buf = (g, st)"
    using DistanceConstraint_grad_finite(1) [OF mp x0 x1, of rnd]
    by (simp add: calculateGrad_def cdef g_def u_def v_def w_def r_def)
  have val: "calculateValue c (heap st) = Inr (Fin (r - d))"
    using DistanceConstraint_grad_finite(2) [OF mp x0 x1]
    by (simp add: calculateValue_def cdef r_def)
  have pp: "projectParticles rnd buf c st =
        (case projectPositions 2 (Fin (r - d)) g [Fin 1, Fin 1, Fin 1, Fin 0, Fin 0, Fin 0]
               (Fin k) [p0, p1] (heap st) of Inl e \<Rightarrow> Inl e | Inr h \<Rightarrow> Inr (st\<lparr>heap := h\<rparr>))"
  proof -
    have f: "m_sub c = Distance (Fin d)" "m_stiffness c = Fin k"
      "m_inv_M c = [Fin 1, Fin 1, Fin 1, Fin 0, Fin 0, Fin 0]"
      by (simp_all add: cdef w)
    show ?thesis
      by (simp add: projectParticles_def val grad project_def f mp arity_def)
  qed
  show ?thesis
  proof (cases "isApprox g (ZeroN (2 * 3))")
    case True
    then show ?thesis by (simp add: pp projectPositions_def)
  next
    case False
    then have "\<not> (\<forall>x\<in>set g. x = Fin 0)"
      using isApprox_ZeroN [of g "2 * 3"] by (simp add: g_def)
    then have "u \<noteq> 0 \<or> v \<noteq> 0 \<or> w \<noteq> 0" by (auto simp: g_def)
    then have "u * u + v * v + w * w \<noteq> 0"
      by (metis add_nonneg_eq_0_iff mult_eq_0_iff zero_le_square add_nonneg_nonneg)
    then show ?thesis using False
      by (simp add: pp projectPositions_def denominator_def delta_x_def hasNaN_def g_def Let_def)
  qed
qed

text \<open>
  C7. A DistanceConstraint built over a particle of inverse mass 1 and a particle of
  inverse mass 0, with a finite stiffness: whatever state \<^verbatim>\<open>projectParticles\<close> returns,
  particle 1 is as it was, and on finite positions and a finite rest distance it does
  return a state. More generally, a run of the kernel with the inverse masses cached from
  a store in which a particle has inverse mass 0 returns a store with that particle as
  it was.
\<close>

theorem pinned_particle_is_never_moved:
  "(DistanceConstraint h0 p0 p1 (Fin k) d = Inr c \<longrightarrow>
    part_w (h0 p0) = Fin 1 \<longrightarrow> part_w (h0 p1) = Fin 0 \<longrightarrow>
      (\<forall>st'. projectParticles rnd buf c st = Inr st' \<longrightarrow> heap st' p1 = heap st p1) \<and>
      (is_Fin d \<longrightarrow> finite3 (part_p (heap st p0)) \<longrightarrow> finite3 (part_p (heap st p1)) \<longrightarrow>
         (\<exists>st'. projectParticles rnd buf c st = Inr st'))) \<and>
   (projectPositions Num C g (constructInverseMassMatrix Num ps h1) (Fin k') ps h = Inr h' \<longrightarrow>
    length g = 3 * Num \<longrightarrow> part_w (h1 a) = Fin 0 \<longrightarrow> h' a = h a)"
proof (intro conjI impI allI)
  fix st'
  assume c: "DistanceConstraint h0 p0 p1 (Fin k) d = Inr c"
    and w: "part_w (h0 p1) = Fin 0"
    and r: "projectParticles rnd buf c st = Inr st'"
  have f: "m_particles c = [p0, p1]" "m_stiffness c = Fin k" "arity (m_sub c) = 2"
    "m_inv_M c = constructInverseMassMatrix 2 [p0, p1] h0"
    using c by (simp_all add: DistanceConstraint_Inr arity_def)
  have len: "length (fst (calculateGrad rnd c st buf)) = 3 * 2"
    using c by (auto simp: DistanceConstraint_Inr calculateGrad_def
        DistanceConstraint_calculateGrad_def Let_def split: prod.splits)
  from projectParticles_Inr [OF r] obtain C' where
    "st' = st \<or>
     projectPositions 2 C' (fst (calculateGrad rnd c st buf))
       (constructInverseMassMatrix 2 [p0, p1] h0) (Fin k) [p0, p1] (heap st) = Inr (heap st')"
    unfolding f by blast
  then show "heap st' p1 = heap st p1"
  proof
    assume "st' = st"
    then show ?thesis by simp
  next
    assume "projectPositions 2 C' (fst (calculateGrad rnd c st buf))
       (constructInverseMassMatrix 2 [p0, p1] h0) (Fin k) [p0, p1] (heap st) = Inr (heap st')"
    then show ?thesis using len w by (rule projectPositions_pinned)
  qed
next
  assume "DistanceConstraint h0 p0 p1 (Fin k) d = Inr c"
    "part_w (h0 p0) = Fin 1" "part_w (h0 p1) = Fin 0" "is_Fin d"
    "finite3 (part_p (heap st p0))" "finite3 (part_p (heap st p1))"
  then show "\<exists>st'. projectParticles rnd buf c st = Inr st'"
    using Distance_pinned_returns [of h0 p0 p1 k _ c st rnd buf] by (auto simp: is_Fin_iff)
next
  assume "projectPositions Num C g (constructInverseMassMatrix Num ps h1) (Fin k') ps h = Inr h'"
    "length g = 3 * Num" "part_w (h1 a) = Fin 0"
  then show "h' a = h a" by (rule projectPositions_pinned)
qed

theorem pinned_particle_is_never_moved_witness:
  "(\<exists>c st'. DistanceConstraint pinned_pair 0 1 (Fin 1) (Fin 1) = Inr c \<and>
      projectParticles (\<lambda>k. Fin 0) (replicate 6 NaN) c \<lparr>heap = pinned_pair, rand_calls = 0\<rparr>
        = Inr st' \<and>
      heap st' 1 = pinned_pair 1) \<and>
   (\<exists>h'. projectPositions 2 (Fin 1) [Fin (- 1), Fin 0, Fin 0, Fin 1, Fin 0, Fin 0]
            (constructInverseMassMatrix 2 [0, 1] pinned_pair) (Fin 1) [0, 1] pinned_pair = Inr h' \<and>
          h' 1 = pinned_pair 1 \<and> part_p (h' 0) = Vec3 (Fin 1) (Fin 0) (Fin 0))"
proof -
  define c where "c = \<lparr>m_particles = [0, 1], m_stiffness = Fin 1,
          m_inv_M = constructInverseMassMatrix 2 [0, 1] pinned_pair, m_sub = Distance (Fin 1)\<rparr>"
  define st where "st = \<lparr>heap = pinned_pair, rand_calls = 0\<rparr>"
  define h' where "h' = update_positions 2 (Fin 1) [Fin 1, Fin 0, Fin 0, Fin 0, Fin 0, Fin 0]
           [0, 1] pinned_pair"
  have c: "DistanceConstraint pinned_pair 0 1 (Fin 1) (Fin 1) = Inr c"
    by (simp add: DistanceConstraint_Inr c_def)
  have w: "part_w (pinned_pair 0) = Fin 1" "part_w (pinned_pair 1) = Fin 0"
    by (simp_all add: pinned_pair_def)
  have fin: "is_Fin (Fin 1)" "finite3 (part_p (heap st 0))" "finite3 (part_p (heap st 1))"
    by (simp_all add: st_def pinned_pair_def)
  have k: "projectPositions 2 (Fin 1) [Fin (- 1), Fin 0, Fin 0, Fin 1, Fin 0, Fin 0]
            (constructInverseMassMatrix 2 [0, 1] pinned_pair) (Fin 1) [0, 1] pinned_pair = Inr h'"
    unfolding constructInverseMassMatrix_2 h'_def
    by (simp add: projectPositions_def isApprox_def ZeroN_def cwiseAbs2_def mini_def
        dummy_precision_def denominator_def delta_x_def hasNaN_def numeral_eq_Suc
        pinned_pair_def Let_def)
  have m: "part_p (h' 0) = Vec3 (Fin 1) (Fin 0) (Fin 0)"
    by (simp add: h'_def update_positions_def move_def segment3_def pinned_pair_def
        numeral_2_eq_2 Let_def)
  note inst = pinned_particle_is_never_moved
      [of pinned_pair 0 1 1 "Fin 1" c "\<lambda>k. Fin 0" "replicate 6 NaN" st 2 "Fin 1"
          "[Fin (- 1), Fin 0, Fin 0, Fin 1, Fin 0, Fin 0]" "[0, 1]" pinned_pair 1 pinned_pair h' 1]
  from inst c w fin obtain st' where
    "projectParticles (\<lambda>k. Fin 0) (replicate 6 NaN) c st = Inr st'" "heap st' 1 = heap st 1"
    by blast
  moreover from inst k w have "h' 1 = pinned_pair 1" by simp
  ultimately show ?thesis using c k m by (auto simp: st_def)
qed

section \<open>EnvironmentalCollisionConstraint: the correction\<close>

lemma sum_dbl_3 [simp]: "sum_dbl [a, b, c] = Fin 0 + a + b + c"
  by (simp add: sum_dbl_def)

lemma Fin_zero_plus [simp]: "Fin 0 + x = x"
  by (cases x) simp_all

lemma update_positions_1:
  "update_positions (Suc 0) k dx [a] h =
     h(a := (h a)\<lparr>part_p := vadd (part_p (h a)) (scale k (segment3 dx 0))\<rparr>)"
  by (simp add: update_positions_def move_def)

lemma collision_kernel:
  fixes n0 n1 n2 w C :: real
  assumes unit: "n0 * n0 + n1 * n1 + n2 * n2 = 1" and w: "0 < w"
  shows "projectPositions (Suc 0) (Fin C) [Fin n0, Fin n1, Fin n2] [Fin w, Fin w, Fin w] (Fin 1)
           [a] h =
         Inr (h(a := (h a)\<lparr>part_p := vadd (part_p (h a))
                 (Vec3 (Fin (- C * n0)) (Fin (- C * n1)) (Fin (- C * n2)))\<rparr>))"
proof -
  let ?g = "[Fin n0, Fin n1, Fin n2]"
  have "\<not> (n0 = 0 \<and> n1 = 0 \<and> n2 = 0)" using unit by auto
  then have na: "\<not> isApprox ?g (ZeroN (Suc 0 * 3))"
    using isApprox_ZeroN [of ?g "Suc 0 * 3"] by auto
  have "n0 * w * n0 + n1 * w * n1 + n2 * w * n2 = w * (n0 * n0 + n1 * n1 + n2 * n2)"
    by (simp add: algebra_simps)
  then have den: "n0 * w * n0 + n1 * w * n1 + n2 * w * n2 = w" using unit by simp
  have s: "- (C / w) * w = - C" using w by simp
  show ?thesis
    using na 
    by (simp add: projectPositions_def denominator_def delta_x_def hasNaN_def Let_def den
        update_positions_1 segment3_def s w less_imp_neq [OF w, symmetric])
qed


text \<open>
  In exact real arithmetic the inverse mass cancels: with a unit normal \<open>n\<close>, stiffness 1
  and any cached inverse mass \<open>w > 0\<close>, a particle with \<open>n \<sqdot> x - d < 0\<close> is moved by
  \<open>- C n\<close>, onto the plane. The rounded operations are treated in the last section.
\<close>

lemma collision_correction_exact_arithmetic:
  fixes n0 n1 n2 w x y z d C :: real
  assumes "n0 * n0 + n1 * n1 + n2 * n2 = 1"
    and "part_w (h0 a) = Fin w" and "0 < w"
    and "part_p (heap st a) = Vec3 (Fin x) (Fin y) (Fin z)"
    and "C = n0 * x + n1 * y + n2 * z - d" and "C < 0"
  shows "let n = Vec3 (Fin n0) (Fin n1) (Fin n2);
             c = EnvironmentalCollisionConstraint h0 a (Fin 1) n (Fin d)
         in calculateValue c (heap st) = Inr (Fin C) \<and>
            (\<exists>st'. projectParticles rnd buf c st = Inr st' \<and>
               part_p (heap st' a) = vadd (part_p (heap st a)) (scale (Fin (- C)) n) \<and>
               calculateValue c (heap st') = Inr (Fin 0))"
proof -
  let ?n = "Vec3 (Fin n0) (Fin n1) (Fin n2)"
  let ?c = "EnvironmentalCollisionConstraint h0 a (Fin 1) ?n (Fin d)"
  let ?p' = "Vec3 (Fin (x - C * n0)) (Fin (y - C * n1)) (Fin (z - C * n2))"
  let ?st' = "st\<lparr>heap := (heap st)(a := (heap st a)\<lparr>part_p := ?p'\<rparr>)\<rparr>"
  have dv: "dot ?n (part_p (heap st a)) - Fin d = Fin C"
    using assms(4,5) by simp
  have v: "calculateValue ?c (heap st) = Inr (Fin C)"
    by (simp only: EnvironmentalCollisionConstraint_value dv)
  have k: "projectPositions (Suc 0) (Fin C) (data ?n) [Fin w, Fin w, Fin w] (Fin 1) [a] (heap st)
           = Inr ((heap st)(a := (heap st a)\<lparr>part_p := ?p'\<rparr>))"
    using collision_kernel [OF assms(1) assms(3), of C a "heap st"]
    by (simp add: assms(4))
  have r: "projectParticles rnd buf ?c st = Inr ?st'"
    using assms(6)
    by (simp only: EnvironmentalCollisionConstraint_project dv Let_def assms(2) k) simp
  have "n0 * (x - C * n0) + n1 * (y - C * n1) + n2 * (z - C * n2) - d
        = (n0 * x + n1 * y + n2 * z - d) - C * (n0 * n0 + n1 * n1 + n2 * n2)"
    by (simp add: algebra_simps)
  also have "\<dots> = 0" using assms(1,5) by simp
  finally have v': "calculateValue ?c (heap ?st') = Inr (Fin 0)"
    by (simp add: EnvironmentalCollisionConstraint_value)
  have m: "part_p (heap ?st' a) = vadd (part_p (heap st a)) (scale (Fin (- C)) ?n)"
    by (simp add: assms(4) algebra_simps)
  show ?thesis unfolding Let_def using v r v' m by blast
qed

section \<open>The zero-gradient guard and the denominator\<close>

lemma foldl_plus_Fin: "foldl (+) (Fin acc) (map Fin xs) = Fin (acc + sum_list xs)"
  by (induction xs arbitrary: acc) (simp_all add: add.assoc)

lemma sum_dbl_Fin: "sum_dbl (map Fin xs) = Fin (sum_list xs)"
  by (simp add: sum_dbl_def foldl_plus_Fin)

lemma denominator_Fin:
  "denominator (map Fin gs) (map Fin ws) = Fin (sum_list (map2 (\<lambda>g w. g * w * g) gs ws))"
proof -
  have eq: "map2 (\<lambda>g w. g * w * g) (map Fin gs) (map Fin ws)
        = map Fin (map2 (\<lambda>g w. g * w * g) gs ws)"
    by (auto simp: zip_map_map)
  show ?thesis unfolding denominator_def eq by (rule sum_dbl_Fin)
qed

lemma member_le_sum_list_real:
  fixes xs :: "real list"
  shows "\<forall>x\<in>set xs. 0 \<le> x \<Longrightarrow> y \<in> set xs \<Longrightarrow> y \<le> sum_list xs"
proof (induction xs)
  case Nil
  then show ?case by simp
next
  case (Cons x xs)
  have "0 \<le> sum_list xs" using Cons.prems(1) by (simp add: sum_list_nonneg)
  then show ?case using Cons by auto
qed

lemma term_nonneg: "0 \<le> (w::real) \<Longrightarrow> 0 \<le> g * w * g"
proof -
  assume "0 \<le> w"
  then have "0 \<le> w * (g * g)" by (rule mult_nonneg_nonneg) simp
  also have "w * (g * g) = g * w * g" by (simp add: mult_ac)
  finally show ?thesis .
qed

lemma term_pos: "0 < (w::real) \<Longrightarrow> g \<noteq> 0 \<Longrightarrow> 0 < g * w * g"
proof -
  assume w: "0 < w" and g: "g \<noteq> 0"
  from g have "0 < g * g" by (simp add: zero_less_mult_iff, arith)
  with w have "0 < w * (g * g)" by (rule mult_pos_pos)
  also have "w * (g * g) = g * w * g" by (simp add: mult_ac)
  finally show ?thesis .
qed

lemma denominator_pos:
  assumes len: "length gs = length ws"
    and nn: "\<forall>w\<in>set ws. 0 \<le> w"
    and i: "i < length gs" "gs ! i \<noteq> 0" "0 < ws ! i"
  shows "\<exists>D. denominator (map Fin gs) (map Fin ws) = Fin D \<and> 0 < D"
proof -
  let ?ts = "map2 (\<lambda>g w. g * w * g) gs ws"
  have "\<forall>t\<in>set ?ts. 0 \<le> t"
  proof
    fix t assume "t \<in> set ?ts"
    then obtain g w where gw: "(g, w) \<in> set (zip gs ws)" and t: "t = g * w * g" by auto
    from gw have "w \<in> set ws" by (rule set_zip_rightD)
    with nn have "0 \<le> w" by simp
    then show "0 \<le> t" unfolding t by (rule term_nonneg)
  qed
  moreover have li: "i < length ?ts" using i(1) len by simp
  have "?ts ! i = gs ! i * ws ! i * gs ! i" using i(1) len by simp
  with li have "gs ! i * ws ! i * gs ! i \<in> set ?ts"
    using nth_mem [OF li] by simp
  ultimately have "gs ! i * ws ! i * gs ! i \<le> sum_list ?ts"
    by (rule member_le_sum_list_real)
  moreover have "0 < gs ! i * ws ! i * gs ! i"
    using i(3,2) by (rule term_pos)
  ultimately have "0 < sum_list ?ts" by linarith
  then show ?thesis by (simp add: denominator_Fin)
qed

lemma div_zero_not_Fin: "\<not> is_Fin (C / Fin 0)"
  by (cases C) simp_all

lemma uminus_not_Fin: "\<not> is_Fin x \<Longrightarrow> \<not> is_Fin (- x)"
  by (cases x) simp_all

lemma not_Fin_mult_zero: "\<not> is_Fin x \<Longrightarrow> w = 0 \<or> g = 0 \<Longrightarrow> x * Fin w * Fin g = NaN"
  by (cases x) auto

lemma hasNaN_I: "i < length xs \<Longrightarrow> xs ! i = NaN \<Longrightarrow> hasNaN xs"
  unfolding hasNaN_def list_ex_iff by (metis nth_mem isnan.simps(1))

lemma sum_list_all_zero:
  fixes xs :: "real list"
  shows "\<forall>t\<in>set xs. t = 0 \<Longrightarrow> sum_list xs = 0"
  by (induction xs) simp_all

lemma projectPositions_zero_denominator:
  assumes len: "length gs = length ws" "length gs = Num * 3"
    and nz: "i < length gs" "gs ! i \<noteq> 0"
    and z: "\<forall>j<length gs. gs ! j = 0 \<or> ws ! j = 0"
  shows "denominator (map Fin gs) (map Fin ws) = Fin 0"
    and "projectPositions Num C (map Fin gs) (map Fin ws) k ps h = Inl AssertionFailed"
proof -
  let ?ts = "map2 (\<lambda>g w. g * w * g) gs ws"
  have "\<forall>t\<in>set ?ts. t = 0"
  proof
    fix t assume "t \<in> set ?ts"
    then obtain j where j: "j < length ?ts" and t: "?ts ! j = t"
      unfolding in_set_conv_nth by blast
    from j have jl: "j < length gs" "j < length ws" by simp_all
    with z have "gs ! j = 0 \<or> ws ! j = 0" by simp
    moreover have "?ts ! j = gs ! j * ws ! j * gs ! j" using jl by simp
    ultimately show "t = 0" using t by auto
  qed
  then have "sum_list ?ts = 0" by (rule sum_list_all_zero)
  then show den: "denominator (map Fin gs) (map Fin ws) = Fin 0"
    by (simp only: denominator_Fin)
  have "Fin (gs ! i) \<in> set (map Fin gs)" using nz(1) by simp
  moreover have "Fin (gs ! i) \<noteq> Fin 0" using nz(2) by simp
  ultimately have "\<not> (\<forall>x\<in>set (map Fin gs). x = Fin 0)" by blast
  moreover have "length (map Fin gs) = Num * 3" using len(2) by simp
  ultimately have na: "\<not> isApprox (map Fin gs) (ZeroN (Num * 3))"
    using isApprox_ZeroN [of "map Fin gs" "Num * 3"] by blast
  define s where "s = C / Fin 0"
  have ns: "\<not> is_Fin (- s)" unfolding s_def by (rule uminus_not_Fin) (rule div_zero_not_Fin)
  have "gs ! i = 0 \<or> ws ! i = 0" using z nz(1) by simp
  then have "ws ! i = 0 \<or> gs ! i = 0" by blast
  with ns have "(- s) * Fin (ws ! i) * Fin (gs ! i) = NaN"
    by (rule not_Fin_mult_zero)
  then have "delta_x s (map Fin ws) (map Fin gs) ! i = NaN"
    using nz(1) len(1) by (simp add: delta_x_nth)
  moreover have "i < length (delta_x s (map Fin ws) (map Fin gs))"
    using nz(1) len(1) by simp
  ultimately have "hasNaN (delta_x s (map Fin ws) (map Fin gs))"
    by (rule hasNaN_I [rotated])
  then have "hasNaN (delta_x (C / denominator (map Fin gs) (map Fin ws)) (map Fin ws) (map Fin gs))"
    by (simp only: den s_def)
  with na show "projectPositions Num C (map Fin gs) (map Fin ws) k ps h = Inl AssertionFailed"
    by (simp only: projectPositions_def Let_def if_False if_True)
qed

lemma projectPositions_zero_gradient:
  "length g = Num * 3 \<Longrightarrow> \<forall>x\<in>set g. x = Fin 0 \<Longrightarrow>
   projectPositions Num C g inv_M k ps h = Inr h"
  using isApprox_ZeroN [of g "Num * 3"] by (simp add: projectPositions_def)

text \<open>
  C4. The claim says that, thanks to the zero-gradient guard, the division that computes
  \<open>s\<close> is never evaluated with a zero denominator. A FixedPointConstraint on a pinned
  particle (inverse mass 0) one unit away from its point has the violation 1 and the
  gradient \<open>(1, 0, 0)\<close>, which passes the guard, and the denominator 0: the division is
  evaluated as \<open>1 / 0\<close>, the displacement is NaN, and the run ends in the assertion that
  follows the division.
\<close>

theorem pinned_particle_zero_denominator:
  "calculateValue stuck_pin (heap stuck_state) = Inr (Fin 1) \<and>
   calculateGrad no_random stuck_pin stuck_state [NaN, NaN, NaN]
     = ([Fin 1, Fin 0, Fin 0], stuck_state) \<and>
   \<not> isApprox [Fin 1, Fin 0, Fin 0] (ZeroN 3) \<and>
   denominator [Fin 1, Fin 0, Fin 0] (m_inv_M stuck_pin) = Fin 0 \<and>
   projectParticles no_random [NaN, NaN, NaN] stuck_pin stuck_state = Inl AssertionFailed"
proof -
  have v: "calculateValue stuck_pin (heap stuck_state) = Inr (Fin 1)"
    by (simp add: stuck_pin_def stuck_state_def stuck_def FixedPointConstraint_def
        calculateValue_def FixedPointConstraint_calculateValue_def pos_def norm3_def
        squaredNorm_def)
  have g: "calculateGrad no_random stuck_pin stuck_state [NaN, NaN, NaN]
     = ([Fin 1, Fin 0, Fin 0], stuck_state)"
    by (simp add: stuck_pin_def stuck_state_def stuck_def FixedPointConstraint_def
        calculateGrad_def FixedPointConstraint_calculateGrad_def pos_def normalized_def
        squaredNorm_def Let_def)
  have a: "\<not> isApprox [Fin 1, Fin 0, Fin 0] (ZeroN 3)"
    using isApprox_ZeroN [of "[Fin 1, Fin 0, Fin 0]" 3] by simp
  have m: "m_inv_M stuck_pin = [Fin 0, Fin 0, Fin 0]"
    by (simp add: stuck_pin_def FixedPointConstraint_def stuck_def)
  have d: "denominator [Fin 1, Fin 0, Fin 0] (m_inv_M stuck_pin) = Fin 0"
    by (simp add: m denominator_def)
  have p: "projectParticles no_random [NaN, NaN, NaN] stuck_pin stuck_state = Inl AssertionFailed"
  proof -
    have f: "m_sub stuck_pin = FixedPoint (Vec3 (Fin 0) (Fin 0) (Fin 0))"
      "m_stiffness stuck_pin = Fin 1" "m_particles stuck_pin = [0]"
      by (simp_all add: stuck_pin_def FixedPointConstraint_def)
    show ?thesis
      using a
      by (simp add: projectParticles_def v g project_def f d projectPositions_def arity_def)
         (simp add: m delta_x_def hasNaN_def)
  qed
  from v g a d p show ?thesis by blast
qed

text \<open>
  What the guard does and does not cover. A gradient that is exactly the zero vector makes
  the kernel return the store it was given. On finite values with inverse masses that are
  not negative, the denominator is positive when some component has a gradient other than
  0 and a positive inverse mass; when the gradient is not zero and every component with a
  gradient other than 0 has inverse mass 0, the denominator is 0, the division is
  evaluated, and the run ends in the assertion on \<^verbatim>\<open>delta_x.hasNaN()\<close>.
\<close>

lemma zero_gradient_guard:
  "(length g = Num * 3 \<longrightarrow> (\<forall>x\<in>set g. x = Fin 0) \<longrightarrow>
      projectPositions Num C g inv_M k ps h = Inr h) \<and>
   (length gs = length ws \<longrightarrow> (\<forall>w\<in>set ws. 0 \<le> w) \<longrightarrow>
    (\<exists>i<length gs. gs ! i \<noteq> 0 \<and> 0 < ws ! i) \<longrightarrow>
      (\<exists>D. denominator (map Fin gs) (map Fin ws) = Fin D \<and> 0 < D)) \<and>
   (length gs = length ws \<longrightarrow> length gs = Num * 3 \<longrightarrow> (\<exists>i<length gs. gs ! i \<noteq> 0) \<longrightarrow>
    (\<forall>j<length gs. gs ! j = 0 \<or> ws ! j = 0) \<longrightarrow>
      denominator (map Fin gs) (map Fin ws) = Fin 0 \<and>
      projectPositions Num C (map Fin gs) (map Fin ws) k ps h = Inl AssertionFailed)"
proof (intro conjI impI)
  assume "length g = Num * 3" "\<forall>x\<in>set g. x = Fin 0"
  then show "projectPositions Num C g inv_M k ps h = Inr h"
    by (rule projectPositions_zero_gradient)
next
  assume "length gs = length ws" "\<forall>w\<in>set ws. 0 \<le> w"
    "\<exists>i<length gs. gs ! i \<noteq> 0 \<and> 0 < ws ! i"
  then show "\<exists>D. denominator (map Fin gs) (map Fin ws) = Fin D \<and> 0 < D"
    using denominator_pos [of gs ws] by blast
next
  assume a: "length gs = length ws" "length gs = Num * 3" "\<exists>i<length gs. gs ! i \<noteq> 0"
    "\<forall>j<length gs. gs ! j = 0 \<or> ws ! j = 0"
  then obtain i where i: "i < length gs" "gs ! i \<noteq> 0" by blast
  show "denominator (map Fin gs) (map Fin ws) = Fin 0"
    using a(1,2) i a(4) by (rule projectPositions_zero_denominator(1))
  show "projectPositions Num C (map Fin gs) (map Fin ws) k ps h = Inl AssertionFailed"
    using a(1,2) i a(4) by (rule projectPositions_zero_denominator(2))
qed

lemma zero_gradient_guard_example:
  "projectPositions 1 (Fin 1) [Fin 0, Fin 0, Fin 0] [Fin 1, Fin 1, Fin 1] (Fin 1) [0] stuck
     = Inr stuck \<and>
   (\<exists>D. denominator (map Fin [1, 0, 0]) (map Fin [2, 2, 2]) = Fin D \<and> 0 < D) \<and>
   denominator (map Fin [1, 0, 0]) (map Fin [0, 0, 0]) = Fin 0 \<and>
   projectPositions 1 (Fin 1) (map Fin [1, 0, 0]) (map Fin [0, 0, 0]) (Fin 1) [0] stuck
     = Inl AssertionFailed"
proof -
  note inst = zero_gradient_guard
    [of "[Fin 0, Fin 0, Fin 0]" 1 "Fin 1" "[Fin 1, Fin 1, Fin 1]" "Fin 1" "[0]" stuck]
  have h1: "length [Fin 0, Fin 0, Fin 0] = 1 * 3" "\<forall>x\<in>set [Fin 0, Fin 0, Fin 0]. x = Fin 0"
    by simp_all
  have h2: "length [1, 0, 0 :: real] = length [2, 2, 2 :: real]"
    "\<forall>w\<in>set [2, 2, 2 :: real]. 0 \<le> w"
    "\<exists>i<length [1, 0, 0 :: real]. [1, 0, 0 :: real] ! i \<noteq> 0 \<and> 0 < [2, 2, 2 :: real] ! i"
    by (simp_all add: exI [of _ 0])
  have h3: "length [1, 0, 0 :: real] = length [0, 0, 0 :: real]" "length [1, 0, 0 :: real] = 1 * 3"
    "\<exists>i<length [1, 0, 0 :: real]. [1, 0, 0 :: real] ! i \<noteq> 0"
    "\<forall>j<length [1, 0, 0 :: real]. [1, 0, 0 :: real] ! j = 0 \<or> [0, 0, 0 :: real] ! j = 0"
    by (simp_all add: exI [of _ 0] nth_Cons')
  from inst [of "[1, 0, 0]" "[2, 2, 2]"] inst [of "[1, 0, 0]" "[0, 0, 0]"] h1 h2 h3
  show ?thesis by blast
qed

section \<open>Projection at zero violation\<close>

lemma zero_div_mult: "(- (Fin 0 / D)) * w * g = Fin 0 \<or> (- (Fin 0 / D)) * w * g = NaN"
  by (cases D; cases w; cases g) auto

lemma projectPositions_zero_value:
  assumes r: "projectPositions Num (Fin 0) g inv_M (Fin k) ps h = Inr h'"
    and len: "length g = 3 * Num" "length inv_M = 3 * Num"
  shows "h' = h"
proof (cases "isApprox g (ZeroN (Num * 3))")
  case True
  with r show ?thesis by (simp add: projectPositions_def)
next
  case False
  define dx where "dx = delta_x (Fin 0 / denominator g inv_M) inv_M g"
  from r False have nn: "\<not> hasNaN dx" and h': "h' = update_positions Num (Fin k) dx ps h"
    by (auto simp: projectPositions_def Let_def dx_def split: if_splits)
  have ldx: "length dx = 3 * Num" by (simp add: dx_def len)
  have z: "dx ! i = Fin 0" if i: "i < 3 * Num" for i
  proof -
    have "dx ! i = (- (Fin 0 / denominator g inv_M)) * inv_M ! i * g ! i"
      unfolding dx_def using i len by (simp add: delta_x_nth)
    moreover have "dx ! i \<noteq> NaN" using nn i ldx by (simp add: hasNaN_nth)
    ultimately show ?thesis using zero_div_mult by metis
  qed
  have "scale (Fin k) (segment3 dx (3 * j)) = Vec3 (Fin 0) (Fin 0) (Fin 0)" if j: "j < Num" for j
    using z [of "3 * j"] z [of "3 * j + 1"] z [of "3 * j + 2"] j by (simp add: segment3_def)
  then have "update_positions Num (Fin k) dx ps h a = h a" for a
    by (intro update_positions_unmoved) blast
  then show ?thesis unfolding h' by (rule ext)
qed

lemma delta_x_zero_finite:
  assumes "\<forall>x\<in>set inv_M. is_Fin x" "\<forall>x\<in>set g. is_Fin x"
  shows "\<not> hasNaN (delta_x (Fin 0) inv_M g)"
proof -
  have "x \<noteq> NaN" if "x \<in> set (delta_x (Fin 0) inv_M g)" for x
  proof -
    from that obtain w y where wy: "(w, y) \<in> set (zip inv_M g)" and x: "x = (- Fin 0) * w * y"
      unfolding delta_x_def by auto
    from wy have "w \<in> set inv_M" "y \<in> set g"
      by (auto dest: set_zip_leftD set_zip_rightD)
    with assms have "is_Fin w" "is_Fin y" by blast+
    then obtain a b where "w = Fin a" "y = Fin b" unfolding is_Fin_iff by blast
    then show ?thesis unfolding x by simp
  qed
  then show ?thesis unfolding hasNaN_def list_ex_iff
    by (metis isnan.elims(2))
qed

lemma projectPositions_zero_value_returns:
  assumes fin: "\<forall>x\<in>set inv_M. is_Fin x" "\<forall>x\<in>set g. is_Fin x"
    and den: "isApprox g (ZeroN (Num * 3)) \<or> (\<exists>D. denominator g inv_M = Fin D \<and> D \<noteq> 0)"
  shows "\<exists>h'. projectPositions Num (Fin 0) g inv_M k ps h = Inr h'"
proof (cases "isApprox g (ZeroN (Num * 3))")
  case True
  then show ?thesis by (simp add: projectPositions_def)
next
  case False
  with den obtain D where D: "denominator g inv_M = Fin D" "D \<noteq> 0" by blast
  have "\<not> hasNaN (delta_x (Fin 0) inv_M g)" using fin by (rule delta_x_zero_finite)
  then show ?thesis using False D by (simp add: projectPositions_def)
qed

lemma projectParticles_returns:
  assumes v: "calculateValue c (heap st) = Inr C"
    and k: "projectPositions (arity (m_sub c)) C (fst (calculateGrad rnd c st buf)) (m_inv_M c)
              (m_stiffness c) (m_particles c) (heap st) = Inr h'"
  shows "\<exists>st'. projectParticles rnd buf c st = Inr st'"
proof -
  obtain g st1 where g: "calculateGrad rnd c st buf = (g, st1)"
    by (cases "calculateGrad rnd c st buf")
  have hs: "heap st1 = heap st" using calculateGrad_heap [of rnd c st buf] g by simp
  have "project C g c st1 = Inr (st1\<lparr>heap := h'\<rparr>)"
    using k g hs by (simp add: project_def)
  then show ?thesis
    using v g by (auto simp: projectParticles_def split: subtype.splits)
qed

lemma link_Inr: "0 \<le> d \<Longrightarrow> DistanceConstraint h 0 1 (Fin 1) (Fin d) = Inr (link h d)"
  by (simp add: link_def DistanceConstraint_def)

lemma link_fields:
  "0 \<le> d \<Longrightarrow> m_particles (link h d) = [0, 1]"
  "0 \<le> d \<Longrightarrow> m_stiffness (link h d) = Fin 1"
  "0 \<le> d \<Longrightarrow> m_sub (link h d) = Distance (Fin d)"
  "0 \<le> d \<Longrightarrow> m_inv_M (link h d) =
     [part_w (h 0), part_w (h 0), part_w (h 0), part_w (h 1), part_w (h 1), part_w (h 1)]"
  by (simp_all add: link_def DistanceConstraint_def)

text \<open>
  C6. The claim says that at zero violation \<^verbatim>\<open>projectParticles\<close> leaves the positions
  unchanged. Two pinned particles exactly at the rest distance of their DistanceConstraint
  have the violation 0 and the gradient \<open>(-1, 0, 0, 1, 0, 0)\<close>; the denominator is 0,
  \<open>s\<close> is \<open>0 / 0\<close>, the displacement is NaN, and \<^verbatim>\<open>projectParticles\<close> ends in the
  assertion instead of returning the state unchanged.
\<close>

theorem pinned_link_at_rest_fails_assertion:
  "DistanceConstraint pinned_both 0 1 (Fin 1) (Fin 1) = Inr (link pinned_both 1) \<and>
   calculateValue (link pinned_both 1) pinned_both = Inr (Fin 0) \<and>
   projectParticles no_random (replicate 6 NaN) (link pinned_both 1)
     \<lparr>heap = pinned_both, rand_calls = 0\<rparr> = Inl AssertionFailed"
proof -
  let ?st = "\<lparr>heap = pinned_both, rand_calls = 0\<rparr>"
  have mp: "m_particles (link pinned_both 1) = [0, 1]" by (simp add: link_fields)
  have x: "part_p (heap ?st 0) = Vec3 (Fin 0) (Fin 0) (Fin 0)"
    "part_p (heap ?st 1) = Vec3 (Fin 1) (Fin 0) (Fin 0)"
    by (simp_all add: pinned_both_def)
  have v: "calculateValue (link pinned_both 1) pinned_both = Inr (Fin 0)"
    using DistanceConstraint_grad_finite(2) [OF mp x]
    by (simp add: calculateValue_def link_fields)
  have g: "calculateGrad no_random (link pinned_both 1) ?st (replicate 6 NaN)
           = ([Fin (- 1), Fin 0, Fin 0, Fin 1, Fin 0, Fin 0], ?st)"
    using DistanceConstraint_grad_finite(1) [OF mp x, of no_random]
    by (simp add: calculateGrad_def link_fields)
  have a: "\<not> isApprox [Fin (- 1), Fin 0, Fin 0, Fin 1, Fin 0, Fin 0] (ZeroN (2 * 3))"
    using isApprox_ZeroN [of "[Fin (- 1), Fin 0, Fin 0, Fin 1, Fin 0, Fin 0]" "2 * 3"] by simp
  have iw: "m_inv_M (link pinned_both 1) = [Fin 0, Fin 0, Fin 0, Fin 0, Fin 0, Fin 0]"
    by (simp add: link_fields pinned_both_def)
  have f: "m_sub (link pinned_both 1) = Distance (Fin 1)"
    "m_stiffness (link pinned_both 1) = Fin 1"
    by (simp_all add: link_fields)
  have "projectParticles no_random (replicate 6 NaN) (link pinned_both 1) ?st
         = Inl AssertionFailed"
    using a v
    by (simp add: projectParticles_def g project_def f mp iw arity_def projectPositions_def
        denominator_def delta_x_def hasNaN_def)
  moreover have "DistanceConstraint pinned_both 0 1 (Fin 1) (Fin 1) = Inr (link pinned_both 1)"
    by (rule link_Inr) simp
  ultimately show ?thesis using v by blast
qed

text \<open>
  Where the denominator is not 0 the projection is idempotent at zero violation. For a
  constraint of any subtype with a finite stiffness, in a state whose violation is 0: every
  state that \<^verbatim>\<open>projectParticles\<close> returns has the store it was given, and it does return
  when the gradient and the cached inverse masses are finite and either the gradient is
  exactly zero or the kernel's denominator is not 0.
\<close>

lemma zero_violation_idempotent:
  "length (m_inv_M c) = 3 * arity (m_sub c) \<longrightarrow> length buf = 3 * arity (m_sub c) \<longrightarrow>
   m_stiffness c = Fin k \<longrightarrow> calculateValue c (heap st) = Inr (Fin 0) \<longrightarrow>
     (\<forall>st'. projectParticles rnd buf c st = Inr st' \<longrightarrow> heap st' = heap st) \<and>
     ((\<forall>x\<in>set (m_inv_M c). is_Fin x) \<longrightarrow>
      (\<forall>x\<in>set (fst (calculateGrad rnd c st buf)). is_Fin x) \<longrightarrow>
      (isApprox (fst (calculateGrad rnd c st buf)) (ZeroN (arity (m_sub c) * 3)) \<or>
       (\<exists>D. denominator (fst (calculateGrad rnd c st buf)) (m_inv_M c) = Fin D \<and> D \<noteq> 0)) \<longrightarrow>
      (\<exists>st'. projectParticles rnd buf c st = Inr st'))"
proof (intro impI conjI allI)
  fix st'
  assume len: "length (m_inv_M c) = 3 * arity (m_sub c)" "length buf = 3 * arity (m_sub c)"
    and k: "m_stiffness c = Fin k" and v: "calculateValue c (heap st) = Inr (Fin 0)"
    and r: "projectParticles rnd buf c st = Inr st'"
  have lg: "length (fst (calculateGrad rnd c st buf)) = 3 * arity (m_sub c)"
    using len(2) by (rule length_calculateGrad)
  from projectParticles_Inr [OF r] v have
    "st' = st \<or>
     projectPositions (arity (m_sub c)) (Fin 0) (fst (calculateGrad rnd c st buf)) (m_inv_M c)
       (Fin k) (m_particles c) (heap st) = Inr (heap st')"
    by (auto simp: k)
  then show "heap st' = heap st"
  proof
    assume "st' = st"
    then show ?thesis by simp
  next
    assume "projectPositions (arity (m_sub c)) (Fin 0) (fst (calculateGrad rnd c st buf))
       (m_inv_M c) (Fin k) (m_particles c) (heap st) = Inr (heap st')"
    then show ?thesis using lg len(1) by (rule projectPositions_zero_value)
  qed
next
  assume v: "calculateValue c (heap st) = Inr (Fin 0)"
    and fin: "\<forall>x\<in>set (m_inv_M c). is_Fin x"
      "\<forall>x\<in>set (fst (calculateGrad rnd c st buf)). is_Fin x"
    and den: "isApprox (fst (calculateGrad rnd c st buf)) (ZeroN (arity (m_sub c) * 3)) \<or>
       (\<exists>D. denominator (fst (calculateGrad rnd c st buf)) (m_inv_M c) = Fin D \<and> D \<noteq> 0)"
  from projectPositions_zero_value_returns [OF fin den]
  obtain h' where
    "projectPositions (arity (m_sub c)) (Fin 0) (fst (calculateGrad rnd c st buf)) (m_inv_M c)
       (m_stiffness c) (m_particles c) (heap st) = Inr h'"
    by blast
  with v show "\<exists>st'. projectParticles rnd buf c st = Inr st'"
    by (rule projectParticles_returns)
qed

lemma zero_violation_idempotent_example:
  "calculateValue (link pinned_pair 2) pinned_pair = Inr (Fin 0) \<and>
   (\<exists>st'. projectParticles no_random (replicate 6 NaN) (link pinned_pair 2)
            \<lparr>heap = pinned_pair, rand_calls = 0\<rparr> = Inr st' \<and>
          heap st' = pinned_pair)"
proof -
  let ?st = "\<lparr>heap = pinned_pair, rand_calls = 0\<rparr>"
  let ?c = "link pinned_pair 2"
  let ?g = "[Fin (- 1), Fin 0, Fin 0, Fin 1, Fin 0, Fin 0]"
  have mp: "m_particles ?c = [0, 1]" by (simp add: link_fields)
  have x: "part_p (heap ?st 0) = Vec3 (Fin 0) (Fin 0) (Fin 0)"
    "part_p (heap ?st 1) = Vec3 (Fin 2) (Fin 0) (Fin 0)"
    by (simp_all add: pinned_pair_def)
  have v: "calculateValue ?c (heap ?st) = Inr (Fin 0)"
    using DistanceConstraint_grad_finite(2) [OF mp x]
    by (simp add: calculateValue_def link_fields)
  have g: "fst (calculateGrad no_random ?c ?st (replicate 6 NaN)) = ?g"
    using DistanceConstraint_grad_finite(1) [OF mp x, of no_random]
    by (simp add: calculateGrad_def link_fields)
  have iw: "m_inv_M ?c = [Fin 1, Fin 1, Fin 1, Fin 0, Fin 0, Fin 0]"
    by (simp add: link_fields pinned_pair_def)
  have len: "length (m_inv_M ?c) = 3 * arity (m_sub ?c)"
    "length (replicate 6 NaN :: dbl list) = 3 * arity (m_sub ?c)"
    by (simp_all add: iw link_fields arity_def)
  have k: "m_stiffness ?c = Fin 1" by (simp add: link_fields)
  have fin: "\<forall>x\<in>set (m_inv_M ?c). is_Fin x"
    "\<forall>x\<in>set (fst (calculateGrad no_random ?c ?st (replicate 6 NaN))). is_Fin x"
    by (simp_all add: iw g)
  have "denominator ?g (m_inv_M ?c) = Fin 1 \<and> (1::real) \<noteq> 0"
    by (simp add: iw denominator_def)
  then have den: "isApprox (fst (calculateGrad no_random ?c ?st (replicate 6 NaN)))
         (ZeroN (arity (m_sub ?c) * 3)) \<or>
       (\<exists>D. denominator (fst (calculateGrad no_random ?c ?st (replicate 6 NaN))) (m_inv_M ?c)
              = Fin D \<and> D \<noteq> 0)"
    unfolding g by blast
  from zero_violation_idempotent [of ?c "replicate 6 NaN" 1 ?st no_random] len k v fin den
  show ?thesis by (metis state.select_convs(1))
qed

section \<open>FixedPointConstraint: the degenerate branch\<close>

lemma hasNaN3_data: "hasNaN3 n \<longleftrightarrow> hasNaN (data n)"
  by (cases n) (simp add: hasNaN_def)

text \<open>
  The copy of \<open>n\<close> follows the fill with zeros on every path, so the gradient is always
  \<open>n\<close>. On a finite position that coincides with the point the difference is the zero
  vector, \<open>normalized\<close> returns it as it is, and the branch for NaN is not taken at all:
  there the gradient is zero and the projection returns the state unchanged.
\<close>

lemma FixedPointConstraint_calculateGrad_overwritten:
  assumes "length buf = 3"
  shows "FixedPointConstraint_calculateGrad c h buf
           = data (normalized (vsub (pos c h 0) (m_point (m_sub c))))"
  using assms by (simp add: FixedPointConstraint_calculateGrad_def Let_def)

lemma FixedPointConstraint_degenerate_branch:
  assumes "length buf = 3" "hasNaN3 (normalized (vsub (pos c h 0) (m_point (m_sub c))))"
  shows "hasNaN (FixedPointConstraint_calculateGrad c h buf)"
  using assms by (simp add: FixedPointConstraint_calculateGrad_overwritten hasNaN3_data)

lemma vsub_self_finite: "finite3 v \<Longrightarrow> vsub v v = Vec3 (Fin 0) (Fin 0) (Fin 0)"
  by (auto simp: finite3_iff)

lemma FixedPointConstraint_coincident_finite:
  assumes "finite3 point" "part_p (heap st a) = point" "length buf = 3"
  shows "calculateGrad rnd (FixedPointConstraint h0 a k point) st buf
           = ([Fin 0, Fin 0, Fin 0], st)"
    and "projectParticles rnd buf (FixedPointConstraint h0 a k point) st = Inr st"
proof -
  let ?c = "FixedPointConstraint h0 a k point"
  have n: "normalized (vsub (pos ?c (heap st) 0) (m_point (m_sub ?c)))
           = Vec3 (Fin 0) (Fin 0) (Fin 0)"
    using assms(1,2)
    by (simp add: pos_def FixedPointConstraint_def vsub_self_finite normalized_Fin)
  show g: "calculateGrad rnd ?c st buf = ([Fin 0, Fin 0, Fin 0], st)"
    using FixedPointConstraint_calculateGrad_overwritten [OF assms(3), of ?c "heap st"]
    by (simp add: calculateGrad_def n) (simp add: FixedPointConstraint_def)
  have f: "m_sub ?c = FixedPoint point" by (simp add: FixedPointConstraint_def)
  have a: "isApprox [Fin 0, Fin 0, Fin 0] (ZeroN (1 * 3))"
    using isApprox_ZeroN [of "[Fin 0, Fin 0, Fin 0]" "1 * 3"] by simp
  have "\<exists>C. calculateValue ?c (heap st) = Inr C"
    by (simp add: calculateValue_def f)
  then obtain C where C: "calculateValue ?c (heap st) = Inr C" ..
  show "projectParticles rnd buf ?c st = Inr st"
    using a by (simp add: projectParticles_def C g f project_def projectPositions_def arity_def)
qed

text \<open>
  C2. Where the branch for NaN is taken, the zeros do not survive. The particle at
  \<open>(+inf, +inf, +inf)\<close> coincides with its point \<open>(+inf, +inf, +inf)\<close>; the difference
  is \<open>(NaN, NaN, NaN)\<close>, the gradient that \<^verbatim>\<open>calculateGrad\<close> leaves in the buffer is
  \<open>(NaN, NaN, NaN)\<close> and not the zero vector, the kernel's guard is not hit, and
  \<^verbatim>\<open>projectParticles\<close> ends in the assertion.
\<close>

theorem FixedPointConstraint_calculateGrad_copies_NaN:
  "part_p (far_away 0) = m_point (m_sub far_pin) \<and>
   calculateGrad no_random far_pin \<lparr>heap = far_away, rand_calls = 0\<rparr> [Fin 0, Fin 0, Fin 0]
     = ([NaN, NaN, NaN], \<lparr>heap = far_away, rand_calls = 0\<rparr>) \<and>
   projectParticles no_random [Fin 0, Fin 0, Fin 0] far_pin \<lparr>heap = far_away, rand_calls = 0\<rparr>
     = Inl AssertionFailed"
proof -
  let ?st = "\<lparr>heap = far_away, rand_calls = 0\<rparr>"
  have f: "m_sub far_pin = FixedPoint (Vec3 PInf PInf PInf)"
    "m_stiffness far_pin = Fin 1" "m_particles far_pin = [0]"
    "m_inv_M far_pin = [Fin 1, Fin 1, Fin 1]"
    by (simp_all add: far_pin_def FixedPointConstraint_def far_away_def)
  have p: "part_p (far_away 0) = m_point (m_sub far_pin)"
    by (simp add: f far_away_def)
  have n: "normalized (vsub (pos far_pin far_away 0) (m_point (m_sub far_pin)))
           = Vec3 NaN NaN NaN"
    by (simp add: pos_def f far_away_def normalized_def squaredNorm_def minus_dbl_def)
  have "FixedPointConstraint_calculateGrad far_pin far_away [Fin 0, Fin 0, Fin 0]
        = [NaN, NaN, NaN]"
    by (simp add: FixedPointConstraint_calculateGrad_overwritten n)
  then have g: "calculateGrad no_random far_pin ?st [Fin 0, Fin 0, Fin 0]
                = ([NaN, NaN, NaN], ?st)"
    by (simp add: calculateGrad_def f)
  have v: "calculateValue far_pin far_away = Inr NaN"
    by (simp add: calculateValue_def f FixedPointConstraint_calculateValue_def pos_def
        far_away_def norm3_def squaredNorm_def minus_dbl_def)
  have a: "\<not> isApprox [NaN, NaN, NaN] (ZeroN (1 * 3))"
    using isApprox_ZeroN [of "[NaN, NaN, NaN]" "1 * 3"] by simp
  have r: "projectParticles no_random [Fin 0, Fin 0, Fin 0] far_pin ?st = Inl AssertionFailed"
    using a
    by (simp add: projectParticles_def v g f project_def projectPositions_def arity_def
        delta_x_def hasNaN_def)
  from p g r show ?thesis by blast
qed

section \<open>Effects of calculateValue and calculateGrad\<close>

lemma DistanceConstraint_calculateGrad_cases:
  "DistanceConstraint_calculateGrad rnd c st =
     (if hasNaN3 (normalized (vsub (pos c (heap st) 0) (pos c (heap st) 1)))
      then (let n = normalized (fst (Random3 rnd (rand_calls st)))
            in ([coeff n 0, coeff n 1, coeff n 2, - coeff n 0, - coeff n 1, - coeff n 2],
                st\<lparr>rand_calls := rand_calls st + 3\<rparr>))
      else (let n = normalized (vsub (pos c (heap st) 0) (pos c (heap st) 1))
            in ([coeff n 0, coeff n 1, coeff n 2, - coeff n 0, - coeff n 1, - coeff n 2], st)))"
  by (simp add: DistanceConstraint_calculateGrad_def Random3_def Let_def)

text \<open>
  C9, as amended. \<^verbatim>\<open>calculateGrad\<close> never changes the store of particles, and
  \<^verbatim>\<open>calculateValue\<close> depends on the constraint and the store only. Outside the
  degenerate case of the DistanceConstraint, \<^verbatim>\<open>calculateGrad\<close> returns the state it was
  given and a gradient that depends neither on the generator nor on the number of draws
  made so far. In the degenerate case of the DistanceConstraint (the normalized difference
  has a NaN) it advances the generator by three draws and returns the normalized random
  direction and its negation.
\<close>

theorem calculateGrad_effects:
  "heap (snd (calculateGrad rnd c st buf)) = heap st \<and>
   calculateValue c (heap (st\<lparr>rand_calls := k\<rparr>)) = calculateValue c (heap st) \<and>
   (\<not> draws_random c st \<longrightarrow>
      snd (calculateGrad rnd c st buf) = st \<and>
      fst (calculateGrad rnd' c (st\<lparr>rand_calls := k\<rparr>) buf) = fst (calculateGrad rnd c st buf)) \<and>
   (draws_random c st \<longrightarrow>
      snd (calculateGrad rnd c st buf) = st\<lparr>rand_calls := rand_calls st + 3\<rparr> \<and>
      fst (calculateGrad rnd c st buf) =
        (let n = normalized (Vec3 (rnd (rand_calls st)) (rnd (rand_calls st + 1))
                               (rnd (rand_calls st + 2)))
         in [coeff n 0, coeff n 1, coeff n 2, - coeff n 0, - coeff n 1, - coeff n 2]))"
proof (intro conjI impI)
  show "heap (snd (calculateGrad rnd c st buf)) = heap st" by (rule calculateGrad_heap)
  show "calculateValue c (heap (st\<lparr>rand_calls := k\<rparr>)) = calculateValue c (heap st)" by simp
next
  assume "\<not> draws_random c st"
  then show "snd (calculateGrad rnd c st buf) = st"
    by (auto simp: draws_random_def calculateGrad_def DistanceConstraint_calculateGrad_cases
        Let_def split: subtype.splits)
next
  assume "\<not> draws_random c st"
  then show "fst (calculateGrad rnd' c (st\<lparr>rand_calls := k\<rparr>) buf)
             = fst (calculateGrad rnd c st buf)"
    by (auto simp: draws_random_def calculateGrad_def DistanceConstraint_calculateGrad_cases
        Let_def split: subtype.splits)
next
  assume "draws_random c st"
  then show "snd (calculateGrad rnd c st buf) = st\<lparr>rand_calls := rand_calls st + 3\<rparr>"
    by (auto simp: draws_random_def calculateGrad_def DistanceConstraint_calculateGrad_cases
        Let_def split: subtype.splits)
next
  assume "draws_random c st"
  then show "fst (calculateGrad rnd c st buf) =
        (let n = normalized (Vec3 (rnd (rand_calls st)) (rnd (rand_calls st + 1))
                               (rnd (rand_calls st + 2)))
         in [coeff n 0, coeff n 1, coeff n 2, - coeff n 0, - coeff n 1, - coeff n 2])"
    by (auto simp: draws_random_def calculateGrad_def DistanceConstraint_calculateGrad_cases
        Random3_def Let_def split: subtype.splits)
qed

lemma far_link_draws: "draws_random (link far_away 1) \<lparr>heap = far_away, rand_calls = k\<rparr>"
  by (simp add: draws_random_def link_fields pos_def far_away_def normalized_def squaredNorm_def
      minus_dbl_def)

text \<open>
  C9, as stated, fails: for two particles at \<open>(+inf, +inf, +inf)\<close> the difference is
  \<open>(NaN, NaN, NaN)\<close>; the first call of \<^verbatim>\<open>calculateGrad\<close> leaves the generator three draws
  further, and a second call from the same particles and constraint returns another
  gradient.
\<close>

theorem calculateGrad_random_counterexample:
  "calculateGrad one_then_zero (link far_away 1) \<lparr>heap = far_away, rand_calls = 0\<rparr>
       (replicate 6 NaN)
     = ([Fin 1, Fin 0, Fin 0, Fin (- 1), Fin 0, Fin 0], \<lparr>heap = far_away, rand_calls = 3\<rparr>) \<and>
   calculateGrad one_then_zero (link far_away 1) \<lparr>heap = far_away, rand_calls = 3\<rparr>
       (replicate 6 NaN)
     = ([Fin 0, Fin 0, Fin 0, Fin 0, Fin 0, Fin 0], \<lparr>heap = far_away, rand_calls = 6\<rparr>)"
proof -
  have n: "hasNaN3 (normalized (vsub (pos (link far_away 1) far_away 0)
                                      (pos (link far_away 1) far_away 1)))"
    using far_link_draws [of 0] by (simp add: draws_random_def link_fields)
  have r0: "normalized (fst (Random3 one_then_zero 0)) = Vec3 (Fin 1) (Fin 0) (Fin 0)"
    by (simp add: Random3_def one_then_zero_def normalized_def squaredNorm_def)
  have r3: "normalized (fst (Random3 one_then_zero 3)) = Vec3 (Fin 0) (Fin 0) (Fin 0)"
    by (simp add: Random3_def one_then_zero_def normalized_def squaredNorm_def Let_def)
  show ?thesis
    using n r0 r3
    by (simp add: calculateGrad_def link_fields DistanceConstraint_calculateGrad_cases)
qed


theorem calculateGrad_effects_witness:
  "(snd (calculateGrad no_random stuck_pin stuck_state [NaN, NaN, NaN]) = stuck_state \<and>
    fst (calculateGrad one_then_zero stuck_pin (stuck_state\<lparr>rand_calls := 7\<rparr>) [NaN, NaN, NaN])
      = fst (calculateGrad no_random stuck_pin stuck_state [NaN, NaN, NaN])) \<and>
   snd (calculateGrad one_then_zero (link far_away 1) \<lparr>heap = far_away, rand_calls = 0\<rparr>
          (replicate 6 NaN))
     = \<lparr>heap = far_away, rand_calls = 3\<rparr>"
proof -
  have a: "\<not> draws_random stuck_pin stuck_state"
    by (simp add: draws_random_def stuck_pin_def FixedPointConstraint_def)
  have b: "draws_random (link far_away 1) \<lparr>heap = far_away, rand_calls = 0\<rparr>"
    by (rule far_link_draws)
  from calculateGrad_effects
         [of no_random stuck_pin stuck_state "[NaN, NaN, NaN]" 7 one_then_zero] a
       calculateGrad_effects
         [of one_then_zero "link far_away 1" "\<lparr>heap = far_away, rand_calls = 0\<rparr>"
             "replicate 6 NaN"] b
  show ?thesis by simp
qed

text \<open>
  Two finite coincident positions are not that degenerate case: their difference is the
  zero vector, which \<open>normalized\<close> returns as it is, so no random direction is drawn and
  the gradient is zero.
\<close>

lemma DistanceConstraint_coincident_finite:
  assumes "m_particles c = [p0, p1]" "m_sub c = Distance d" "finite3 x"
    and "part_p (heap st p0) = x" "part_p (heap st p1) = x"
  shows "calculateGrad rnd c st buf = (replicate 6 (Fin 0), st)"
proof -
  from assms(3) obtain a b e where x: "x = Vec3 (Fin a) (Fin b) (Fin e)"
    by (auto simp: finite3_iff)
  have x0: "part_p (heap st p0) = Vec3 (Fin a) (Fin b) (Fin e)"
    and x1: "part_p (heap st p1) = Vec3 (Fin a) (Fin b) (Fin e)"
    using assms(4,5) x by simp_all
  show ?thesis
    using DistanceConstraint_grad_finite(1) [OF assms(1) x0 x1, of rnd]
    by (simp add: calculateGrad_def assms(2) numeral_eq_Suc)
qed

section \<open>IsometricBendingConstraint: the quadratic form\<close>

lemma upt_4: "[0..<4] = [0, 1, 2, 3]"
  by (simp add: upt_rec)

lemma sum_4: "(\<Sum>i<(4::nat). f i) = f 0 + f 1 + f 2 + (f 3 :: real)"
  by (simp add: numeral_eq_Suc)

lemma sum_3: "(\<Sum>i<(3::nat). f i) = f 0 + f 1 + (f 2 :: real)"
  by (simp add: numeral_eq_Suc)

lemma IsometricBending_value_finite:
  assumes Q: "\<forall>i<4. \<forall>j<4. Q_at c i j = Fin (q i j)"
    and X: "\<forall>i<4. pos c h i = Vec3 (Fin (X i 0)) (Fin (X i 1)) (Fin (X i 2))"
  shows "IsometricBendingConstraint_calculateValue c h = Fin (half_xQx q X)"
proof -
  have d: "dot (pos c h i) (pos c h j) = Fin (X i 0 * X j 0 + X i 1 * X j 1 + X i 2 * X j 2)"
    if "i < 4" "j < 4" for i j
    using X that by simp
  have t: "Q_at c i j * dot (pos c h i) (pos c h j)
           = Fin (q i j * (X i 0 * X j 0 + X i 1 * X j 1 + X i 2 * X j 2))"
    if "i < 4" "j < 4" for i j
    using Q d [OF that] that by simp
  show ?thesis
    unfolding IsometricBendingConstraint_calculateValue_def half_xQx_def Let_def upt_4
    by (simp add: t sum_4 sum_3)
qed

lemma all_less_4: "(\<forall>i<(4::nat). P i) \<longleftrightarrow> P 0 \<and> P 1 \<and> P 2 \<and> P 3"
  by (simp add: numeral_eq_Suc less_Suc_eq) blast

lemma planar_quad_constraint:
  "IsometricBendingConstraint planar_quad 0 1 2 3 (Fin 1) =
     \<lparr>m_particles = [0, 1, 2, 3], m_stiffness = Fin 1,
      m_inv_M = replicate 12 (Fin 1),
      m_sub = IsometricBending
        [[Fin 6, Fin 6, Fin (- 6), Fin (- 6)], [Fin 6, Fin 6, Fin (- 6), Fin (- 6)],
         [Fin (- 6), Fin (- 6), Fin 6, Fin 6], [Fin (- 6), Fin (- 6), Fin 6, Fin 6]]\<rparr>"
  by (simp add: IsometricBendingConstraint_def planar_quad_def calculateCotTheta_def norm3_def
      squaredNorm_def constructInverseMassMatrix_def upt_4 Let_def numeral_eq_Suc)

lemma IsometricBending_grad_finite:
  assumes Q: "\<forall>i<4. \<forall>j<4. Q_at c i j = Fin (q i j)"
    and X: "\<forall>i<4. pos c h i = Vec3 (Fin (X i 0)) (Fin (X i 1)) (Fin (X i 2))"
  shows "IsometricBendingConstraint_calculateGrad c h =
           concat (map (\<lambda>i. [Fin (Qx q X i 0), Fin (Qx q X i 1), Fin (Qx q X i 2)]) [0..<4])"
proof -
  have t: "scale (Q_at c i j) (pos c h j)
           = Vec3 (Fin (q i j * X j 0)) (Fin (q i j * X j 1)) (Fin (q i j * X j 2))"
    if "i < 4" "j < 4" for i j
    using Q X that by simp
  show ?thesis
    unfolding IsometricBendingConstraint_calculateGrad_def Let_def upt_4
    by (simp add: t Qx_def sum_4 Zero3_def)
qed

text \<open>
  C8. For an IsometricBendingConstraint with a finite matrix \<open>Q\<close> and finite positions,
  \<^verbatim>\<open>calculateValue\<close> returns \<open>\<onehalf> x\<^sup>T Q x\<close> over the four stacked positions, and
  \<^verbatim>\<open>calculateGrad\<close> returns \<open>Q x\<close> block by block: block \<open>i\<close> is the sum over \<open>j\<close> of
  \<open>Q(i, j)\<close> times the position of particle \<open>j\<close>. It leaves the state as it is.
\<close>

theorem IsometricBending_quadratic_form:
  "m_sub c = IsometricBending Q \<longrightarrow>
   (\<forall>i<4. \<forall>j<4. Q ! i ! j = Fin (q i j)) \<longrightarrow>
   (\<forall>i<4. part_p (heap st (m_particles c ! i)) = Vec3 (Fin (X i 0)) (Fin (X i 1)) (Fin (X i 2))) \<longrightarrow>
     calculateValue c (heap st) = Inr (Fin (half_xQx q X)) \<and>
     calculateGrad rnd c st buf =
       (concat (map (\<lambda>i. [Fin (Qx q X i 0), Fin (Qx q X i 1), Fin (Qx q X i 2)]) [0..<4]), st)"
proof (intro impI)
  assume s: "m_sub c = IsometricBending Q"
    and Q: "\<forall>i<4. \<forall>j<4. Q ! i ! j = Fin (q i j)"
    and X: "\<forall>i<4. part_p (heap st (m_particles c ! i))
                    = Vec3 (Fin (X i 0)) (Fin (X i 1)) (Fin (X i 2))"
  have Q': "\<forall>i<4. \<forall>j<4. Q_at c i j = Fin (q i j)"
    using Q by (simp add: Q_at_def s)
  have X': "\<forall>i<4. pos c (heap st) i = Vec3 (Fin (X i 0)) (Fin (X i 1)) (Fin (X i 2))"
    using X by (simp add: pos_def)
  show "calculateValue c (heap st) = Inr (Fin (half_xQx q X)) \<and>
     calculateGrad rnd c st buf =
       (concat (map (\<lambda>i. [Fin (Qx q X i 0), Fin (Qx q X i 1), Fin (Qx q X i 2)]) [0..<4]), st)"
    using IsometricBending_value_finite [OF Q' X'] IsometricBending_grad_finite [OF Q' X']
    by (simp add: calculateValue_def calculateGrad_def s)
qed

theorem IsometricBending_quadratic_form_witness:
  "calculateValue (IsometricBendingConstraint planar_quad 0 1 2 3 (Fin 1)) planar_quad
     = Inr (Fin 3) \<and>
   calculateGrad no_random (IsometricBendingConstraint planar_quad 0 1 2 3 (Fin 1))
       \<lparr>heap = planar_quad, rand_calls = 0\<rparr> (replicate 12 NaN)
     = ([Fin 0, Fin 0, Fin (- 6), Fin 0, Fin 0, Fin (- 6), Fin 0, Fin 0, Fin 6, Fin 0, Fin 0, Fin 6],
        \<lparr>heap = planar_quad, rand_calls = 0\<rparr>)"
proof -
  let ?c = "IsometricBendingConstraint planar_quad 0 1 2 3 (Fin 1)"
  let ?Q = "[[Fin 6, Fin 6, Fin (- 6), Fin (- 6)], [Fin 6, Fin 6, Fin (- 6), Fin (- 6)],
         [Fin (- 6), Fin (- 6), Fin 6, Fin 6], [Fin (- 6), Fin (- 6), Fin 6, Fin 6]]"
  let ?st = "\<lparr>heap = planar_quad, rand_calls = 0\<rparr>"
  have s: "m_sub ?c = IsometricBending ?Q" unfolding planar_quad_constraint by simp
  have Q: "\<forall>i<4. \<forall>j<4. ?Q ! i ! j = Fin (planar_quad_Q i j)"
    by (simp add: all_less_4 planar_quad_Q_def)
  have X: "\<forall>i<4. part_p (heap ?st (m_particles ?c ! i))
             = Vec3 (Fin (planar_quad_X i 0)) (Fin (planar_quad_X i 1)) (Fin (planar_quad_X i 2))"
    unfolding planar_quad_constraint
    by (simp add: all_less_4 planar_quad_def planar_quad_X_def)
  have v: "half_xQx planar_quad_Q planar_quad_X = 3"
    by (simp add: half_xQx_def sum_4 sum_3 planar_quad_Q_def planar_quad_X_def)
  have g: "concat (map (\<lambda>i. [Fin (Qx planar_quad_Q planar_quad_X i 0),
                              Fin (Qx planar_quad_Q planar_quad_X i 1),
                              Fin (Qx planar_quad_Q planar_quad_X i 2)]) [0..<4])
           = [Fin 0, Fin 0, Fin (- 6), Fin 0, Fin 0, Fin (- 6), Fin 0, Fin 0, Fin 6,
              Fin 0, Fin 0, Fin 6]"
    by (simp add: upt_4 Qx_def sum_4 planar_quad_Q_def planar_quad_X_def)
  from IsometricBending_quadratic_form
         [of ?c ?Q planar_quad_Q ?st planar_quad_X no_random "replicate 12 NaN"] s Q X
  show ?thesis unfolding v g by simp
qed

section \<open>What projectParticles applies\<close>

lemma constructed_lengths:
  assumes "constructed h c"
  shows "length (m_particles c) = arity (m_sub c)"
    and "length (m_inv_M c) = 3 * arity (m_sub c)"
  using assms
  by (induction rule: constructed.induct)
     (auto simp: BendingConstraint_def DistanceConstraint_Inr EnvironmentalCollisionConstraint_def
       FixedPointConstraint_def IsometricBendingConstraint_def arity_def Let_def)

lemma constructed_inv_M:
  assumes "constructed h c" "\<forall>a. m_sub c \<noteq> Bending a"
  shows "m_inv_M c = constructInverseMassMatrix (arity (m_sub c)) (m_particles c) h"
  using assms
  by (induction rule: constructed.induct)
     (auto simp: BendingConstraint_def DistanceConstraint_Inr EnvironmentalCollisionConstraint_def
       FixedPointConstraint_def IsometricBendingConstraint_def arity_def Let_def)

lemma less_zero_not_ge: "(C::dbl) < 0 \<Longrightarrow> \<not> 0 \<le> C"
  by (cases C) auto

lemma projectParticles_kernel:
  assumes v: "calculateValue c (heap st) = Inr C"
    and os: "\<forall>n d. m_sub c = EnvironmentalCollision n d \<longrightarrow> C < 0"
    and g: "calculateGrad rnd c st buf = (g, st1)"
  shows "projectParticles rnd buf c st =
           (case projectPositions (arity (m_sub c)) C g (m_inv_M c) (m_stiffness c)
                   (m_particles c) (heap st) of
              Inl e \<Rightarrow> Inl e | Inr h \<Rightarrow> Inr (st1\<lparr>heap := h\<rparr>))"
proof -
  have hs: "heap st1 = heap st" using calculateGrad_heap [of rnd c st buf] g by simp
  show ?thesis
    using os less_zero_not_ge [of C]
    by (auto simp: projectParticles_def v g project_def hs split: subtype.splits)
qed

lemma segment3_delta_x:
  assumes "3 * j + 2 < length inv_M" "3 * j + 2 < length g"
  shows "segment3 (delta_x s inv_M g) (3 * j) =
           Vec3 (- s * inv_M ! (3 * j) * g ! (3 * j))
                (- s * inv_M ! (3 * j + 1) * g ! (3 * j + 1))
                (- s * inv_M ! (3 * j + 2) * g ! (3 * j + 2))"
  using assms by (simp add: segment3_def delta_x_nth)

text \<open>
  C3, as amended. For a constraint of any subtype, built by its constructor over distinct
  particles: when the value is computed as \<open>C\<close>, the gradient is not exactly the zero
  vector, the displacement has no NaN and, for an EnvironmentalCollisionConstraint,
  \<open>C < 0\<close>, then \<^verbatim>\<open>projectParticles\<close> returns a state in which the position of each
  particle \<open>j\<close> has grown by the stiffness times \<open>- s invM\<^sub>j \<nabla>C\<^sub>j\<close>, with
  \<open>s = C / (\<nabla>C\<^sup>T diag(invM) \<nabla>C)\<close>, and nothing else has changed. Except for the
  BendingConstraint, whose constructor does not initialise it, \<open>invM\<close> holds the inverse
  mass that each particle had at construction, once per axis.
\<close>

theorem projectParticles_applies_kernel:
  assumes con: "constructed h0 c"
    and dist: "distinct (m_particles c)"
    and buf: "length buf = 3 * arity (m_sub c)"
    and v: "calculateValue c (heap st) = Inr C"
    and os: "\<forall>n d. m_sub c = EnvironmentalCollision n d \<longrightarrow> C < 0"
    and g: "calculateGrad rnd c st buf = (g, st1)"
    and nz: "\<not> (\<forall>x\<in>set g. x = Fin 0)"
    and s: "s = C / denominator g (m_inv_M c)"
    and nn: "\<not> hasNaN (delta_x s (m_inv_M c) g)"
  shows "\<exists>st'. projectParticles rnd buf c st = Inr st' \<and>
           rand_calls st' = rand_calls st1 \<and>
           (\<forall>j<arity (m_sub c).
              part_p (heap st' (m_particles c ! j)) =
                vadd (part_p (heap st (m_particles c ! j)))
                  (scale (m_stiffness c)
                     (Vec3 (- s * m_inv_M c ! (3 * j) * g ! (3 * j))
                           (- s * m_inv_M c ! (3 * j + 1) * g ! (3 * j + 1))
                           (- s * m_inv_M c ! (3 * j + 2) * g ! (3 * j + 2))))) \<and>
           (\<forall>a. a \<notin> set (m_particles c) \<longrightarrow> heap st' a = heap st a) \<and>
           (\<forall>a. part_x (heap st' a) = part_x (heap st a) \<and>
                part_w (heap st' a) = part_w (heap st a)) \<and>
           ((\<forall>a. m_sub c \<noteq> Bending a) \<longrightarrow>
              (\<forall>j<arity (m_sub c). \<forall>i<3.
                 m_inv_M c ! (3 * j + i) = part_w (h0 (m_particles c ! j))))"
proof -
  let ?N = "arity (m_sub c)"
  let ?dx = "delta_x s (m_inv_M c) g"
  let ?h' = "update_positions ?N (m_stiffness c) ?dx (m_particles c) (heap st)"
  have lp: "length (m_particles c) = ?N" and lm: "length (m_inv_M c) = 3 * ?N"
    using constructed_lengths [OF con] by simp_all
  have lg: "length g = 3 * ?N"
    using length_calculateGrad [OF buf, of rnd st] g by simp
  have hs: "heap st1 = heap st" using calculateGrad_heap [of rnd c st buf] g by simp
  have na: "\<not> isApprox g (ZeroN (?N * 3))"
    using isApprox_ZeroN [of g "?N * 3"] lg nz by (simp add: mult.commute)
  have k: "projectPositions ?N C g (m_inv_M c) (m_stiffness c) (m_particles c) (heap st)
           = Inr ?h'"
    using na nn by (simp add: projectPositions_def s Let_def)
  have r: "projectParticles rnd buf c st = Inr (st1\<lparr>heap := ?h'\<rparr>)"
    by (simp add: projectParticles_kernel [OF v os g] k)
  have moved: "part_p (?h' (m_particles c ! j)) =
                vadd (part_p (heap st (m_particles c ! j)))
                  (scale (m_stiffness c)
                     (Vec3 (- s * m_inv_M c ! (3 * j) * g ! (3 * j))
                           (- s * m_inv_M c ! (3 * j + 1) * g ! (3 * j + 1))
                           (- s * m_inv_M c ! (3 * j + 2) * g ! (3 * j + 2))))"
    if j: "j < ?N" for j
  proof -
    have "3 * j + 2 < length (m_inv_M c)" "3 * j + 2 < length g"
      using j lm lg by simp_all
    then have "segment3 ?dx (3 * j) =
           Vec3 (- s * m_inv_M c ! (3 * j) * g ! (3 * j))
                (- s * m_inv_M c ! (3 * j + 1) * g ! (3 * j + 1))
                (- s * m_inv_M c ! (3 * j + 2) * g ! (3 * j + 2))"
      by (rule segment3_delta_x)
    moreover have "part_p (?h' (m_particles c ! j)) =
        vadd (part_p (heap st (m_particles c ! j))) (scale (m_stiffness c) (segment3 ?dx (3 * j)))"
      using dist _ j by (rule update_positions_distinct) (simp add: lp)
    ultimately show ?thesis by simp
  qed
  have other: "?h' a = heap st a" if "a \<notin> set (m_particles c)" for a
  proof (rule update_positions_other, intro allI impI)
    fix j assume "j < ?N"
    then have "m_particles c ! j \<in> set (m_particles c)" using lp by simp
    with that show "m_particles c ! j \<noteq> a" by blast
  qed
  have cached: "m_inv_M c ! (3 * j + i) = part_w (h0 (m_particles c ! j))"
    if "\<forall>a. m_sub c \<noteq> Bending a" "j < ?N" "i < 3" for j i
    using constructed_inv_M [OF con that(1)] constructInverseMassMatrix_nth [OF that(2,3)]
    by simp
  show ?thesis
    using r moved other cached by (intro exI [of _ "st1\<lparr>heap := ?h'\<rparr>"]) simp
qed

text \<open>
  C3, as stated, fails: a particle one unit above the plane has the violation 1 and the
  gradient \<open>(0, 1, 0)\<close>, which is not zero. The kernel update would put the particle on
  the plane; \<^verbatim>\<open>projectParticles\<close> leaves it where it is.
\<close>

theorem one_sided_skips_kernel_counterexample:
  "calculateValue floor_constraint (floor_scene 1) = Inr (Fin 1) \<and>
   calculateGrad no_random floor_constraint (floor_state 1) [NaN, NaN, NaN]
     = ([Fin 0, Fin 1, Fin 0], floor_state 1) \<and>
   \<not> isApprox [Fin 0, Fin 1, Fin 0] (ZeroN 3) \<and>
   projectPositions 1 (Fin 1) [Fin 0, Fin 1, Fin 0] (m_inv_M floor_constraint)
       (m_stiffness floor_constraint) (m_particles floor_constraint) (floor_scene 1)
     = Inr ((floor_scene 1)
             (0 := \<lparr>part_x = Zero3, part_p = Vec3 (Fin 0) (Fin 0) (Fin 0), part_w = Fin 1\<rparr>)) \<and>
   projectParticles no_random [NaN, NaN, NaN] floor_constraint (floor_state 1)
     = Inr (floor_state 1)"
proof -
  have v: "calculateValue floor_constraint (floor_scene 1) = Inr (Fin 1)"
    by (simp add: floor_constraint_def EnvironmentalCollisionConstraint_value up_def
        floor_scene_def)
  have g: "calculateGrad no_random floor_constraint (floor_state 1) [NaN, NaN, NaN]
     = ([Fin 0, Fin 1, Fin 0], floor_state 1)"
    by (simp add: floor_constraint_def EnvironmentalCollisionConstraint_def calculateGrad_def
        EnvironmentalCollisionConstraint_calculateGrad_def up_def)
  have a: "\<not> isApprox [Fin 0, Fin 1, Fin 0] (ZeroN 3)"
    using isApprox_ZeroN [of "[Fin 0, Fin 1, Fin 0]" 3] by simp
  have f: "m_inv_M floor_constraint = [Fin 1, Fin 1, Fin 1]"
    "m_stiffness floor_constraint = Fin 1" "m_particles floor_constraint = [0]"
    by (simp_all add: floor_constraint_def EnvironmentalCollisionConstraint_def floor_scene_def)
  have k: "projectPositions 1 (Fin 1) [Fin 0, Fin 1, Fin 0] (m_inv_M floor_constraint)
       (m_stiffness floor_constraint) (m_particles floor_constraint) (floor_scene 1)
     = Inr ((floor_scene 1)
             (0 := \<lparr>part_x = Zero3, part_p = Vec3 (Fin 0) (Fin 0) (Fin 0), part_w = Fin 1\<rparr>))"
    unfolding f using collision_kernel [of 0 1 0 1 1 0 "floor_scene 1"]
    by (simp add: floor_scene_def)
  have r: "projectParticles no_random [NaN, NaN, NaN] floor_constraint (floor_state 1)
     = Inr (floor_state 1)"
    by (simp add: floor_constraint_def EnvironmentalCollisionConstraint_project floor_state_def
        floor_scene_def up_def Let_def)
  from v g a k r show ?thesis by blast
qed

theorem projectParticles_applies_kernel_witness:
  "\<exists>st'. projectParticles no_random (replicate 6 NaN) (link pinned_pair 1)
            \<lparr>heap = pinned_pair, rand_calls = 0\<rparr> = Inr st' \<and>
         part_p (heap st' 0) = Vec3 (Fin 1) (Fin 0) (Fin 0) \<and>
         part_p (heap st' 1) = Vec3 (Fin 2) (Fin 0) (Fin 0)"
proof -
  let ?st = "\<lparr>heap = pinned_pair, rand_calls = 0\<rparr>"
  let ?c = "link pinned_pair 1"
  let ?g = "[Fin (- 1), Fin 0, Fin 0, Fin 1, Fin 0, Fin 0]"
  have con: "constructed pinned_pair ?c"
    by (rule constructed.Distance [OF link_Inr]) simp
  have mp: "m_particles ?c = [0, 1]" by (simp add: link_fields)
  have dist: "distinct (m_particles ?c)" by (simp add: mp)
  have sub: "m_sub ?c = Distance (Fin 1)" by (simp add: link_fields)
  have buf: "length (replicate 6 NaN :: dbl list) = 3 * arity (m_sub ?c)"
    by (simp add: sub arity_def)
  have x: "part_p (heap ?st 0) = Vec3 (Fin 0) (Fin 0) (Fin 0)"
    "part_p (heap ?st 1) = Vec3 (Fin 2) (Fin 0) (Fin 0)"
    by (simp_all add: pinned_pair_def)
  have v: "calculateValue ?c (heap ?st) = Inr (Fin 1)"
    using DistanceConstraint_grad_finite(2) [OF mp x]
    by (simp add: calculateValue_def sub)
  have os: "\<forall>n d. m_sub ?c = EnvironmentalCollision n d \<longrightarrow> Fin 1 < (0::dbl)"
    by (simp add: sub)
  have g: "calculateGrad no_random ?c ?st (replicate 6 NaN) = (?g, ?st)"
    using DistanceConstraint_grad_finite(1) [OF mp x, of no_random]
    by (simp add: calculateGrad_def sub)
  have nz: "\<not> (\<forall>x\<in>set ?g. x = Fin 0)" by simp
  have iw: "m_inv_M ?c = [Fin 1, Fin 1, Fin 1, Fin 0, Fin 0, Fin 0]"
    by (simp add: link_fields pinned_pair_def)
  have s: "Fin 1 = Fin 1 / denominator ?g (m_inv_M ?c)"
    by (simp add: iw denominator_def)
  have nn: "\<not> hasNaN (delta_x (Fin 1) (m_inv_M ?c) ?g)"
    by (simp add: iw delta_x_def hasNaN_def)
  from projectParticles_applies_kernel [OF con dist buf v os g nz s nn]
  obtain st' where r: "projectParticles no_random (replicate 6 NaN) ?c ?st = Inr st'"
    and m: "\<forall>j<arity (m_sub ?c).
              part_p (heap st' (m_particles ?c ! j)) =
                vadd (part_p (heap ?st (m_particles ?c ! j)))
                  (scale (m_stiffness ?c)
                     (Vec3 (- Fin 1 * m_inv_M ?c ! (3 * j) * ?g ! (3 * j))
                           (- Fin 1 * m_inv_M ?c ! (3 * j + 1) * ?g ! (3 * j + 1))
                           (- Fin 1 * m_inv_M ?c ! (3 * j + 2) * ?g ! (3 * j + 2))))"
    by blast
  have k: "m_stiffness ?c = Fin 1" by (simp add: link_fields)
  have x': "part_p (pinned_pair 0) = Vec3 (Fin 0) (Fin 0) (Fin 0)"
    "part_p (pinned_pair (Suc 0)) = Vec3 (Fin 2) (Fin 0) (Fin 0)"
    by (simp_all add: pinned_pair_def)
  from m [rule_format, of 0] have "part_p (heap st' 0) = Vec3 (Fin 1) (Fin 0) (Fin 0)"
    by (simp add: sub arity_def mp iw k x')
  moreover from m [rule_format, of 1] have "part_p (heap st' 1) = Vec3 (Fin 2) (Fin 0) (Fin 0)"
    by (simp add: sub arity_def mp iw k x')
  ultimately show ?thesis using r by blast
qed

section \<open>Rounding to nearest\<close>

subsection \<open>Powers of two\<close>

lemma pow2_pos [simp]: "0 < pow2 k"
  by (simp add: pow2_def)

lemma pow2_nonzero [simp]: "pow2 k \<noteq> 0"
  by (simp add: pow2_def)

lemma pow2_add: "pow2 (a + b) = pow2 a * pow2 b"
  by (simp add: pow2_def powr_add)

lemma pow2_0 [simp]: "pow2 0 = 1"
  by (simp add: pow2_def)

lemma pow2_1 [simp]: "pow2 1 = 2"
  by (simp add: pow2_def)

lemma pow2_Suc: "pow2 (k + 1) = 2 * pow2 k"
  by (simp add: pow2_add)

lemma pow2_diff: "pow2 (a - b) = pow2 a / pow2 b"
  by (simp add: pow2_def powr_diff)

lemma pow2_numeral: "pow2 (numeral n) = 2 ^ numeral n"
  by (simp add: pow2_def)

lemma pow2_neg_numeral: "pow2 (- numeral n) = 1 / 2 ^ numeral n"
  by (simp add: pow2_def powr_neg_numeral)

lemma pow2_nat: "pow2 (int n) = 2 ^ n"
  by (simp add: pow2_def powr_realpow)

lemma pow2_le_iff [simp]: "pow2 a \<le> pow2 b \<longleftrightarrow> a \<le> b"
  by (simp add: pow2_def)

lemma pow2_less_iff [simp]: "pow2 a < pow2 b \<longleftrightarrow> a < b"
  by (simp add: pow2_def)

lemma floor_log2_bounds:
  assumes "x \<noteq> 0"
  shows "pow2 \<lfloor>log 2 \<bar>x\<bar>\<rfloor> \<le> \<bar>x\<bar>" and "\<bar>x\<bar> < pow2 (\<lfloor>log 2 \<bar>x\<bar>\<rfloor> + 1)"
  using assms floor_log_eq_powr_iff [of "\<bar>x\<bar>" 2 "\<lfloor>log 2 \<bar>x\<bar>\<rfloor>"]
  by (simp_all add: pow2_def)

lemma floor_log2_eqI:
  assumes "pow2 k \<le> \<bar>x\<bar>" "\<bar>x\<bar> < pow2 (k + 1)"
  shows "\<lfloor>log 2 \<bar>x\<bar>\<rfloor> = k"
proof -
  have "0 < \<bar>x\<bar>" using assms(1) pow2_pos [of k] by linarith
  then show ?thesis
    using assms floor_log_eq_powr_iff [of "\<bar>x\<bar>" 2 k] by (simp add: pow2_def)
qed

subsection \<open>Rounding to the nearest integer\<close>

lemma rne_of_int [simp]: "rne (of_int k) = k"
  by (simp add: rne_def)

lemma rne_cases:
  "rne x = \<lfloor>x\<rfloor> \<and> x - of_int \<lfloor>x\<rfloor> \<le> 1 / 2 \<or>
   rne x = \<lfloor>x\<rfloor> + 1 \<and> 1 / 2 \<le> x - of_int \<lfloor>x\<rfloor>"
  by (auto simp: rne_def Let_def)

lemma rne_error: "\<bar>of_int (rne x) - x\<bar> \<le> 1 / 2"
proof -
  have "of_int \<lfloor>x\<rfloor> \<le> x" "x < of_int \<lfloor>x\<rfloor> + 1" by linarith+
  then show ?thesis using rne_cases [of x] by auto
qed

lemma rne_ge: "of_int a \<le> x \<Longrightarrow> a \<le> rne x"
proof -
  assume "of_int a \<le> x"
  then have "a \<le> \<lfloor>x\<rfloor>" by (simp add: le_floor_iff)
  then show ?thesis using rne_cases [of x] by auto
qed

lemma rne_le: "x \<le> of_int b \<Longrightarrow> rne x \<le> b"
proof -
  assume b: "x \<le> of_int b"
  show ?thesis
  proof (cases "x = of_int \<lfloor>x\<rfloor>")
    case True
    then have "rne x = \<lfloor>x\<rfloor>" by (metis rne_of_int)
    moreover have "\<lfloor>x\<rfloor> \<le> b" using b by (simp add: floor_le_iff)
    ultimately show ?thesis by simp
  next
    case False
    then have "of_int \<lfloor>x\<rfloor> < x" using of_int_floor_le [of x] by linarith
    then have "of_int \<lfloor>x\<rfloor> < (of_int b :: real)" using b by linarith
    then have "\<lfloor>x\<rfloor> < b" by simp
    then show ?thesis using rne_cases [of x] by auto
  qed
qed

lemma rne_minus: "rne (- x) = - rne x"
proof (cases "x = of_int \<lfloor>x\<rfloor>")
  case True
  then obtain k where "x = of_int k" ..
  then show ?thesis by (simp flip: of_int_minus)
next
  case False
  then have fl: "\<lfloor>- x\<rfloor> = - \<lfloor>x\<rfloor> - 1"
    by (metis ceiling_def ceiling_altdef add.inverse_inverse diff_minus_eq_add minus_diff_eq
        neg_equal_iff_equal uminus_add_conv_diff)
  show ?thesis
    unfolding rne_def Let_def fl
    by (auto simp: field_simps)
qed

subsection \<open>Exponent, spacing and the error of rounding\<close>

lemma expo_minus [simp]: "expo (- x) = expo x"
  by (simp add: expo_def)

lemma ulp_minus [simp]: "ulp (- x) = ulp x"
  by (simp add: ulp_def)

lemma ulp_pos [simp]: "0 < ulp x"
  by (simp add: ulp_def)

lemma ulp_nonzero [simp]: "ulp x \<noteq> 0"
  by (simp add: ulp_def)

lemma ulp_nonneg [simp]: "0 \<le> ulp x"
  by (rule less_imp_le) simp

lemma pow2_not_le_zero [simp]: "\<not> pow2 k \<le> 0"
  by (simp add: not_le)

lemma round_double_0 [simp]: "round_double 0 = 0"
  by (simp add: round_double_def)

lemma round_double_minus: "round_double (- x) = - round_double x"
  by (simp add: round_double_def rne_minus)

lemma expo_ge: "- 1022 \<le> expo x"
  by (simp add: expo_def)

lemma abs_less_pow2_expo:
  assumes "x \<noteq> 0"
  shows "\<bar>x\<bar> < pow2 (expo x + 1)"
proof -
  have "\<bar>x\<bar> < pow2 (\<lfloor>log 2 \<bar>x\<bar>\<rfloor> + 1)" using assms by (rule floor_log2_bounds)
  also have "\<dots> \<le> pow2 (expo x + 1)" by (simp add: expo_def)
  finally show ?thesis .
qed

lemma expo_normal:
  assumes "pow2 (- 1022) \<le> \<bar>x\<bar>"
  shows "pow2 (expo x) \<le> \<bar>x\<bar>"
proof -
  have nz: "x \<noteq> 0" using assms by auto
  have "pow2 (- 1022) < pow2 (\<lfloor>log 2 \<bar>x\<bar>\<rfloor> + 1)"
    using assms floor_log2_bounds(2) [OF nz] by linarith
  then have "expo x = \<lfloor>log 2 \<bar>x\<bar>\<rfloor>" by (simp add: expo_def)
  then show ?thesis using floor_log2_bounds(1) [OF nz] by simp
qed

lemma expo_cases:
  assumes "x \<noteq> 0"
  shows "pow2 (expo x) \<le> \<bar>x\<bar> \<or> expo x = - 1022"
  using floor_log2_bounds(1) [OF assms] by (auto simp: expo_def max_def)

lemma expo_eqI:
  assumes k: "- 1022 \<le> k" and up: "\<bar>x\<bar> < pow2 (k + 1)"
    and lo: "pow2 k \<le> \<bar>x\<bar> \<or> k = - 1022" and nz: "x \<noteq> 0"
  shows "expo x = k"
proof -
  let ?e = "\<lfloor>log 2 \<bar>x\<bar>\<rfloor>"
  have "pow2 ?e < pow2 (k + 1)" using floor_log2_bounds(1) [OF nz] up by linarith
  then have le: "?e \<le> k" by simp
  from lo show ?thesis
  proof
    assume "pow2 k \<le> \<bar>x\<bar>"
    then have "pow2 k < pow2 (?e + 1)" using floor_log2_bounds(2) [OF nz] by linarith
    then have "k \<le> ?e" by simp
    with le k show ?thesis by (simp add: expo_def)
  next
    assume "k = - 1022"
    with le show ?thesis by (simp add: expo_def)
  qed
qed

lemma round_double_grid:
  assumes "x = of_int M * pow2 (expo x - 52)"
  shows "round_double x = x"
proof (cases "x = 0")
  case True
  then show ?thesis by simp
next
  case False
  define U where "U = pow2 (expo x - 52)"
  have U: "ulp x = U" "U \<noteq> 0" by (simp_all add: ulp_def U_def)
  have x: "x = of_int M * U" using assms by (simp only: U_def)
  have "x / U = of_int M" unfolding x using U(2) by simp
  then have "of_int (rne (x / U)) * U = x" using x by simp
  then show ?thesis using False by (simp add: round_double_def U(1))
qed

lemma round_double_error_ulp: "\<bar>round_double x - x\<bar> \<le> ulp x / 2"
proof (cases "x = 0")
  case True
  then show ?thesis by simp
next
  case False
  have "\<bar>of_int (rne (x / ulp x)) * ulp x - x\<bar> = \<bar>of_int (rne (x / ulp x)) - x / ulp x\<bar> * ulp x"
  proof -
    have "of_int (rne (x / ulp x)) * ulp x - x = (of_int (rne (x / ulp x)) - x / ulp x) * ulp x"
      by (simp add: field_simps)
    then show ?thesis by (simp add: abs_mult)
  qed
  also have "\<dots> \<le> 1 / 2 * ulp x"
    by (rule mult_right_mono [OF rne_error]) simp
  finally show ?thesis using False by (simp add: round_double_def)
qed

lemma round_double_error:
  assumes "pow2 (- 1022) \<le> \<bar>x\<bar>"
  shows "\<bar>round_double x - x\<bar> \<le> \<bar>x\<bar> / 2 ^ 53"
proof -
  have "ulp x / 2 = pow2 (expo x) / 2 ^ 53"
    by (simp add: ulp_def pow2_diff pow2_numeral)
  also have "\<dots> \<le> \<bar>x\<bar> / 2 ^ 53"
    using expo_normal [OF assms] by (simp add: divide_right_mono)
  finally show ?thesis using round_double_error_ulp [of x] by linarith
qed

subsection \<open>Rounding is idempotent\<close>

lemma abs_pow2 [simp]: "\<bar>pow2 k\<bar> = pow2 k"
  by (simp add: abs_of_pos)

lemma round_double_idem_pos:
  assumes x: "0 < x"
  shows "round_double (round_double x) = round_double x"
proof -
  define e where "e = expo x"
  define U where "U = pow2 (e - 52)"
  define M where "M = rne (x / U)"
  define y where "y = of_int M * U"
  have U: "0 < U" by (simp add: U_def)
  have y: "round_double x = y"
    using x by (simp add: round_double_def ulp_def y_def M_def U_def e_def)
  have U53: "2 ^ 53 * U = pow2 (e + 1)"
  proof -
    have "e + 1 = 53 + (e - 52)" by simp
    then have "pow2 (e + 1) = pow2 (53 + (e - 52))" by (rule arg_cong)
    also have "\<dots> = pow2 53 * U" unfolding U_def by (rule pow2_add)
    finally show ?thesis by (simp add: pow2_numeral)
  qed
  have U52: "2 ^ 52 * U = pow2 e"
  proof -
    have "e = 52 + (e - 52)" by simp
    then have "pow2 e = pow2 (52 + (e - 52))" by (rule arg_cong)
    also have "\<dots> = pow2 52 * U" unfolding U_def by (rule pow2_add)
    finally show ?thesis by (simp add: pow2_numeral)
  qed
  have "x < pow2 (e + 1)" using abs_less_pow2_expo [of x] x by (simp add: e_def)
  then have "x / U < 2 ^ 53" using U U53 by (simp add: pos_divide_less_eq)
  then have "x / U \<le> of_int (2 ^ 53)" by simp
  then have M_le: "M \<le> 2 ^ 53" unfolding M_def by (rule rne_le)
  have "of_int 0 \<le> x / U" using x U by simp
  then have M_ge: "0 \<le> M" unfolding M_def by (rule rne_ge)
  have e_ge: "- 1022 \<le> e" by (simp add: e_def expo_ge)
  consider "M = 0" | "M = 2 ^ 53" | "0 < M" "M < 2 ^ 53"
    using M_le M_ge by linarith
  then have "round_double y = y"
  proof cases
    case 1
    then show ?thesis by (simp add: y_def)
  next
    case 2
    have yv: "y = pow2 (e + 1)" using U53 by (simp add: y_def 2)
    have ey: "expo y = e + 1"
    proof (rule expo_eqI)
      show "- 1022 \<le> e + 1" using e_ge by simp
      show "\<bar>y\<bar> < pow2 (e + 1 + 1)" by (simp add: yv)
      show "pow2 (e + 1) \<le> \<bar>y\<bar> \<or> e + 1 = - 1022" by (simp add: yv)
      show "y \<noteq> 0" by (simp add: yv)
    qed
    have "e + 1 = 52 + (e + 1 - 52)" by simp
    then have "pow2 (e + 1) = pow2 (52 + (e + 1 - 52))" by (rule arg_cong)
    also have "\<dots> = pow2 52 * pow2 (e + 1 - 52)" by (rule pow2_add)
    also have "pow2 52 = of_int (2 ^ 52)" by (simp add: pow2_numeral)
    finally have p: "pow2 (e + 1) = of_int (2 ^ 52) * pow2 (e + 1 - 52)" .
    have "y = of_int (2 ^ 52) * pow2 (expo y - 52)"
      unfolding ey by (subst yv) (rule p)
    then show ?thesis by (rule round_double_grid)
  next
    case 3
    have ypos: "0 < y" using 3(1) U by (simp add: y_def)
    have "y < 2 ^ 53 * U"
      unfolding y_def using 3(2) U by (simp add: mult_strict_right_mono)
    then have up: "\<bar>y\<bar> < pow2 (e + 1)" using ypos U53 by simp
    have lo: "pow2 e \<le> \<bar>y\<bar> \<or> e = - 1022"
    proof -
      from expo_cases [of x] x have "pow2 e \<le> x \<or> e = - 1022" by (simp add: e_def)
      then show ?thesis
      proof
        assume "pow2 e \<le> x"
        then have "2 ^ 52 \<le> x / U" using U U52 by (simp add: pos_le_divide_eq)
        then have "of_int (2 ^ 52) \<le> x / U" by simp
        then have "2 ^ 52 \<le> M" unfolding M_def by (rule rne_ge)
        then have "(2 ^ 52 :: real) \<le> of_int M" by (metis of_int_le_iff of_int_numeral of_int_power)
        then have "2 ^ 52 * U \<le> of_int M * U" using U by (simp add: mult_right_mono)
        then show ?thesis using ypos U52 by (simp add: y_def)
      qed simp
    qed
    have ey: "expo y = e"
      using e_ge up lo by (rule expo_eqI) (use ypos in simp)
    have "y = of_int M * pow2 (expo y - 52)"
      unfolding ey by (simp only: y_def U_def)
    then show ?thesis by (rule round_double_grid)
  qed
  then show ?thesis by (simp add: y)
qed

lemma round_double_idem [simp]: "round_double (round_double x) = round_double x"
proof -
  consider "x = 0" | "0 < x" | "0 < - x" by linarith
  then show ?thesis
  proof cases
    case 1
    then show ?thesis by simp
  next
    case 2
    then show ?thesis by (rule round_double_idem_pos)
  next
    case 3
    from round_double_idem_pos [OF 3] show ?thesis
      by (simp add: round_double_minus)
  qed
qed

subsection \<open>Values of doubles\<close>

lemma is_double_0 [simp]: "is_double 0"
  by (simp add: is_double_def)

lemma is_double_minus [simp]: "is_double (- x) \<longleftrightarrow> is_double x"
  by (auto simp: is_double_def round_double_minus)

lemma is_double_round: "\<bar>round_double x\<bar> < 2 ^ 1024 \<Longrightarrow> is_double (round_double x)"
  by (simp add: is_double_def)

lemma rd_double: "is_double x \<Longrightarrow> rd (Fin x) = Fin x"
  by (simp add: is_double_def Let_def)

lemma rd_round: "\<bar>round_double x\<bar> < 2 ^ 1024 \<Longrightarrow> rd (Fin x) = Fin (round_double x)"
  by (simp add: Let_def)

lemma rd_0 [simp]: "rd (Fin 0) = Fin 0"
  by (simp add: rd_double)

lemma is_double_sign: "\<sigma> = 1 \<or> \<sigma> = - 1 \<Longrightarrow> is_double x \<Longrightarrow> is_double (\<sigma> * x)"
  by auto

lemma rne_eqI:
  assumes "\<bar>x - of_int M\<bar> < 1 / 2"
  shows "rne x = M"
proof -
  have "\<bar>of_int (rne x) - x\<bar> \<le> 1 / 2" by (rule rne_error)
  with assms have "\<bar>(of_int (rne x) :: real) - of_int M\<bar> < 1" by linarith
  then have "\<bar>(of_int (rne x - M) :: real)\<bar> < 1" by simp
  then have "\<bar>rne x - M\<bar> < 1" by linarith
  then show ?thesis by linarith
qed

lemma round_double_eqI:
  assumes nz: "x \<noteq> 0" and e: "expo x = e"
    and M: "\<bar>x / pow2 (e - 52) - of_int M\<bar> < 1 / 2"
  shows "round_double x = of_int M * pow2 (e - 52)"
  using nz e rne_eqI [OF M] by (simp add: round_double_def ulp_def)

lemma is_double_of_int:
  assumes k: "\<bar>k\<bar> < 2 ^ 53"
  shows "is_double (of_int k)"
proof (cases "k = 0")
  case True
  then show ?thesis by simp
next
  case False
  define x :: real where "x = of_int k"
  define e where "e = expo x"
  have nz: "x \<noteq> 0" using False by (simp add: x_def)
  have "1 \<le> \<bar>k\<bar>" using False by linarith
  then have one: "1 \<le> \<bar>x\<bar>" unfolding x_def by (metis of_int_abs of_int_1_le_iff)
  have "pow2 (- 1022) \<le> pow2 0" by (simp only: pow2_le_iff)
  with one have norm: "pow2 (- 1022) \<le> \<bar>x\<bar>" by simp
  have lo: "pow2 e \<le> \<bar>x\<bar>" unfolding e_def by (rule expo_normal [OF norm])
  have "\<bar>x\<bar> < 2 ^ 53" using k unfolding x_def
    by (metis of_int_abs of_int_less_numeral_power_cancel_iff)
  then have up: "\<bar>x\<bar> < pow2 53" by (simp add: pow2_numeral)
  from lo up have "pow2 e < pow2 53" by linarith
  then have e53: "e < 53" by simp
  have "1 < pow2 (e + 1)"
    using one abs_less_pow2_expo [OF nz] unfolding e_def by simp
  then have "pow2 0 < pow2 (e + 1)" by (simp only: pow2_0)
  then have "0 < e + 1" by (simp only: pow2_less_iff)
  then have e0: "0 \<le> e" by simp
  define n where "n = nat (52 - e)"
  have n: "int n = 52 - e" using e53 by (simp add: n_def)
  have "pow2 (int n) * pow2 (e - 52) = pow2 (int n + (e - 52))" by (simp add: pow2_add)
  also have "int n + (e - 52) = 0" using n by simp
  finally have "2 ^ n * pow2 (e - 52) = 1" by (simp add: pow2_nat)
  then have "x = of_int (k * 2 ^ n) * pow2 (e - 52)"
    by (simp add: x_def mult.assoc)
  then have "round_double x = x" unfolding e_def by (rule round_double_grid)
  moreover have "\<bar>x\<bar> < 2 ^ 1024"
  proof -
    have "(2::real) ^ 53 \<le> 2 ^ 1024" by (rule power_increasing) simp_all
    with \<open>\<bar>x\<bar> < 2 ^ 53\<close> show ?thesis by linarith
  qed
  ultimately show ?thesis by (simp add: is_double_def x_def)
qed

lemma is_double_1 [simp]: "is_double 1"
  using is_double_of_int [of 1] by simp

lemma is_double_numeral: "numeral n < (2 ^ 53 :: int) \<Longrightarrow> is_double (numeral n)"
  using is_double_of_int [of "numeral n"] by simp

lemma round_double_pow2:
  assumes "- 1022 \<le> k"
  shows "round_double (pow2 k) = pow2 k"
proof -
  have e: "expo (pow2 k) = k"
    by (rule expo_eqI [OF assms]) simp_all
  have "pow2 k = pow2 (52 + (k - 52))" by simp
  also have "\<dots> = pow2 52 * pow2 (k - 52)" by (rule pow2_add)
  also have "pow2 52 = of_int (2 ^ 52)" by (simp add: pow2_numeral)
  finally have g: "pow2 k = of_int (2 ^ 52) * pow2 (k - 52)" .
  have "pow2 k = of_int (2 ^ 52) * pow2 (expo (pow2 k) - 52)"
    unfolding e by (rule g)
  then show ?thesis by (rule round_double_grid)
qed

subsection \<open>The rounded operations\<close>

declare rd.simps(1) [simp del]

lemma fmul_Fin: "fmul (Fin a) (Fin b) = rd (Fin (a * b))"
  by (simp add: fmul_def)

lemma fadd_Fin: "fadd (Fin a) (Fin b) = rd (Fin (a + b))"
  by (simp add: fadd_def)

lemma fsub_Fin: "fsub (Fin a) (Fin b) = rd (Fin (a - b))"
  by (simp add: fsub_def)

lemma fdiv_Fin: "b \<noteq> 0 \<Longrightarrow> fdiv (Fin a) (Fin b) = rd (Fin (a / b))"
  by (simp add: fdiv_def)

lemma fmul_0_left [simp]: "fmul (Fin 0) (Fin x) = Fin 0"
  by (simp add: fmul_Fin)

lemma fmul_0_right [simp]: "fmul (Fin x) (Fin 0) = Fin 0"
  by (simp add: fmul_Fin)

lemma fadd_0_left: "is_double x \<Longrightarrow> fadd (Fin 0) (Fin x) = Fin x"
  by (simp add: fadd_Fin rd_double)

lemma fadd_0_right: "is_double x \<Longrightarrow> fadd (Fin x) (Fin 0) = Fin x"
  by (simp add: fadd_Fin rd_double)

lemma fmul_sign_left:
  "\<sigma> = 1 \<or> \<sigma> = - 1 \<Longrightarrow> is_double x \<Longrightarrow> fmul (Fin \<sigma>) (Fin x) = Fin (\<sigma> * x)"
  by (auto simp: fmul_Fin rd_double)

lemma fmul_sign_right:
  "\<sigma> = 1 \<or> \<sigma> = - 1 \<Longrightarrow> is_double x \<Longrightarrow> fmul (Fin x) (Fin \<sigma>) = Fin (x * \<sigma>)"
  by (auto simp: fmul_Fin rd_double)

lemma fmul_1_left: "is_double x \<Longrightarrow> fmul (Fin 1) (Fin x) = Fin x"
  by (simp add: fmul_Fin rd_double)

lemma in_range_error:
  assumes "in_range v"
  shows "\<bar>round_double v - v\<bar> \<le> \<bar>v\<bar> / 2 ^ 53"
proof (cases "v = 0")
  case True
  then show ?thesis by simp
next
  case False
  with assms have "pow2 (- 1022) \<le> \<bar>v\<bar>" unfolding in_range_def by blast
  then show ?thesis by (rule round_double_error)
qed

lemma in_range_double:
  assumes "in_range v"
  shows "is_double (round_double v)"
proof (cases "v = 0")
  case True
  then show ?thesis by simp
next
  case False
  with assms have "\<bar>round_double v\<bar> < 2 ^ 1024" unfolding in_range_def by blast
  then show ?thesis by (rule is_double_round)
qed

lemma in_range_rd:
  assumes "in_range v"
  shows "rd (Fin v) = Fin (round_double v)"
proof (cases "v = 0")
  case True
  then show ?thesis by simp
next
  case False
  with assms have "\<bar>round_double v\<bar> < 2 ^ 1024" unfolding in_range_def by blast
  then show ?thesis by (rule rd_round)
qed

text \<open>The rounding errors of the three operations on the violation accumulate to at most
  three units in the last place.\<close>

lemma correction_error:
  fixes C w :: real
  assumes w: "0 < w"
    and s: "\<bar>s - C / w\<bar> \<le> \<bar>C / w\<bar> / 2 ^ 53"
    and t: "\<bar>t - (- s * w)\<bar> \<le> \<bar>- s * w\<bar> / 2 ^ 53"
  shows "\<bar>t - (- C)\<bar> \<le> 3 * \<bar>C\<bar> / 2 ^ 53"
proof -
  define u :: real where "u = 1 / 2 ^ 53"
  have u0: "0 \<le> u" and u1: "u \<le> 1" by (simp_all add: u_def)
  have aw: "\<bar>w\<bar> = w" using w by simp
  have "s * w - C = (s - C / w) * w" using w by (simp add: algebra_simps)
  then have "\<bar>s * w - C\<bar> = \<bar>s - C / w\<bar> * w" by (simp only: abs_mult aw)
  also have "\<dots> \<le> (\<bar>C / w\<bar> / 2 ^ 53) * w"
    using s w by (intro mult_right_mono) simp_all
  also have "\<bar>C / w\<bar> = \<bar>C\<bar> / w" by (simp only: abs_divide aw)
  also have "(\<bar>C\<bar> / w / 2 ^ 53) * w = u * \<bar>C\<bar>" using w by (simp add: u_def)
  finally have sw: "\<bar>s * w - C\<bar> \<le> u * \<bar>C\<bar>" .
  then have "\<bar>s * w\<bar> \<le> \<bar>C\<bar> + u * \<bar>C\<bar>" by linarith
  then have "u * \<bar>s * w\<bar> \<le> u * (\<bar>C\<bar> + u * \<bar>C\<bar>)"
    using u0 by (rule mult_left_mono)
  moreover have "u * (u * \<bar>C\<bar>) \<le> 1 * (u * \<bar>C\<bar>)"
    using u1 u0 by (intro mult_right_mono) simp_all
  ultimately have "u * \<bar>s * w\<bar> \<le> 2 * (u * \<bar>C\<bar>)" by (simp add: algebra_simps)
  moreover have "\<bar>t + s * w\<bar> \<le> u * \<bar>s * w\<bar>" using t by (simp add: u_def)
  ultimately have "\<bar>t + C\<bar> \<le> 3 * (u * \<bar>C\<bar>)" using sw by linarith
  then show ?thesis by (simp add: u_def)
qed

lemma landing_error:
  fixes r d :: real
  assumes sg: "\<sigma> = 1 \<or> \<sigma> = - 1"
    and r: "r = \<sigma> * xk - d"
    and C: "\<bar>C - r\<bar> \<le> \<bar>r\<bar> / 2 ^ 53"
    and t: "\<bar>t - (- C)\<bar> \<le> 3 * \<bar>C\<bar> / 2 ^ 53"
    and y: "\<bar>y - (xk + \<sigma> * t)\<bar> \<le> \<bar>xk + \<sigma> * t\<bar> / 2 ^ 53"
  shows "\<bar>\<sigma> * y - d\<bar> \<le> 5 * \<bar>r\<bar> / 2 ^ 53 + \<bar>d\<bar> / 2 ^ 53"
proof -
  define u :: real where "u = 1 / 2 ^ 53"
  define z where "z = xk + \<sigma> * t"
  have u0: "0 \<le> u" and u8: "8 * u \<le> 1" by (simp_all add: u_def)
  have s2: "\<sigma> * \<sigma> = 1" and sa: "\<bar>\<sigma>\<bar> = 1" using sg by auto
  have Cr: "\<bar>C - r\<bar> \<le> u * \<bar>r\<bar>" using C by (simp add: u_def)
  have tC: "\<bar>t + C\<bar> \<le> 3 * (u * \<bar>C\<bar>)" using t by (simp add: u_def)
  have yz: "\<bar>y - z\<bar> \<le> u * \<bar>z\<bar>" using y by (simp add: u_def z_def)
  have "\<sigma> * z = \<sigma> * xk + (\<sigma> * \<sigma>) * t" by (simp add: z_def algebra_simps)
  then have sz: "\<sigma> * z = r + d + t" using r s2 by simp
  have "\<bar>z\<bar> = \<bar>\<sigma>\<bar> * \<bar>z\<bar>" by (simp add: sa)
  also have "\<dots> = \<bar>r + d + t\<bar>" by (simp add: abs_mult [symmetric] sz)
  finally have za: "\<bar>z\<bar> = \<bar>r + d + t\<bar>" .
  have "\<bar>\<sigma> * y - \<sigma> * z\<bar> = \<bar>\<sigma>\<bar> * \<bar>y - z\<bar>"
    by (simp add: abs_mult [symmetric] algebra_simps)
  then have syz: "\<bar>\<sigma> * y - \<sigma> * z\<bar> \<le> u * \<bar>z\<bar>" using yz by (simp add: sa)
  have Cb: "\<bar>C\<bar> \<le> \<bar>r\<bar> + u * \<bar>r\<bar>" using Cr by linarith
  have uC: "u * \<bar>C\<bar> \<le> u * (\<bar>r\<bar> + u * \<bar>r\<bar>)" using Cb u0 by (rule mult_left_mono)
  have uur: "u * (u * \<bar>r\<bar>) \<le> (1 / 8) * (u * \<bar>r\<bar>)"
    using u8 u0 by (intro mult_right_mono) simp_all
  have e: "\<bar>r + t\<bar> \<le> u * \<bar>r\<bar> + 3 * (u * \<bar>C\<bar>)" using Cr tC by linarith
  have uC': "u * \<bar>C\<bar> \<le> (9 / 8) * (u * \<bar>r\<bar>)" using uC uur by (simp add: algebra_simps)
  have e': "\<bar>r + t\<bar> \<le> (35 / 8) * (u * \<bar>r\<bar>)" using e uC' by linarith
  have "\<bar>z\<bar> \<le> \<bar>d\<bar> + (35 / 8) * (u * \<bar>r\<bar>)" using za e' by linarith
  then have "u * \<bar>z\<bar> \<le> u * (\<bar>d\<bar> + (35 / 8) * (u * \<bar>r\<bar>))" using u0 by (rule mult_left_mono)
  then have uz: "u * \<bar>z\<bar> \<le> u * \<bar>d\<bar> + (35 / 8) * (u * (u * \<bar>r\<bar>))" by (simp add: algebra_simps)
  have "\<sigma> * y - d = (\<sigma> * y - \<sigma> * z) + (r + t)" using sz by simp
  then have "\<bar>\<sigma> * y - d\<bar> \<le> u * \<bar>z\<bar> + (35 / 8) * (u * \<bar>r\<bar>)" using syz e' by linarith
  moreover have "0 \<le> u * \<bar>r\<bar>" using u0 by simp
  ultimately have "\<bar>\<sigma> * y - d\<bar> \<le> u * \<bar>d\<bar> + 5 * (u * \<bar>r\<bar>)"
    using uz uur by linarith
  then show ?thesis by (simp add: u_def)
qed

section \<open>EnvironmentalCollisionConstraint: the correction in rounded arithmetic\<close>

subsection \<open>The kernel at a normal along a coordinate axis\<close>

text \<open>
  With a normal \<open>\<sigma> e\<^sub>k\<close>, \<open>\<sigma> = \<plusminus>1\<close>, the products with the coefficients of the normal
  and the sums with their zeros are exact. Four operations round: the subtraction
  of \<open>d\<close>, the division by the inverse mass, the multiplication by it, and the
  addition to the position.
\<close>

lemma ieee_update_positions_1:
  "ieee_update_positions (Suc 0) k dx [a] h =
     h(a := (h a)\<lparr>part_p := ieee_vadd (part_p (h a)) (ieee_scale k (segment3 dx 0))\<rparr>)"
  by (simp add: ieee_update_positions_def ieee_move_def)

lemma ieee_sum_3: "ieee_sum [a, b, c] = fadd (fadd (fadd (Fin 0) a) b) c"
  by (simp add: ieee_sum_def)

lemma not_le_fmul_zero: "\<not> Fin 1 \<le> fmul X (Fin 0)"
  by (cases X) (simp_all add: fmul_def)

lemma sign_square: "\<sigma> = 1 \<or> \<sigma> = - 1 \<Longrightarrow> \<sigma> * \<sigma> = (1::real)"
  by auto

lemma is_double_sign_right: "\<sigma> = 1 \<or> \<sigma> = - 1 \<Longrightarrow> is_double x \<Longrightarrow> is_double (x * \<sigma>)"
  by auto

lemma ieee_dot_axis:
  assumes k: "k < 3" and sg: "\<sigma> = 1 \<or> \<sigma> = - 1"
    and d: "is_double (x 0)" "is_double (x (Suc 0))" "is_double (x 2)"
  shows "ieee_dot (axis k \<sigma>) (Vec3 (Fin (x 0)) (Fin (x (Suc 0))) (Fin (x 2))) = Fin (\<sigma> * x k)"
proof -
  from k consider "k = 0" | "k = Suc 0" | "k = 2" by linarith
  then show ?thesis
  proof cases
    case 1
    then show ?thesis using sg d
      by (simp add: axis_def fmul_sign_left fadd_0_left fadd_0_right is_double_sign)
  next
    case 2
    then show ?thesis using sg d
      by (simp add: axis_def fmul_sign_left fadd_0_left fadd_0_right is_double_sign)
  next
    case 3
    then show ?thesis using sg d
      by (simp add: axis_def fmul_sign_left fadd_0_left fadd_0_right is_double_sign)
  qed
qed

lemma ieee_isApprox_axis:
  assumes k: "k < 3" and sg: "\<sigma> = 1 \<or> \<sigma> = - 1"
  shows "\<not> ieee_isApprox (data (axis k \<sigma>)) (ZeroN (Suc 0 * 3))"
proof -
  have ds: "is_double \<sigma>" using sg by auto
  have z: "ZeroN 3 = [Fin 0, Fin 0, Fin 0]"
    by (simp add: ZeroN_def numeral_3_eq_3)
  have one: "rd (Fin 1) = Fin 1" by (simp add: rd_double)
  from k consider "k = 0" | "k = Suc 0" | "k = 2" by linarith
  then show ?thesis
  proof cases
    case 1
    then show ?thesis using sg ds
      by (simp add: z axis_def ieee_isApprox_def ieee_cwiseAbs2_def ieee_sum_3 fsub_Fin rd_double
          fmul_Fin fadd_Fin sign_square one mini_def not_le_fmul_zero)
  next
    case 2
    then show ?thesis using sg ds
      by (simp add: z axis_def ieee_isApprox_def ieee_cwiseAbs2_def ieee_sum_3 fsub_Fin rd_double
          fmul_Fin fadd_Fin sign_square one mini_def not_le_fmul_zero)
  next
    case 3
    then show ?thesis using sg ds
      by (simp add: z axis_def ieee_isApprox_def ieee_cwiseAbs2_def ieee_sum_3 fsub_Fin rd_double
          fmul_Fin fadd_Fin sign_square one mini_def not_le_fmul_zero)
  qed
qed

lemma ieee_denominator_axis:
  assumes k: "k < 3" and sg: "\<sigma> = 1 \<or> \<sigma> = - 1" and w: "is_double w"
  shows "ieee_denominator (data (axis k \<sigma>)) [Fin w, Fin w, Fin w] = Fin w"
proof -
  have e: "\<sigma> * w * \<sigma> = w" using sg by auto
  from k consider "k = 0" | "k = Suc 0" | "k = 2" by linarith
  then show ?thesis
  proof cases
    case 1
    then show ?thesis using sg w
      by (simp add: axis_def ieee_denominator_def ieee_sum_3 fmul_sign_left fmul_sign_right
          is_double_sign fadd_0_left fadd_0_right e)
  next
    case 2
    then show ?thesis using sg w
      by (simp add: axis_def ieee_denominator_def ieee_sum_3 fmul_sign_left fmul_sign_right
          is_double_sign fadd_0_left fadd_0_right e)
  next
    case 3
    then show ?thesis using sg w
      by (simp add: axis_def ieee_denominator_def ieee_sum_3 fmul_sign_left fmul_sign_right
          is_double_sign fadd_0_left fadd_0_right e)
  qed
qed

lemma ieee_delta_x_axis:
  assumes k: "k < 3" and sg: "\<sigma> = 1 \<or> \<sigma> = - 1" and r: "in_range (- s * w)"
  shows "ieee_delta_x (Fin s) [Fin w, Fin w, Fin w] (data (axis k \<sigma>)) =
         data (axis k (round_double (- s * w) * \<sigma>))"
proof -
  have m: "fmul (Fin (- s)) (Fin w) = Fin (round_double (- s * w))"
    using in_range_rd [OF r] by (simp add: fmul_Fin)
  have t: "is_double (round_double (- s * w))" by (rule in_range_double [OF r])
  from k consider "k = 0" | "k = Suc 0" | "k = 2" by linarith
  then show ?thesis
  proof cases
    case 1
    then show ?thesis using sg t
      by (simp add: axis_def ieee_delta_x_def m fmul_sign_right)
  next
    case 2
    then show ?thesis using sg t
      by (simp add: axis_def ieee_delta_x_def m fmul_sign_right)
  next
    case 3
    then show ?thesis using sg t
      by (simp add: axis_def ieee_delta_x_def m fmul_sign_right)
  qed
qed

lemma ieee_step_axis:
  assumes k: "k < 3" and v: "is_double v"
    and d: "is_double (x 0)" "is_double (x (Suc 0))" "is_double (x 2)"
    and r: "in_range (x k + v)"
  shows "ieee_vadd (Vec3 (Fin (x 0)) (Fin (x (Suc 0))) (Fin (x 2)))
           (ieee_scale (Fin 1) (segment3 (data (axis k v)) 0)) =
         Vec3 (Fin ((x(k := round_double (x k + v))) 0))
              (Fin ((x(k := round_double (x k + v))) (Suc 0)))
              (Fin ((x(k := round_double (x k + v))) 2))"
proof -
  have a: "fadd (Fin (x k)) (Fin v) = Fin (round_double (x k + v))"
    using in_range_rd [OF r] by (simp add: fadd_Fin)
  from k consider "k = 0" | "k = Suc 0" | "k = 2" by linarith
  then show ?thesis
  proof cases
    case 1
    then show ?thesis using v d a
      by (simp add: axis_def segment3_def fmul_1_left fadd_0_right)
  next
    case 2
    then show ?thesis using v d a
      by (simp add: axis_def segment3_def fmul_1_left fadd_0_right)
  next
    case 3
    then show ?thesis using v d a
      by (simp add: axis_def segment3_def fmul_1_left fadd_0_right)
  qed
qed

lemma ieee_collision_replay:
  fixes x :: "nat \<Rightarrow> real" and \<sigma> w d :: real
  assumes k: "k < 3" and sg: "\<sigma> = 1 \<or> \<sigma> = - 1"
    and w0: "part_w (h0 a) = Fin w" and w: "0 < w" and dw: "is_double w"
    and p: "part_p (h a) = Vec3 (Fin (x 0)) (Fin (x 1)) (Fin (x 2))"
    and dx: "is_double (x 0)" "is_double (x 1)" "is_double (x 2)"
    and c_def: "c = EnvironmentalCollisionConstraint h0 a (Fin 1) (axis k \<sigma>) (Fin d)"
    and C_def: "C = round_double (\<sigma> * x k - d)"
    and s_def: "s = round_double (C / w)"
    and t_def: "t = round_double (- s * w)"
    and y_def: "y = round_double (x k + \<sigma> * t)"
    and neg: "C < 0"
    and r1: "in_range (\<sigma> * x k - d)" and r2: "in_range (C / w)"
    and r3: "in_range (- s * w)" and r4: "in_range (x k + \<sigma> * t)"
  shows "ieee_EnvironmentalCollisionConstraint_calculateValue c h = Fin C"
    and "ieee_EnvironmentalCollisionConstraint_projectParticles c h =
           Inr (h(a := (h a)\<lparr>part_p :=
                  Vec3 (Fin ((x(k := y)) 0)) (Fin ((x(k := y)) 1)) (Fin ((x(k := y)) 2))\<rparr>))"
proof -
  have f: "m_particles c = [a]" "m_stiffness c = Fin 1" "m_inv_M c = [Fin w, Fin w, Fin w]"
    "m_sub c = EnvironmentalCollision (axis k \<sigma>) (Fin d)"
    using w0
    by (simp_all add: c_def EnvironmentalCollisionConstraint_def constructInverseMassMatrix_def
        numeral_3_eq_3)
  have p': "part_p (h a) = Vec3 (Fin (x 0)) (Fin (x (Suc 0))) (Fin (x 2))"
    using p by simp
  have dx': "is_double (x 0)" "is_double (x (Suc 0))" "is_double (x 2)"
    using dx by simp_all
  have dot: "ieee_dot (axis k \<sigma>) (part_p (h a)) = Fin (\<sigma> * x k)"
    unfolding p' by (rule ieee_dot_axis [OF k sg dx'])
  show val: "ieee_EnvironmentalCollisionConstraint_calculateValue c h = Fin C"
    using in_range_rd [OF r1]
    by (simp add: ieee_EnvironmentalCollisionConstraint_calculateValue_def pos_def f dot fsub_Fin
        C_def)
  have wz: "w \<noteq> 0" using w by simp
  have sv: "fdiv (Fin C) (Fin w) = Fin s"
    using in_range_rd [OF r2] by (simp add: fdiv_Fin [OF wz] s_def)
  have dt: "is_double t" unfolding t_def by (rule in_range_double [OF r3])
  have dst: "is_double (t * \<sigma>)" by (rule is_double_sign_right [OF sg dt])
  have r4': "in_range (x k + t * \<sigma>)" using r4 by (simp add: mult.commute)
  have delta: "ieee_delta_x (Fin s) [Fin w, Fin w, Fin w] (data (axis k \<sigma>)) =
               data (axis k (t * \<sigma>))"
    unfolding t_def by (rule ieee_delta_x_axis [OF k sg r3])
  have nn: "\<not> hasNaN (data (axis k (t * \<sigma>)))"
    by (simp add: hasNaN_def axis_def)
  have y': "round_double (x k + t * \<sigma>) = y" by (simp add: y_def mult.commute)
  have step: "ieee_vadd (part_p (h a))
                (ieee_scale (Fin 1) (segment3 (data (axis k (t * \<sigma>))) 0)) =
              Vec3 (Fin ((x(k := y)) 0)) (Fin ((x(k := y)) (Suc 0))) (Fin ((x(k := y)) 2))"
    unfolding p' using ieee_step_axis [OF k dst dx' r4'] unfolding y' .
  have kern: "ieee_projectPositions (Suc 0) (Fin C) (data (axis k \<sigma>)) [Fin w, Fin w, Fin w]
                (Fin 1) [a] h =
              Inr (h(a := (h a)\<lparr>part_p :=
                  Vec3 (Fin ((x(k := y)) 0)) (Fin ((x(k := y)) (Suc 0)))
                       (Fin ((x(k := y)) 2))\<rparr>))"
    using ieee_isApprox_axis [OF k sg]
    by (simp add: ieee_projectPositions_def ieee_denominator_axis [OF k sg dw] sv delta nn
        ieee_update_positions_1 step Let_def del: fun_upd_apply)
  show "ieee_EnvironmentalCollisionConstraint_projectParticles c h =
           Inr (h(a := (h a)\<lparr>part_p :=
                  Vec3 (Fin ((x(k := y)) 0)) (Fin ((x(k := y)) 1)) (Fin ((x(k := y)) 2))\<rparr>))"
    using neg kern
    by (simp add: ieee_EnvironmentalCollisionConstraint_projectParticles_def val f
        EnvironmentalCollisionConstraint_calculateGrad_def Let_def del: fun_upd_apply)
qed

subsection \<open>One unit under the plane, with inverse mass 49\<close>

lemma is_double_round_eq: "is_double x \<Longrightarrow> round_double x = x"
  unfolding is_double_def by (elim conjE)

lemma in_rangeI:
  "pow2 (- 1022) \<le> \<bar>v\<bar> \<Longrightarrow> \<bar>round_double v\<bar> < 2 ^ 1024 \<Longrightarrow> in_range v"
  unfolding in_range_def by (intro disjI2 conjI)

lemma in_range_small:
  assumes lo: "pow2 (- 1022) \<le> \<bar>v\<bar>" and r: "\<bar>round_double v\<bar> \<le> 1"
  shows "in_range v"
proof (rule in_rangeI [OF lo])
  have "(1::real) < 2 ^ 1024" by (rule one_less_power) simp_all
  with r show "\<bar>round_double v\<bar> < 2 ^ 1024" by linarith
qed

lemma pow2_minus_1: "pow2 (- 1) = 1 / 2"
  using pow2_diff [of 0 1] by simp

lemma tiny_le: "- 1022 \<le> k \<Longrightarrow> pow2 k \<le> v \<Longrightarrow> pow2 (- 1022) \<le> v"
proof -
  assume "- 1022 \<le> k" "pow2 k \<le> v"
  moreover from \<open>- 1022 \<le> k\<close> have "pow2 (- 1022) \<le> pow2 k" by (simp only: pow2_le_iff)
  ultimately show ?thesis by linarith
qed

lemma round_minus_one: "round_double (- 1) = - 1"
  by (rule is_double_round_eq) simp

lemma round_49th: "round_double (- 1 / 49) = - (5882252574524729 / 2 ^ 58)"
proof -
  have e: "expo (1 / 49) = - 6"
    by (rule expo_eqI) (simp_all add: pow2_neg_numeral)
  have "round_double (1 / 49) = of_int 5882252574524729 * pow2 (- 6 - 52)"
    by (rule round_double_eqI [OF _ e]) (simp_all add: pow2_neg_numeral)
  then have "round_double (1 / 49) = 5882252574524729 / 2 ^ 58"
    by (simp add: pow2_neg_numeral)
  then show ?thesis using round_double_minus [of "1 / 49"] by simp
qed

lemma round_product:
  "round_double (5882252574524729 / 2 ^ 58 * 49) = 1 - 1 / 2 ^ 53"
proof -
  let ?v = "5882252574524729 / 2 ^ 58 * 49 :: real"
  have e: "expo ?v = - 1"
    by (rule expo_eqI) (simp_all add: pow2_neg_numeral pow2_minus_1)
  have "round_double ?v = of_int 9007199254740991 * pow2 (- 1 - 52)"
    by (rule round_double_eqI [OF _ e]) (simp_all add: pow2_neg_numeral)
  then show ?thesis by (simp add: pow2_neg_numeral)
qed

lemma round_landing: "round_double (- (1 / 2 ^ 53)) = - (1 / 2 ^ 53)"
proof -
  have "round_double (pow2 (- 53)) = pow2 (- 53)" by (rule round_double_pow2) simp
  then have "round_double (1 / 2 ^ 53) = 1 / 2 ^ 53" by (simp only: pow2_neg_numeral)
  then show ?thesis by (simp only: round_double_minus)
qed

lemma heavy_floor_facts:
  fixes x :: "nat \<Rightarrow> real"
  defines "x \<equiv> \<lambda>j. if j = 1 then - 1 else 0"
  shows "part_w (heavy_scene 0) = Fin 49"
    and "is_double 49"
    and "part_p (heavy_scene 0) = Vec3 (Fin (x 0)) (Fin (x 1)) (Fin (x 2))"
    and "is_double (x 0)" and "is_double (x 1)" and "is_double (x 2)"
    and "heavy_floor_constraint =
           EnvironmentalCollisionConstraint heavy_scene 0 (Fin 1) (axis 1 1) (Fin 0)"
    and "- 1 = round_double (1 * x 1 - 0)"
    and "- (5882252574524729 / 2 ^ 58) = round_double (- 1 / 49)"
    and "1 - 1 / 2 ^ 53 = round_double (- (- (5882252574524729 / 2 ^ 58)) * 49)"
    and "- (1 / 2 ^ 53) = round_double (x 1 + 1 * (1 - 1 / 2 ^ 53))"
    and "in_range (1 * x 1 - 0)"
    and "in_range (- 1 / 49)"
    and "in_range (- (- (5882252574524729 / 2 ^ 58)) * 49)"
    and "in_range (x 1 + 1 * (1 - 1 / 2 ^ 53))"
proof -
  show "part_w (heavy_scene 0) = Fin 49" by (simp add: heavy_scene_def)
  show "is_double 49" by (rule is_double_numeral) simp
  show "part_p (heavy_scene 0) = Vec3 (Fin (x 0)) (Fin (x 1)) (Fin (x 2))"
    by (simp add: heavy_scene_def x_def)
  show "is_double (x 0)" "is_double (x 1)" "is_double (x 2)" by (simp_all add: x_def)
  show "heavy_floor_constraint =
           EnvironmentalCollisionConstraint heavy_scene 0 (Fin 1) (axis 1 1) (Fin 0)"
    by (simp add: heavy_floor_constraint_def up_def axis_def)
  have x1: "1 * x 1 - 0 = - 1" by (simp add: x_def)
  show "- 1 = round_double (1 * x 1 - 0)" unfolding x1 by (rule round_minus_one [symmetric])
  show "- (5882252574524729 / 2 ^ 58) = round_double (- 1 / 49)"
    by (rule round_49th [symmetric])
  have m: "- (- (5882252574524729 / 2 ^ 58)) * 49 = (5882252574524729 / 2 ^ 58 * 49 :: real)"
    by (simp only: minus_minus)
  show "1 - 1 / 2 ^ 53 = round_double (- (- (5882252574524729 / 2 ^ 58)) * 49)"
    unfolding m by (rule round_product [symmetric])
  have l: "x 1 + 1 * (1 - 1 / 2 ^ 53) = - (1 / 2 ^ 53)" by (simp add: x_def)
  show "- (1 / 2 ^ 53) = round_double (x 1 + 1 * (1 - 1 / 2 ^ 53))"
    unfolding l by (rule round_landing [symmetric])
  show "in_range (1 * x 1 - 0)"
    unfolding x1 by (rule in_range_small [OF tiny_le [of 0]]) (simp_all add: round_minus_one)
  show "in_range (- 1 / 49)"
    by (rule in_range_small [OF tiny_le [of "- 6"]])
      (use round_49th in \<open>simp_all add: pow2_neg_numeral\<close>)
  show "in_range (- (- (5882252574524729 / 2 ^ 58)) * 49)"
    unfolding m
    by (rule in_range_small [OF tiny_le [of "- 1"]])
      (use round_product in \<open>simp_all add: pow2_minus_1\<close>)
  show "in_range (x 1 + 1 * (1 - 1 / 2 ^ 53))"
    unfolding l
    by (rule in_range_small [OF tiny_le [of "- 53"]])
      (use round_landing in \<open>simp_all add: pow2_neg_numeral\<close>)
qed

text \<open>
  The particle at \<open>(0, -1, 0)\<close> with inverse mass 49 and the plane \<open>y = 0\<close>: the violation
  is \<open>C = -1\<close>, the quotient \<open>C / w\<close> rounds to \<open>-5882252574524729 / 2\<^sup>5\<^sup>8\<close>, its product
  with 49 rounds to \<open>1 - 2\<^sup>-\<^sup>5\<^sup>3\<close>, and the particle is moved to height \<open>-2\<^sup>-\<^sup>5\<^sup>3\<close>, where
  the violation is \<open>-2\<^sup>-\<^sup>5\<^sup>3\<close> and not 0: the correction is not \<open>- C n\<close> and the particle is
  not on the plane.
\<close>

theorem ieee_collision_misses_plane_counterexample:
  "ieee_EnvironmentalCollisionConstraint_calculateValue heavy_floor_constraint heavy_scene
     = Fin (- 1) \<and>
   ieee_EnvironmentalCollisionConstraint_projectParticles heavy_floor_constraint heavy_scene
     = Inr heavy_scene_after \<and>
   part_p (heavy_scene_after 0) = Vec3 (Fin 0) (Fin (- (1 / 2 ^ 53))) (Fin 0) \<and>
   ieee_EnvironmentalCollisionConstraint_calculateValue heavy_floor_constraint heavy_scene_after
     = Fin (- (1 / 2 ^ 53))"
proof -
  note f = heavy_floor_facts
  have three: "(1::nat) < 3" and sg: "(1::real) = 1 \<or> (1::real) = - 1" and w: "(0::real) < 49"
    and neg: "(- 1 :: real) < 0"
    by simp_all
  note replay = ieee_collision_replay
    [where k = 1 and \<sigma> = 1 and ?h0.0 = heavy_scene and a = 0 and w = 49 and h = heavy_scene
       and x = "\<lambda>j::nat. if j = 1 then - 1 else (0::real)" and c = heavy_floor_constraint and d = 0
       and C = "- 1" and s = "- (5882252574524729 / 2 ^ 58)" and t = "1 - 1 / 2 ^ 53"
       and y = "- (1 / 2 ^ 53)",
     OF three sg f(1) w f(2-11) neg f(12-15)]
  have v: "ieee_EnvironmentalCollisionConstraint_calculateValue heavy_floor_constraint
             heavy_scene = Fin (- 1)"
    by (rule replay(1))
  have a: "heavy_scene(0 := (heavy_scene 0)\<lparr>part_p :=
             Vec3 (Fin (((\<lambda>j::nat. if j = 1 then - 1 else (0::real))(1 := - (1 / 2 ^ 53))) 0))
                  (Fin (((\<lambda>j::nat. if j = 1 then - 1 else (0::real))(1 := - (1 / 2 ^ 53))) 1))
                  (Fin (((\<lambda>j::nat. if j = 1 then - 1 else (0::real))(1 := - (1 / 2 ^ 53))) 2))\<rparr>)
           = heavy_scene_after"
    by (simp add: heavy_scene_after_def heavy_scene_def)
  have p: "ieee_EnvironmentalCollisionConstraint_projectParticles heavy_floor_constraint
             heavy_scene = Inr heavy_scene_after"
    using replay(2) unfolding a .
  have q: "part_p (heavy_scene_after 0) = Vec3 (Fin 0) (Fin (- (1 / 2 ^ 53))) (Fin 0)"
    by (simp add: heavy_scene_after_def)
  have d53: "is_double (- (1 / 2 ^ 53))"
    using round_landing in_range_double [of "- (1 / 2 ^ 53)"] heavy_floor_facts(15)
    by (simp add: round_landing)
  have dot: "ieee_dot (axis 1 1) (part_p (heavy_scene_after 0)) = Fin (1 * (- (1 / 2 ^ 53)))"
    unfolding q
    using ieee_dot_axis [of 1 1 "\<lambda>j. if j = 1 then - (1 / 2 ^ 53) else 0"] d53
    by simp
  have v': "ieee_EnvironmentalCollisionConstraint_calculateValue heavy_floor_constraint
             heavy_scene_after = Fin (- (1 / 2 ^ 53))"
    using dot d53
    by (simp add: ieee_EnvironmentalCollisionConstraint_calculateValue_def pos_def
        heavy_floor_constraint_def EnvironmentalCollisionConstraint_def up_def axis_def
        fsub_Fin rd_double)
  from v p q v' show ?thesis by blast
qed

subsection \<open>The correction up to rounding\<close>

text \<open>
  C10. An EnvironmentalCollisionConstraint with a unit normal \<open>n = \<sigma> e\<^sub>k\<close> along a
  coordinate axis, stiffness 1 and a particle whose cached inverse mass is a
  \<open>w > 0\<close>; the position, \<open>d\<close> and \<open>w\<close> are doubles. When the computed violation
  \<open>C = fl(n \<sqdot> x - d)\<close> is negative and no operation underflows or overflows,
  \<^verbatim>\<open>projectParticles\<close> moves the particle along \<open>n\<close> by \<open>t = fl(- fl(C / w) * w)\<close> and
  leaves the other two coordinates unchanged. The inverse mass cancels up to rounding:
  \<open>|t - (- C)| \<le> 3 |C| / 2\<^sup>5\<^sup>3\<close>. After the call the particle is within rounding of the
  plane: \<open>|n \<sqdot> x' - d| \<le> 5 |n \<sqdot> x - d| / 2\<^sup>5\<^sup>3 + |d| / 2\<^sup>5\<^sup>3\<close>.
\<close>

theorem ieee_collision_correction_within_rounding:
  fixes x :: "nat \<Rightarrow> real" and \<sigma> w d C s t y :: real
  assumes k: "k < 3" and sg: "\<sigma> = 1 \<or> \<sigma> = - 1"
    and w0: "part_w (h0 a) = Fin w" and w: "0 < w" and dw: "is_double w"
    and p: "part_p (h a) = Vec3 (Fin (x 0)) (Fin (x 1)) (Fin (x 2))"
    and dx: "is_double (x 0)" "is_double (x 1)" "is_double (x 2)" and dd: "is_double d"
    and c_def: "c = EnvironmentalCollisionConstraint h0 a (Fin 1) (axis k \<sigma>) (Fin d)"
    and C_def: "C = round_double (\<sigma> * x k - d)"
    and s_def: "s = round_double (C / w)"
    and t_def: "t = round_double (- s * w)"
    and y_def: "y = round_double (x k + \<sigma> * t)"
    and neg: "C < 0"
    and r1: "in_range (\<sigma> * x k - d)" and r2: "in_range (C / w)"
    and r3: "in_range (- s * w)" and r4: "in_range (x k + \<sigma> * t)"
  shows "ieee_EnvironmentalCollisionConstraint_calculateValue c h = Fin C \<and>
         ieee_EnvironmentalCollisionConstraint_projectParticles c h =
           Inr (h(a := (h a)\<lparr>part_p :=
                  Vec3 (Fin ((x(k := y)) 0)) (Fin ((x(k := y)) 1)) (Fin ((x(k := y)) 2))\<rparr>)) \<and>
         \<bar>t - (- C)\<bar> \<le> 3 * \<bar>C\<bar> / 2 ^ 53 \<and>
         \<bar>\<sigma> * y - d\<bar> \<le> 5 * \<bar>\<sigma> * x k - d\<bar> / 2 ^ 53 + \<bar>d\<bar> / 2 ^ 53"
proof -
  note replay = ieee_collision_replay
    [where k = k and \<sigma> = \<sigma> and ?h0.0 = h0 and a = a and w = w and h = h and x = x
       and c = c and d = d and C = C and s = s and t = t and y = y,
     OF k sg w0 w dw p dx c_def C_def s_def t_def y_def neg r1 r2 r3 r4]
  have e1: "\<bar>C - (\<sigma> * x k - d)\<bar> \<le> \<bar>\<sigma> * x k - d\<bar> / 2 ^ 53"
    unfolding C_def by (rule in_range_error [OF r1])
  have e2: "\<bar>s - C / w\<bar> \<le> \<bar>C / w\<bar> / 2 ^ 53"
    unfolding s_def by (rule in_range_error [OF r2])
  have e3: "\<bar>t - (- s * w)\<bar> \<le> \<bar>- s * w\<bar> / 2 ^ 53"
    unfolding t_def by (rule in_range_error [OF r3])
  have e4: "\<bar>y - (x k + \<sigma> * t)\<bar> \<le> \<bar>x k + \<sigma> * t\<bar> / 2 ^ 53"
    unfolding y_def by (rule in_range_error [OF r4])
  have corr: "\<bar>t - (- C)\<bar> \<le> 3 * \<bar>C\<bar> / 2 ^ 53"
    by (rule correction_error [OF w e2 e3])
  have land: "\<bar>\<sigma> * y - d\<bar> \<le> 5 * \<bar>\<sigma> * x k - d\<bar> / 2 ^ 53 + \<bar>d\<bar> / 2 ^ 53"
    by (rule landing_error [OF sg refl e1 corr e4])
  from replay corr land show ?thesis by blast
qed

theorem ieee_collision_correction_within_rounding_witness:
  "ieee_EnvironmentalCollisionConstraint_calculateValue heavy_floor_constraint heavy_scene
     = Fin (- 1) \<and>
   ieee_EnvironmentalCollisionConstraint_projectParticles heavy_floor_constraint heavy_scene
     = Inr (heavy_scene(0 := (heavy_scene 0)\<lparr>part_p :=
              Vec3 (Fin 0) (Fin (- (1 / 2 ^ 53))) (Fin 0)\<rparr>)) \<and>
   \<bar>(1 - 1 / 2 ^ 53) - (- (- 1))\<bar> \<le> 3 * \<bar>- 1 :: real\<bar> / 2 ^ 53 \<and>
   \<bar>1 * (- (1 / 2 ^ 53)) - 0\<bar> \<le> 5 * \<bar>1 * (- 1) - 0 :: real\<bar> / 2 ^ 53 + \<bar>0\<bar> / 2 ^ 53"
proof -
  note f = heavy_floor_facts
  have three: "(1::nat) < 3" and sg: "(1::real) = 1 \<or> (1::real) = - 1" and w: "(0::real) < 49"
    and neg: "(- 1 :: real) < 0" and d0: "is_double 0"
    by simp_all
  note inst = ieee_collision_correction_within_rounding
    [where k = 1 and \<sigma> = 1 and ?h0.0 = heavy_scene and a = 0 and w = 49 and h = heavy_scene
       and x = "\<lambda>j::nat. if j = 1 then - 1 else (0::real)" and c = heavy_floor_constraint and d = 0
       and C = "- 1" and s = "- (5882252574524729 / 2 ^ 58)" and t = "1 - 1 / 2 ^ 53"
       and y = "- (1 / 2 ^ 53)",
     OF three sg f(1) w f(2-6) d0 f(7-11) neg f(12-15)]
  then show ?thesis by simp
qed

end
